theory Spec2Isabelle
  imports Complex_Main "HOL-Library.Sublist"
begin

section \<open>Python strings\<close>

text \<open>
  Strings are lists of 8-bit characters. ASCII is modelled exactly; a non-ASCII character
  of a source literal appears as its UTF-8 bytes and is neither case-mapped nor white
  space. The test \<^verbatim>\<open>a in b\<close> on strings is \<^const>\<open>sublist\<close>, \<^verbatim>\<open>s.startswith(p)\<close>
  is \<^const>\<open>prefix\<close>, and a slice \<^verbatim>\<open>s[:n]\<close> is \<^const>\<open>take\<close>.
\<close>

definition upper_char :: "char \<Rightarrow> char" where
  "upper_char c =
     (case map_of (zip ''abcdefghijklmnopqrstuvwxyz'' ''ABCDEFGHIJKLMNOPQRSTUVWXYZ'') c of
        Some u \<Rightarrow> u | None \<Rightarrow> c)"

definition lower_char :: "char \<Rightarrow> char" where
  "lower_char c =
     (case map_of (zip ''ABCDEFGHIJKLMNOPQRSTUVWXYZ'' ''abcdefghijklmnopqrstuvwxyz'') c of
        Some l \<Rightarrow> l | None \<Rightarrow> c)"

definition upper :: "string \<Rightarrow> string" where
  "upper s = map upper_char s"

definition lower :: "string \<Rightarrow> string" where
  "lower s = map lower_char s"

definition is_space :: "char \<Rightarrow> bool" where
  "is_space c \<longleftrightarrow>
     c \<in> set [CHR 0x09, CHR 0x0A, CHR 0x0B, CHR 0x0C, CHR 0x0D,
               CHR 0x1C, CHR 0x1D, CHR 0x1E, CHR 0x1F, CHR 0x20]"

definition strip :: "string \<Rightarrow> string" where
  "strip s = rev (dropWhile is_space (rev (dropWhile is_space s)))"

text \<open>\<^verbatim>\<open>s.split(sep)\<close> for a separator: left to right, occurrences do not overlap.\<close>

fun split_from :: "string \<Rightarrow> string \<Rightarrow> string \<Rightarrow> string list" where
  "split_from sep acc [] = [rev acc]"
| "split_from sep acc (c # cs) =
     (if sep \<noteq> [] \<and> prefix sep (c # cs)
      then rev acc # split_from sep [] (drop (length sep - 1) cs)
      else split_from sep (c # acc) cs)"

definition split :: "string \<Rightarrow> string \<Rightarrow> string list" where
  "split s sep = split_from sep [] s"

text \<open>\<^verbatim>\<open>s.split()\<close>: the maximal runs of characters that are not white space.\<close>

fun split_ws_from :: "string \<Rightarrow> string \<Rightarrow> string list" where
  "split_ws_from acc [] = (if acc = [] then [] else [rev acc])"
| "split_ws_from acc (c # cs) =
     (if is_space c
      then (if acc = [] then split_ws_from [] cs else rev acc # split_ws_from [] cs)
      else split_ws_from (c # acc) cs)"

definition split_ws :: "string \<Rightarrow> string list" where
  "split_ws s = split_ws_from [] s"

fun join :: "string \<Rightarrow> string list \<Rightarrow> string" where
  "join sep [] = []"
| "join sep [x] = x"
| "join sep (x # y # ys) = x @ sep @ join sep (y # ys)"

text \<open>\<^verbatim>\<open>s.replace(c, "")\<close> for a one-character pattern.\<close>

definition remove_char :: "char \<Rightarrow> string \<Rightarrow> string" where
  "remove_char c s = filter (\<lambda>d. d \<noteq> c) s"

definition digit_char :: "nat \<Rightarrow> char" where
  "digit_char d = ''0123456789'' ! (d mod 10)"

fun str_nat :: "nat \<Rightarrow> string" where
  "str_nat n = (if n < 10 then [digit_char n] else str_nat (n div 10) @ [digit_char n])"

declare str_nat.simps [simp del]

definition str_int :: "int \<Rightarrow> string" where
  "str_int i = (if i < 0 then CHR ''-'' # str_nat (nat (- i)) else str_nat (nat i))"

text \<open>The last element of a list that is known not to be empty (\<^verbatim>\<open>xs[-1]\<close>).\<close>

definition last_part :: "string list \<Rightarrow> string" where
  "last_part xs = (case rev xs of [] \<Rightarrow> [] | x # _ \<Rightarrow> x)"

definition first_part :: "string list \<Rightarrow> string" where
  "first_part xs = (case xs of [] \<Rightarrow> [] | x # _ \<Rightarrow> x)"

section \<open>The verification engine (tools/testing\_tools.py)\<close>

subsection \<open>The outside world\<close>

text \<open>
  The container runtime, the sockets, the clock and the library parsers are parameters.
  Every call to the outside carries the number of calls made before it, so that the same
  command may answer differently when it is repeated (a container that becomes healthy).
  \<^verbatim>\<open>subprocess.run\<close> either exits with a return code and two output streams or raises;
  \<^verbatim>\<open>json.loads\<close> raises JSONDecodeError, or returns an object or some other value;
  the socket probe of a host port gives the result of \<^verbatim>\<open>connect_ex\<close>, or nothing when
  \<^verbatim>\<open>int(host_port)\<close> or the socket raised. Floating-point numbers are an abstract type
  \<open>'f\<close> with the three operations the code uses.
\<close>

datatype proc = Exited int string string | Raised string

record cmd_result =
  success :: bool
  stdout :: string
  stderr :: string

datatype json_val = JStr string | JOther

datatype json_doc = JSONDecodeError | JNonObject | JObject "string \<Rightarrow> json_val option"

datatype py_error = AttributeError | TypeError | OSError

record 'f world =
  subprocess_run :: "nat \<Rightarrow> string list \<Rightarrow> proc"
  json_loads :: "string \<Rightarrow> json_doc"
  connect_ex :: "nat \<Rightarrow> string \<Rightarrow> int option"
  time_time :: "nat \<Rightarrow> int"
  float_of :: "string \<Rightarrow> 'f option"
  float_gt :: "'f \<Rightarrow> int \<Rightarrow> bool"
  float_str :: "'f \<Rightarrow> string"
  timestamp :: string

definition run_cmd :: "'f world \<Rightarrow> nat \<Rightarrow> string list \<Rightarrow> cmd_result" where
  "run_cmd w t cmd =
     (case subprocess_run w t cmd of
        Exited rc out err \<Rightarrow> \<lparr>success = (rc = 0), stdout = strip out, stderr = strip err\<rparr>
      | Raised e \<Rightarrow> \<lparr>success = False, stdout = [], stderr = e\<rparr>)"

definition dict_get :: "(string \<Rightarrow> json_val option) \<Rightarrow> string \<Rightarrow> json_val \<Rightarrow> json_val" where
  "dict_get d k dflt = (case d k of Some v \<Rightarrow> v | None \<Rightarrow> dflt)"

fun collect_services :: "'f world \<Rightarrow> string list \<Rightarrow> py_error + json_val list" where
  "collect_services w [] = Inr []"
| "collect_services w (line # ls) =
     (if strip line \<noteq> [] then
        (case json_loads w line of
           JSONDecodeError \<Rightarrow> collect_services w ls
         | JNonObject \<Rightarrow> Inl AttributeError
         | JObject d \<Rightarrow>
             (case collect_services w ls of
                Inl e \<Rightarrow> Inl e
              | Inr vs \<Rightarrow> Inr (dict_get d ''Name'' (dict_get d ''Service'' (JStr [])) # vs)))
      else collect_services w ls)"

definition get_compose_services :: "'f world \<Rightarrow> nat \<Rightarrow> string \<Rightarrow> py_error + json_val list" where
  "get_compose_services w t file_path =
     (let result = run_cmd w t [''docker'', ''compose'', ''-f'', file_path, ''ps'', ''--format'', ''json'']
      in if \<not> success result then Inr []
         else collect_services w (split (strip (stdout result)) ''\<newline>''))"

fun is_str :: "json_val \<Rightarrow> bool" where
  "is_str (JStr s) = True"
| "is_str JOther = False"

fun str_of :: "json_val \<Rightarrow> string" where
  "str_of (JStr s) = s"
| "str_of JOther = []"

text \<open>\<^verbatim>\<open>sep.join(vs)\<close> raises TypeError when an item is not a string.\<close>

definition join_vals :: "string \<Rightarrow> json_val list \<Rightarrow> py_error + string" where
  "join_vals sep vs = (if list_all is_str vs then Inr (join sep (map str_of vs)) else Inl TypeError)"

subsection \<open>The report under construction\<close>

record test_state =
  report_lines :: "string list"
  pass_count :: nat
  warn_count :: nat
  fail_count :: nat
  clock :: nat

text \<open>
  \<^verbatim>\<open>out.split("\n") if out else []\<close>, then every entry stripped and the empty ones dropped.
\<close>

definition container_names :: "string \<Rightarrow> string list" where
  "container_names out =
     map strip (filter (\<lambda>c. strip c \<noteq> []) (if out \<noteq> [] then split out ''\<newline>'' else []))"

subsection \<open>Test 1: containers running\<close>

definition container_running_test :: "'f world \<Rightarrow> string \<Rightarrow> test_state \<Rightarrow> string list \<times> test_state" where
  "container_running_test w file_path st =
     (let ts = timestamp w;
          running_result = run_cmd w (clock st)
            [''docker'', ''compose'', ''-f'', file_path, ''ps'', ''--status'', ''running'', ''--format'', ''{{.Name}}''];
          running_containers = container_names (stdout running_result);
          all_result = run_cmd w (clock st + 1)
            [''docker'', ''compose'', ''-f'', file_path, ''ps'', ''--format'', ''{{.Name}}''];
          all_containers = container_names (stdout all_result);
          not_running = filter (\<lambda>c. c \<notin> set running_containers) all_containers;
          st1 = st\<lparr>clock := clock st + 2\<rparr>
      in if not_running = [] \<and> running_containers \<noteq> [] then
           (running_containers,
            st1\<lparr>report_lines := report_lines st1 @
                   [''['' @ ts @ ''] [PASS] Container Running Test   : ALL '' @
                    str_nat (length running_containers) @ '' running''],
                 pass_count := pass_count st1 + 1\<rparr>)
         else if not_running \<noteq> [] then
           (running_containers,
            st1\<lparr>report_lines := report_lines st1 @
                   [''['' @ ts @ ''] [FAIL] Container Running Test   : '' @
                    join '', '' not_running @ '' not running''],
                 fail_count := fail_count st1 + 1\<rparr>)
         else
           (running_containers,
            st1\<lparr>report_lines := report_lines st1 @
                   [''['' @ ts @ ''] [FAIL] Container Running Test   : No containers found''],
                 fail_count := fail_count st1 + 1\<rparr>))"

subsection \<open>Test 2: health\<close>

text \<open>
  The inner loop polls at most 12 times; it ends early with the status it read, and with
  nothing when no poll gave one of the three known statuses.
\<close>

fun poll_health :: "'f world \<Rightarrow> string \<Rightarrow> nat \<Rightarrow> nat \<Rightarrow> string option \<times> nat" where
  "poll_health w container 0 t = (None, t)"
| "poll_health w container (Suc k) t =
     (let result = run_cmd w t
            [''docker'', ''inspect'', ''--format'',
             ''{{if .State.Health}}{{.State.Health.Status}}{{else}}no healthcheck{{end}}'', container];
          status = strip (stdout result)
      in if status = ''healthy'' then (Some ''healthy'', t + 1)
         else if status = ''no healthcheck'' then (Some ''no healthcheck'', t + 1)
         else if status = ''unhealthy'' then (Some ''unhealthy'', t + 1)
         else poll_health w container k (t + 1))"

fun health_loop :: "'f world \<Rightarrow> string list \<Rightarrow> string list \<Rightarrow> nat \<Rightarrow> string list \<times> nat" where
  "health_loop w [] health_results t = (health_results, t)"
| "health_loop w (container # cs) health_results t =
     (case poll_health w container 12 t of (found, t') \<Rightarrow>
        (let healthy = (found = Some ''healthy'');
             hr1 = (case found of Some s \<Rightarrow> health_results @ [container @ ''='' @ s]
                                | None \<Rightarrow> health_results);
             hr2 = (if \<not> healthy \<and> \<not> sublist (container @ ''='') (join '' '' hr1)
                    then hr1 @ [container @ ''=timeout''] else hr1)
         in health_loop w cs hr2 t'))"

definition health_check_test :: "'f world \<Rightarrow> string list \<Rightarrow> test_state \<Rightarrow> test_state" where
  "health_check_test w running_containers st =
     (case health_loop w running_containers [] (clock st) of (health_results, t') \<Rightarrow>
        (let ts = timestamp w;
             unhealthy = filter (\<lambda>h. sublist ''unhealthy'' h \<or> sublist ''timeout'' h) health_results;
             no_hc = filter (\<lambda>h. sublist ''no healthcheck'' h) health_results;
             st1 = st\<lparr>clock := t'\<rparr>
         in if unhealthy \<noteq> [] then
              st1\<lparr>report_lines := report_lines st1 @
                     [''['' @ ts @ ''] [FAIL] Health Check Test        : '' @ join '', '' health_results],
                   fail_count := fail_count st1 + 1\<rparr>
            else if no_hc \<noteq> [] then
              st1\<lparr>report_lines := report_lines st1 @
                     [''['' @ ts @ ''] [WARN] Health Check Test        : '' @ join '', '' health_results],
                   warn_count := warn_count st1 + 1\<rparr>
            else
              st1\<lparr>report_lines := report_lines st1 @
                     [''['' @ ts @ ''] [PASS] Health Check Test        : '' @ join '', '' health_results],
                   pass_count := pass_count st1 + 1\<rparr>))"

subsection \<open>Test 3: port binding\<close>

fun port_lines_loop :: "'f world \<Rightarrow> string list \<Rightarrow> string list \<Rightarrow> nat \<Rightarrow> string list \<times> nat" where
  "port_lines_loop w [] port_results t = (port_results, t)"
| "port_lines_loop w (port_line # ls) port_results t =
     (if sublist ''->'' port_line then
        (let host_part = strip (last_part (split port_line ''->''))
         in if sublist '':'' host_part then
              (let host_port = last_part (split host_part '':'')
               in case connect_ex w t host_port of
                    Some conn_result \<Rightarrow>
                      (if conn_result = 0
                       then port_lines_loop w ls (port_results @ [host_port @ ''=open'']) (t + 1)
                       else port_lines_loop w ls (port_results @ [host_port @ ''=closed'']) (t + 1))
                  | None \<Rightarrow> port_lines_loop w ls (port_results @ [host_port @ ''=error'']) (t + 1))
            else port_lines_loop w ls port_results t)
      else port_lines_loop w ls port_results t)"

fun port_loop :: "'f world \<Rightarrow> string list \<Rightarrow> string list \<Rightarrow> nat \<Rightarrow> string list \<times> nat" where
  "port_loop w [] port_results t = (port_results, t)"
| "port_loop w (container # cs) port_results t =
     (let result = run_cmd w t [''docker'', ''port'', container]
      in if success result \<and> stdout result \<noteq> [] then
           (case port_lines_loop w (split (stdout result) ''\<newline>'') port_results (t + 1) of
              (port_results', t') \<Rightarrow> port_loop w cs port_results' t')
         else port_loop w cs port_results (t + 1))"

definition port_binding_test :: "'f world \<Rightarrow> string list \<Rightarrow> test_state \<Rightarrow> test_state" where
  "port_binding_test w running_containers st =
     (case port_loop w running_containers [] (clock st) of (port_results, t') \<Rightarrow>
        (let ts = timestamp w;
             port_failures = filter (\<lambda>p. sublist ''closed'' p \<or> sublist ''error'' p) port_results;
             st1 = st\<lparr>clock := t'\<rparr>
         in if port_results \<noteq> [] \<and> port_failures = [] then
              st1\<lparr>report_lines := report_lines st1 @
                     [''['' @ ts @ ''] [PASS] Port Binding Test        : '' @ join '', '' port_results],
                   pass_count := pass_count st1 + 1\<rparr>
            else if port_failures \<noteq> [] then
              st1\<lparr>report_lines := report_lines st1 @
                     [''['' @ ts @ ''] [FAIL] Port Binding Test        : '' @ join '', '' port_results],
                   fail_count := fail_count st1 + 1\<rparr>
            else
              st1\<lparr>report_lines := report_lines st1 @
                     [''['' @ ts @ ''] [WARN] Port Binding Test        : No port mappings found''],
                   warn_count := warn_count st1 + 1\<rparr>))"

subsection \<open>Test 4: connectivity between services\<close>

fun connectivity_loop :: "'f world \<Rightarrow> string \<Rightarrow> string list \<Rightarrow> string list \<Rightarrow> nat \<Rightarrow> string list \<times> nat" where
  "connectivity_loop w first_container [] connectivity_results t = (connectivity_results, t)"
| "connectivity_loop w first_container (other # os) connectivity_results t =
     (let result = run_cmd w t
            [''docker'', ''exec'', first_container, ''ping'', ''-c'', ''1'', ''-W'', ''2'', other]
      in if success result then
           connectivity_loop w first_container os (connectivity_results @ [other @ ''=reachable'']) (t + 1)
         else
           (let short_name = (if sublist ''-'' other then last_part (split other ''-'') else other);
                result2 = run_cmd w (t + 1)
                  [''docker'', ''exec'', first_container, ''ping'', ''-c'', ''1'', ''-W'', ''2'', short_name]
            in if success result2 then
                 connectivity_loop w first_container os
                   (connectivity_results @ [short_name @ ''=reachable'']) (t + 2)
               else
                 connectivity_loop w first_container os
                   (connectivity_results @ [other @ ''=unreachable'']) (t + 2)))"

text \<open>The em dash of the source is the three bytes of its UTF-8 encoding.\<close>

definition em_dash :: string where
  "em_dash = [CHR 0xE2, CHR 0x80, CHR 0x94]"

definition connectivity_test :: "'f world \<Rightarrow> string list \<Rightarrow> test_state \<Rightarrow> test_state" where
  "connectivity_test w running_containers st =
     (let ts = timestamp w
      in if length running_containers > 1 then
           (case connectivity_loop w (hd running_containers) (tl running_containers) [] (clock st) of
              (connectivity_results, t') \<Rightarrow>
                (let unreachable = filter (\<lambda>c. sublist ''unreachable'' c) connectivity_results;
                     st1 = st\<lparr>clock := t'\<rparr>
                 in if unreachable \<noteq> [] then
                      st1\<lparr>report_lines := report_lines st1 @
                             [''['' @ ts @ ''] [WARN] Connectivity Test        : '' @
                              join '', '' connectivity_results],
                           warn_count := warn_count st1 + 1\<rparr>
                    else
                      st1\<lparr>report_lines := report_lines st1 @
                             [''['' @ ts @ ''] [PASS] Connectivity Test        : '' @
                              join '', '' connectivity_results],
                           pass_count := pass_count st1 + 1\<rparr>))
         else
           st\<lparr>report_lines := report_lines st @
                  [''['' @ ts @ ''] [PASS] Connectivity Test        : Single service '' @ em_dash @ '' skipped''],
               pass_count := pass_count st + 1\<rparr>)"

subsection \<open>Test 5: volume mounts\<close>

fun mounts_loop :: "'f world \<Rightarrow> string \<Rightarrow> string list \<Rightarrow> string list \<Rightarrow> nat \<Rightarrow> string list \<times> nat" where
  "mounts_loop w container [] volume_results t = (volume_results, t)"
| "mounts_loop w container (mount # ms) volume_results t =
     (let test_file = mount @ ''/.devops_test_'' @ str_int (time_time w t);
          write_result = run_cmd w (t + 1)
            [''docker'', ''exec'', container, ''sh'', ''-c'',
             ''echo test > '' @ test_file @ '' && cat '' @ test_file @ '' && rm '' @ test_file]
      in if success write_result
         then mounts_loop w container ms (volume_results @ [mount @ ''=writable'']) (t + 2)
         else mounts_loop w container ms (volume_results @ [mount @ ''=not_writable'']) (t + 2))"

fun volume_loop :: "'f world \<Rightarrow> string list \<Rightarrow> string list \<Rightarrow> nat \<Rightarrow> string list \<times> nat" where
  "volume_loop w [] volume_results t = (volume_results, t)"
| "volume_loop w (container # cs) volume_results t =
     (let result = run_cmd w t
            [''docker'', ''inspect'', ''--format'', ''{{range .Mounts}}{{.Destination}} {{end}}'', container]
      in if success result \<and> strip (stdout result) \<noteq> [] then
           (let mounts = split_ws (strip (stdout result))
            in case mounts_loop w container (take 2 mounts) volume_results (t + 1) of
                 (volume_results', t') \<Rightarrow> volume_loop w cs volume_results' t')
         else volume_loop w cs volume_results (t + 1))"

definition volume_mount_test :: "'f world \<Rightarrow> string list \<Rightarrow> test_state \<Rightarrow> test_state" where
  "volume_mount_test w running_containers st =
     (case volume_loop w running_containers [] (clock st) of (volume_results, t') \<Rightarrow>
        (let ts = timestamp w;
             st1 = st\<lparr>clock := t'\<rparr>
         in if volume_results \<noteq> [] then
              (let not_writable = filter (\<lambda>v. sublist ''not_writable'' v) volume_results
               in if not_writable \<noteq> [] then
                    st1\<lparr>report_lines := report_lines st1 @
                           [''['' @ ts @ ''] [WARN] Volume Mount Test        : '' @ join '', '' volume_results],
                         warn_count := warn_count st1 + 1\<rparr>
                  else
                    st1\<lparr>report_lines := report_lines st1 @
                           [''['' @ ts @ ''] [PASS] Volume Mount Test        : '' @ join '', '' volume_results],
                         pass_count := pass_count st1 + 1\<rparr>)
            else
              st1\<lparr>report_lines := report_lines st1 @
                     [''['' @ ts @ ''] [PASS] Volume Mount Test        : No volumes to test''],
                   pass_count := pass_count st1 + 1\<rparr>))"

subsection \<open>Test 6: environment variables\<close>

fun env_loop :: "'f world \<Rightarrow> string list \<Rightarrow> string list \<Rightarrow> nat \<Rightarrow> string list \<times> nat" where
  "env_loop w [] env_results t = (env_results, t)"
| "env_loop w (container # cs) env_results t =
     (let result = run_cmd w t [''docker'', ''exec'', container, ''env'']
      in if success result then
           (let env_count = length (split (stdout result) ''\<newline>'')
            in env_loop w cs (env_results @ [container @ ''='' @ str_nat env_count @ '' vars'']) (t + 1))
         else env_loop w cs (env_results @ [container @ ''=cannot read env'']) (t + 1))"

definition environment_variable_test :: "'f world \<Rightarrow> string list \<Rightarrow> test_state \<Rightarrow> test_state" where
  "environment_variable_test w running_containers st =
     (case env_loop w running_containers [] (clock st) of (env_results, t') \<Rightarrow>
        (let ts = timestamp w;
             env_failures = filter (\<lambda>e. sublist ''cannot'' e) env_results;
             st1 = st\<lparr>clock := t'\<rparr>
         in if env_failures \<noteq> [] then
              st1\<lparr>report_lines := report_lines st1 @
                     [''['' @ ts @ ''] [WARN] Environment Variable Test : '' @ join '', '' env_results],
                   warn_count := warn_count st1 + 1\<rparr>
            else
              st1\<lparr>report_lines := report_lines st1 @
                     [''['' @ ts @ ''] [PASS] Environment Variable Test : '' @ join '', '' env_results],
                   pass_count := pass_count st1 + 1\<rparr>))"

subsection \<open>Test 7: log output\<close>

definition error_keywords :: "string list" where
  "error_keywords = [''panic'', ''fatal'', ''error'', ''exception'', ''refused'', ''timeout'']"

fun log_loop :: "'f world \<Rightarrow> string list \<Rightarrow> string list \<Rightarrow> nat \<Rightarrow> string list \<times> nat" where
  "log_loop w [] log_issues t = (log_issues, t)"
| "log_loop w (container # cs) log_issues t =
     (let result = run_cmd w t [''docker'', ''logs'', ''--tail'', ''20'', container];
          output = lower (stdout result @ '' '' @ stderr result);
          found = filter (\<lambda>kw. sublist kw output) error_keywords
      in if found \<noteq> []
         then log_loop w cs (log_issues @ [container @ '': found ['' @ join '', '' found @ '']'']) (t + 1)
         else log_loop w cs log_issues (t + 1))"

definition log_output_test :: "'f world \<Rightarrow> string list \<Rightarrow> test_state \<Rightarrow> test_state" where
  "log_output_test w running_containers st =
     (case log_loop w running_containers [] (clock st) of (log_issues, t') \<Rightarrow>
        (let ts = timestamp w;
             st1 = st\<lparr>clock := t'\<rparr>
         in if log_issues \<noteq> [] then
              st1\<lparr>report_lines := report_lines st1 @
                     [''['' @ ts @ ''] [WARN] Log Output Test          : '' @ join ''; '' log_issues],
                   warn_count := warn_count st1 + 1\<rparr>
            else
              st1\<lparr>report_lines := report_lines st1 @
                     [''['' @ ts @ ''] [PASS] Log Output Test          : No error keywords in startup logs''],
                   pass_count := pass_count st1 + 1\<rparr>))"

subsection \<open>Test 8: resource baseline\<close>

text \<open>
  Both percentages are parsed before either is compared; a ValueError from either parse
  is swallowed and leaves no warning for that container.
\<close>

fun resource_loop :: "'f world \<Rightarrow> string list \<Rightarrow> string list \<Rightarrow> nat \<Rightarrow> string list \<times> nat" where
  "resource_loop w [] resource_warnings t = (resource_warnings, t)"
| "resource_loop w (container # cs) resource_warnings t =
     (let result = run_cmd w t
            [''docker'', ''stats'', ''--no-stream'', ''--format'', ''{{.CPUPerc}}'' @ [CHR 0x09] @ ''{{.MemPerc}}'', container]
      in if success result \<and> stdout result \<noteq> [] then
           (let parts = split (stdout result) [CHR 0x09]
            in if length parts \<ge> 2 then
                 (case float_of w (remove_char CHR ''%'' (parts ! 0)) of
                    None \<Rightarrow> resource_loop w cs resource_warnings (t + 1)
                  | Some cpu \<Rightarrow>
                      (case float_of w (remove_char CHR ''%'' (parts ! 1)) of
                         None \<Rightarrow> resource_loop w cs resource_warnings (t + 1)
                       | Some mem \<Rightarrow>
                           (let rw1 = (if float_gt w cpu 50
                                       then resource_warnings @ [container @ '': CPU='' @ float_str w cpu @ ''%'']
                                       else resource_warnings);
                                rw2 = (if float_gt w mem 70
                                       then rw1 @ [container @ '': MEM='' @ float_str w mem @ ''%'']
                                       else rw1)
                            in resource_loop w cs rw2 (t + 1))))
               else resource_loop w cs resource_warnings (t + 1))
         else resource_loop w cs resource_warnings (t + 1))"

definition resource_baseline_test :: "'f world \<Rightarrow> string list \<Rightarrow> test_state \<Rightarrow> test_state" where
  "resource_baseline_test w running_containers st =
     (case resource_loop w running_containers [] (clock st) of (resource_warnings, t') \<Rightarrow>
        (let ts = timestamp w;
             st1 = st\<lparr>clock := t'\<rparr>
         in if resource_warnings \<noteq> [] then
              st1\<lparr>report_lines := report_lines st1 @
                     [''['' @ ts @ ''] [WARN] Resource Baseline Test   : '' @ join '', '' resource_warnings],
                   warn_count := warn_count st1 + 1\<rparr>
            else
              st1\<lparr>report_lines := report_lines st1 @
                     [''['' @ ts @ ''] [PASS] Resource Baseline Test   : All containers within normal limits''],
                   pass_count := pass_count st1 + 1\<rparr>))"

subsection \<open>The final verdict and the whole suite\<close>

definition heavy_rule :: "nat \<Rightarrow> string" where
  "heavy_rule n = concat (replicate n [CHR 0xE2, CHR 0x94, CHR 0x81])"

definition light_rule :: "nat \<Rightarrow> string" where
  "light_rule n = concat (replicate n [CHR 0xE2, CHR 0x94, CHR 0x80])"

definition verdict :: "nat \<Rightarrow> nat \<Rightarrow> string" where
  "verdict fails warns =
     (if fails > 0 then ''FAILED '' @ em_dash @ '' rollback recommended''
      else if warns > 0 then ''ACCEPTED WITH WARNINGS''
      else ''SUCCESSFUL'')"

definition final_verdict :: "'f world \<Rightarrow> test_state \<Rightarrow> test_state" where
  "final_verdict w st =
     (let ts = timestamp w
      in st\<lparr>report_lines := report_lines st @
             [''['' @ ts @ ''] [TEST] '' @ light_rule 37,
              ''['' @ ts @ ''] [TEST] Result: '' @ str_nat (pass_count st) @ '' PASS / '' @
                str_nat (warn_count st) @ '' WARN / '' @ str_nat (fail_count st) @ '' FAIL'',
              ''['' @ ts @ ''] [TEST] Deployment: '' @ verdict (fail_count st) (warn_count st),
              ''['' @ ts @ ''] [TEST] '' @ heavy_rule 36]\<rparr>)"

definition report_header :: "'f world \<Rightarrow> string \<Rightarrow> string \<Rightarrow> string list" where
  "report_header w file_path shown =
     (let ts = timestamp w
      in [''['' @ ts @ ''] [TEST] '' @ heavy_rule 2 @ '' DEPLOYMENT TEST REPORT '' @ heavy_rule 12,
          ''['' @ ts @ ''] [TEST] Compose File : '' @ file_path,
          ''['' @ ts @ ''] [TEST] Services     : '' @ shown,
          ''['' @ ts @ ''] [TEST] '' @ light_rule 37])"

text \<open>The eight tests in the order of the source, from the state holding the header.\<close>

definition eight_tests :: "'f world \<Rightarrow> string \<Rightarrow> test_state \<Rightarrow> test_state" where
  "eight_tests w file_path st0 =
     (case container_running_test w file_path st0 of (running_containers, st1) \<Rightarrow>
        resource_baseline_test w running_containers
          (log_output_test w running_containers
            (environment_variable_test w running_containers
              (volume_mount_test w running_containers
                (connectivity_test w running_containers
                  (port_binding_test w running_containers
                    (health_check_test w running_containers st1)))))))"

text \<open>
  The function up to its last statement: the state that holds the finished report lines
  and the three counters. It raises where \<^verbatim>\<open>_get_compose_services\<close> or the join of the
  service names raises.
\<close>

definition run_post_deploy_tests_state :: "'f world \<Rightarrow> string \<Rightarrow> string \<Rightarrow> py_error + test_state" where
  "run_post_deploy_tests_state w file_path expected_services =
     (case get_compose_services w 0 file_path of
        Inl e \<Rightarrow> Inl e
      | Inr services \<Rightarrow>
          (let expected = (if expected_services \<noteq> []
                           then map (\<lambda>s. JStr (strip s)) (split expected_services '','')
                           else services)
           in case (if expected \<noteq> [] then join_vals '', '' expected else Inr ''none detected'') of
                Inl e \<Rightarrow> Inl e
              | Inr shown \<Rightarrow>
                  Inr (final_verdict w
                        (eight_tests w file_path
                          \<lparr>report_lines = report_header w file_path shown,
                           pass_count = 0, warn_count = 0, fail_count = 0, clock = 1\<rparr>))))"

definition run_post_deploy_tests :: "'f world \<Rightarrow> string \<Rightarrow> string \<Rightarrow> py_error + string" where
  "run_post_deploy_tests w file_path expected_services =
     (case run_post_deploy_tests_state w file_path expected_services of
        Inl e \<Rightarrow> Inl e
      | Inr st \<Rightarrow> Inr (join ''\<newline>'' (report_lines st)))"

section \<open>The workflows (temporal/workflows.py, temporal/activities.py)\<close>

subsection \<open>Steps, their options and the log of a run\<close>

text \<open>
  A run is a function of the outcomes of the steps it invokes. Each activity of the
  environment answers with its text, or with nothing when the substrate gave the step up
  (the awaiting workflow then fails). A run yields the ordered log of the invocations it
  made, each with the options it was started with, and how it ended. Time-outs are in
  seconds. The modification times of the backup files are of any linearly ordered type.
\<close>

datatype retry_policy = RetryPolicy (maximum_attempts: nat)

record options =
  start_to_close_timeout :: nat
  heartbeat_timeout :: "nat option"
  retry_policy :: "retry_policy option"

datatype arg =
    Str string
  | ComposeInput string bool bool
  | TestInput string string
  | BackupInput string
  | RollbackInput string string
  | NoArg

datatype call =
    Activity string arg options
  | ChildWorkflow string arg string "call list"
  | Sleep int

datatype run_result = Returned string | Failed

record health_check_result =
  report :: string
  has_failures :: bool

record 'm activities =
  validate_compose :: "string \<Rightarrow> string option"
  backup_compose :: "string \<Rightarrow> string option"
  detect_conflicts :: "string \<Rightarrow> string option"
  deploy_compose :: "string \<Rightarrow> string option"
  teardown_compose :: "string \<Rightarrow> string option"
  run_tests :: "string \<Rightarrow> string option"
  send_notification :: "string \<Rightarrow> string option"
  agent_analyze :: "string \<Rightarrow> string option"
  health_check_all :: "nat \<Rightarrow> string option"
  backup_listing :: "string \<Rightarrow> (string \<times> 'm) list option"

text \<open>
  Awaiting a step: the invocation is logged; when the step gave no result the run fails
  there, otherwise the rest of the run goes on with the result.
\<close>

definition await :: "call \<Rightarrow> 'a option \<Rightarrow> ('a \<Rightarrow> call list \<times> run_result) \<Rightarrow> call list \<times> run_result" where
  "await c r k =
     (case r of
        None \<Rightarrow> ([c], Failed)
      | Some v \<Rightarrow> (case k v of (tr, res) \<Rightarrow> (c # tr, res)))"

definition notify_call :: "string \<Rightarrow> call" where
  "notify_call message =
     Activity ''send_notification'' (Str message)
       \<lparr>start_to_close_timeout = 10, heartbeat_timeout = None, retry_policy = None\<rparr>"

subsection \<open>RollbackWorkflow\<close>

text \<open>
  \<^verbatim>\<open>sorted(files, key=mtime, reverse=True)\<close>: a stable sort in descending order that keeps
  files of equal time in their listed order.
\<close>

definition sorted_newest_first :: "(string \<times> 'm::linorder) list \<Rightarrow> (string \<times> 'm) list" where
  "sorted_newest_first files = rev (sort_key snd (rev files))"

text \<open>
  Step 2 of the rollback. The listing of the environment is the result of the glob for
  \<^verbatim>\<open>*.yml\<close> in the directory \<^verbatim>\<open>backups\<close> beside the parent of the current file, with the
  modification time of each file; there is none when the directory does not exist.
\<close>

definition resolve_backup :: "'m::linorder activities \<Rightarrow> string \<Rightarrow> string \<Rightarrow> string" where
  "resolve_backup env current_file backup_file =
     (if backup_file \<noteq> [] then backup_file
      else (case backup_listing env current_file of
              None \<Rightarrow> backup_file
            | Some files \<Rightarrow>
                (case sorted_newest_first files of
                   [] \<Rightarrow> backup_file
                 | b # _ \<Rightarrow> fst b)))"

definition tests_failed :: "string \<Rightarrow> bool" where
  "tests_failed tests \<longleftrightarrow> sublist ''FAIL'' (upper tests) \<and> \<not> sublist ''PASS'' (upper tests)"

definition RollbackWorkflow_run :: "'m::linorder activities \<Rightarrow> string \<Rightarrow> string \<Rightarrow> call list \<times> run_result" where
  "RollbackWorkflow_run env current_file input_backup_file =
     await (Activity ''teardown_compose'' (ComposeInput current_file False True)
              \<lparr>start_to_close_timeout = 120, heartbeat_timeout = None, retry_policy = None\<rparr>)
           (teardown_compose env current_file)
       (\<lambda>teardown.
          let backup_file = resolve_backup env current_file input_backup_file
          in if backup_file = [] then
               (let msg = ''ROLLBACK FAILED: No backup file found''
                in await (notify_call msg) (send_notification env msg) (\<lambda>_. ([], Returned msg)))
             else
               await (Activity ''deploy_compose'' (ComposeInput backup_file False True)
                        \<lparr>start_to_close_timeout = 300, heartbeat_timeout = Some 60, retry_policy = None\<rparr>)
                     (deploy_compose env backup_file)
                 (\<lambda>deploy.
                    await (Activity ''run_tests'' (TestInput backup_file [])
                             \<lparr>start_to_close_timeout = 180, heartbeat_timeout = None, retry_policy = None\<rparr>)
                          (run_tests env backup_file)
                      (\<lambda>tests.
                         let msg =
                           (if tests_failed tests then
                              ''ROLLBACK CRITICAL: Backup deployment also failing!\<newline>Teardown: '' @
                              take 100 teardown @ ''\<newline>Deploy: '' @ take 100 deploy @
                              ''\<newline>Tests: '' @ take 200 tests
                            else
                              ''ROLLBACK SUCCESSFUL\<newline>Backup: '' @ backup_file @
                              ''\<newline>Teardown: '' @ take 100 teardown @
                              ''\<newline>Deploy: '' @ take 100 deploy @
                              ''\<newline>Tests: '' @ take 100 tests)
                         in await (notify_call (take 500 msg)) (send_notification env (take 500 msg))
                              (\<lambda>_. ([], Returned msg)))))"

subsection \<open>DeployWorkflow\<close>

definition warning_sign :: string where
  "warning_sign = [CHR 0xE2, CHR 0x9A, CHR 0xA0]"

definition notify :: "'m activities \<Rightarrow> string \<Rightarrow> string \<Rightarrow> call list \<times> run_result" where
  "notify env message returned =
     await (notify_call (take 500 message)) (send_notification env (take 500 message))
       (\<lambda>_. ([], Returned returned))"

text \<open>The nested rollback run: its log is kept inside the invocation; a failed child fails the parent.\<close>

definition rollback_child :: "'m::linorder activities \<Rightarrow> string \<Rightarrow> string \<Rightarrow> (string \<Rightarrow> call list \<times> run_result) \<Rightarrow> call list \<times> run_result" where
  "rollback_child env workflow_id file_path k =
     (case RollbackWorkflow_run env file_path [] of (child_log, child_result) \<Rightarrow>
        await (ChildWorkflow ''RollbackWorkflow'' (RollbackInput file_path [])
                 (''rollback-'' @ workflow_id) child_log)
              (case child_result of Returned rollback \<Rightarrow> Some rollback | Failed \<Rightarrow> None)
              k)"

definition DeployWorkflow_run :: "'m::linorder activities \<Rightarrow> string \<Rightarrow> string \<Rightarrow> call list \<times> run_result" where
  "DeployWorkflow_run env workflow_id file_path =
     await (Activity ''validate_compose'' (Str file_path)
              \<lparr>start_to_close_timeout = 30, heartbeat_timeout = None,
               retry_policy = Some (RetryPolicy 2)\<rparr>)
           (validate_compose env file_path)
       (\<lambda>validation.
          let results1 = [''[1/6] Validate: '' @ take 100 validation]
          in if sublist ''ERROR'' validation \<or> sublist ''FAILED'' validation then
               (let msg = ''DEPLOY ABORTED '' @ em_dash @ '' Validation failed:\<newline>'' @ validation
                in notify env msg msg)
             else
               await (Activity ''backup_compose'' (BackupInput file_path)
                        \<lparr>start_to_close_timeout = 30, heartbeat_timeout = None, retry_policy = None\<rparr>)
                     (backup_compose env file_path)
                 (\<lambda>backup_result.
                    let results2 = results1 @ [''[2/6] Backup: '' @ take 100 backup_result]
                    in await (Activity ''detect_conflicts'' (Str file_path)
                                \<lparr>start_to_close_timeout = 30, heartbeat_timeout = None, retry_policy = None\<rparr>)
                             (detect_conflicts env file_path)
                         (\<lambda>conflicts.
                            let results3 = results2 @ [''[3/6] Ports: '' @ take 100 conflicts];
                                has_real_conflicts =
                                  (sublist ''OCCUPIED'' (upper conflicts) \<or> sublist warning_sign conflicts)
                            in if has_real_conflicts then
                                 (let msg = ''DEPLOY ABORTED '' @ em_dash @
                                            '' Port conflicts detected:\<newline>'' @ conflicts
                                  in notify env msg msg)
                               else
                                 await (Activity ''deploy_compose'' (ComposeInput file_path False True)
                                          \<lparr>start_to_close_timeout = 300, heartbeat_timeout = Some 60,
                                           retry_policy = Some (RetryPolicy 2)\<rparr>)
                                       (deploy_compose env file_path)
                                   (\<lambda>deploy_result.
                                      let results4 = results3 @ [''[4/6] Deploy: '' @ take 100 deploy_result]
                                      in if sublist ''FAILED'' deploy_result \<or> sublist ''ERROR'' deploy_result then
                                           rollback_child env workflow_id file_path
                                             (\<lambda>rollback.
                                                let msg = ''DEPLOY FAILED '' @ em_dash @
                                                          '' Auto-rollback triggered:\<newline>'' @ deploy_result @
                                                          ''\<newline>\<newline>Rollback result:\<newline>'' @ rollback
                                                in notify env msg msg)
                                         else
                                           await (Activity ''run_tests'' (TestInput file_path [])
                                                    \<lparr>start_to_close_timeout = 180, heartbeat_timeout = Some 120,
                                                     retry_policy = None\<rparr>)
                                                 (run_tests env file_path)
                                             (\<lambda>test_result.
                                                let results5 = results4 @ [''[5/6] Tests: '' @ take 200 test_result]
                                                in if tests_failed test_result then
                                                     rollback_child env workflow_id file_path
                                                       (\<lambda>rollback.
                                                          let msg = ''DEPLOY FAILED (tests) '' @ em_dash @
                                                                    '' Auto-rollback triggered:\<newline>'' @ test_result @
                                                                    ''\<newline>\<newline>Rollback:\<newline>'' @ rollback
                                                          in notify env msg msg)
                                                   else
                                                     (let summary = join ''\<newline>'' results5;
                                                          msg = ''DEPLOYMENT SUCCESSFUL\<newline>\<newline>'' @ summary @
                                                                ''\<newline>\<newline>Test Results:\<newline>'' @ test_result
                                                      in notify env msg msg))))))"

subsection \<open>HealthMonitorWorkflow\<close>

definition max_checks :: nat where
  "max_checks = 1440"

definition health_check_activity :: "string \<Rightarrow> health_check_result" where
  "health_check_activity rep =
     \<lparr>report = rep,
      has_failures = (sublist ''unhealthy'' (lower rep) \<or> sublist ''error'' (lower rep))\<rparr>"

definition health_check_call :: call where
  "health_check_call =
     Activity ''health_check'' NoArg
       \<lparr>start_to_close_timeout = 60, heartbeat_timeout = None,
        retry_policy = Some (RetryPolicy 3)\<rparr>"

definition analyze_call :: "string \<Rightarrow> call" where
  "analyze_call prompt =
     Activity ''agent_analyze'' (Str prompt)
       \<lparr>start_to_close_timeout = 120, heartbeat_timeout = None, retry_policy = None\<rparr>"

text \<open>
  The body of the loop up to the sleep, for the check numbered \<open>check_count\<close> (already
  incremented) and the counter of consecutive failures before it. The result is the log
  of the iteration and the counter after it, or no counter when a step failed the run.
\<close>

definition monitor_iteration :: "'m activities \<Rightarrow> nat \<Rightarrow> nat \<Rightarrow> call list \<times> nat option" where
  "monitor_iteration env check_count failure_count =
     (case health_check_all env check_count of
        None \<Rightarrow> ([health_check_call], None)
      | Some rep \<Rightarrow>
          (let result = health_check_activity rep
           in if has_failures result then
                (let failure_count1 = failure_count + 1;
                     alert = ''HEALTH ALERT: Unhealthy containers detected!\<newline>'' @ take 300 (report result);
                     prompt = ''Analyze these health check results and diagnose the issue:\<newline>'' @ report result
                 in case (if failure_count1 = 1
                          then (case send_notification env alert of
                                  None \<Rightarrow> ([notify_call alert], False)
                                | Some _ \<Rightarrow> ([notify_call alert], True))
                          else ([], True)) of
                      (alerts, False) \<Rightarrow> (health_check_call # alerts, None)
                    | (alerts, True) \<Rightarrow>
                        (if failure_count1 \<ge> 3 then
                           (case agent_analyze env prompt of
                              None \<Rightarrow> (health_check_call # alerts @ [analyze_call prompt], None)
                            | Some analysis \<Rightarrow>
                                (let diagnosis = ''AI DIAGNOSIS after '' @ str_nat failure_count1 @
                                                 '' failures:\<newline>'' @ take 400 analysis
                                 in case send_notification env diagnosis of
                                      None \<Rightarrow>
                                        (health_check_call # alerts @
                                           [analyze_call prompt, notify_call diagnosis], None)
                                    | Some _ \<Rightarrow>
                                        (health_check_call # alerts @
                                           [analyze_call prompt, notify_call diagnosis], Some 0)))
                         else (health_check_call # alerts, Some failure_count1)))
              else ([health_check_call], Some 0)))"

function monitor_loop :: "'m activities \<Rightarrow> int \<Rightarrow> nat \<Rightarrow> nat \<Rightarrow> call list \<times> run_result" where
  "monitor_loop env interval_seconds check_count failure_count =
     (if check_count < max_checks then
        (case monitor_iteration env (check_count + 1) failure_count of
           (calls, None) \<Rightarrow> (calls, Failed)
         | (calls, Some failure_count') \<Rightarrow>
             (case monitor_loop env interval_seconds (check_count + 1) failure_count' of
                (tr, res) \<Rightarrow> (calls @ Sleep interval_seconds # tr, res)))
      else ([], Returned (''HealthMonitorWorkflow completed: '' @ str_nat check_count @
                          '' checks performed'')))"
  by pat_completeness auto
termination
  by (relation "measure (\<lambda>(env, interval_seconds, check_count, failure_count). max_checks - check_count)") auto

declare monitor_loop.simps [simp del]

definition HealthMonitorWorkflow_run :: "'m activities \<Rightarrow> int \<Rightarrow> call list \<times> run_result" where
  "HealthMonitorWorkflow_run env interval_seconds = monitor_loop env interval_seconds 0 0"

section \<open>The specification compiler (tools/compose\_tools.py)\<close>

subsection \<open>The tables\<close>

record healthcheck =
  hc_test :: "string list"
  hc_interval :: string
  hc_timeout :: string
  hc_retries :: nat
  hc_start_period :: string

record volume_default =
  vd_name :: string
  vd_mount :: string
  vd_comment :: string

record service_default =
  default_healthcheck :: healthcheck
  default_volumes :: "volume_default list"

definition SERVICE_DEFAULTS :: "(string \<times> service_default) list" where
  "SERVICE_DEFAULTS =
     [(''nginx'',
       \<lparr>default_healthcheck =
          \<lparr>hc_test = [''CMD'', ''curl'', ''-f'', ''http://localhost/''], hc_interval = ''15s'',
           hc_timeout = ''5s'', hc_retries = 3, hc_start_period = ''10s''\<rparr>,
        default_volumes =
          [\<lparr>vd_name = ''nginx_config'', vd_mount = ''/etc/nginx/conf.d'', vd_comment = ''nginx configuration''\<rparr>,
           \<lparr>vd_name = ''nginx_html'', vd_mount = ''/usr/share/nginx/html'', vd_comment = ''static files''\<rparr>]\<rparr>),
      (''redis'',
       \<lparr>default_healthcheck =
          \<lparr>hc_test = [''CMD'', ''redis-cli'', ''ping''], hc_interval = ''15s'',
           hc_timeout = ''5s'', hc_retries = 3, hc_start_period = ''10s''\<rparr>,
        default_volumes =
          [\<lparr>vd_name = ''redis_data'', vd_mount = ''/data'', vd_comment = ''redis persistence''\<rparr>]\<rparr>),
      (''postgres'',
       \<lparr>default_healthcheck =
          \<lparr>hc_test = [''CMD-SHELL'', ''pg_isready -U ${POSTGRES_USER:-postgres}''], hc_interval = ''15s'',
           hc_timeout = ''5s'', hc_retries = 5, hc_start_period = ''30s''\<rparr>,
        default_volumes =
          [\<lparr>vd_name = ''postgres_data'', vd_mount = ''/var/lib/postgresql/data'', vd_comment = ''database files''\<rparr>]\<rparr>),
      (''mysql'',
       \<lparr>default_healthcheck =
          \<lparr>hc_test = [''CMD'', ''mysqladmin'', ''ping'', ''-h'', ''localhost''], hc_interval = ''15s'',
           hc_timeout = ''5s'', hc_retries = 5, hc_start_period = ''30s''\<rparr>,
        default_volumes =
          [\<lparr>vd_name = ''mysql_data'', vd_mount = ''/var/lib/mysql'', vd_comment = ''database files''\<rparr>]\<rparr>),
      (''mariadb'',
       \<lparr>default_healthcheck =
          \<lparr>hc_test = [''CMD'', ''healthcheck.sh'', ''--connect'', ''--innodb_initialized''], hc_interval = ''15s'',
           hc_timeout = ''5s'', hc_retries = 5, hc_start_period = ''30s''\<rparr>,
        default_volumes =
          [\<lparr>vd_name = ''mariadb_data'', vd_mount = ''/var/lib/mysql'', vd_comment = ''database files''\<rparr>]\<rparr>),
      (''mongo'',
       \<lparr>default_healthcheck =
          \<lparr>hc_test = [''CMD'', ''mongosh'', ''--eval'', ''db.adminCommand('' @ [CHR 0x27] @ ''ping'' @ [CHR 0x27] @ '')''],
           hc_interval = ''15s'', hc_timeout = ''5s'', hc_retries = 5, hc_start_period = ''30s''\<rparr>,
        default_volumes =
          [\<lparr>vd_name = ''mongo_data'', vd_mount = ''/data/db'', vd_comment = ''database files''\<rparr>]\<rparr>),
      (''elasticsearch'',
       \<lparr>default_healthcheck =
          \<lparr>hc_test = [''CMD-SHELL'', ''curl -f http://localhost:9200/_cluster/health || exit 1''],
           hc_interval = ''30s'', hc_timeout = ''10s'', hc_retries = 5, hc_start_period = ''60s''\<rparr>,
        default_volumes =
          [\<lparr>vd_name = ''es_data'', vd_mount = ''/usr/share/elasticsearch/data'', vd_comment = ''index data''\<rparr>]\<rparr>),
      (''rabbitmq'',
       \<lparr>default_healthcheck =
          \<lparr>hc_test = [''CMD'', ''rabbitmq-diagnostics'', ''-q'', ''ping''], hc_interval = ''30s'',
           hc_timeout = ''10s'', hc_retries = 3, hc_start_period = ''30s''\<rparr>,
        default_volumes =
          [\<lparr>vd_name = ''rabbitmq_data'', vd_mount = ''/var/lib/rabbitmq'', vd_comment = ''queue data''\<rparr>]\<rparr>)]"

definition DEFAULT_HEALTHCHECK :: healthcheck where
  "DEFAULT_HEALTHCHECK =
     \<lparr>hc_test = [''CMD-SHELL'', ''exit 0''], hc_interval = ''30s'', hc_timeout = ''10s'',
      hc_retries = 3, hc_start_period = ''10s''\<rparr>"

definition SERVICE_ROLES :: "(string \<times> string) list" where
  "SERVICE_ROLES =
     [(''postgres'', ''database''), (''mysql'', ''database''), (''mariadb'', ''database''),
      (''mongo'', ''database''), (''elasticsearch'', ''database''), (''redis'', ''cache''),
      (''rabbitmq'', ''queue''), (''nginx'', ''proxy'')]"

definition BACKEND_PATTERNS :: "string list" where
  "BACKEND_PATTERNS =
     [''python'', ''node'', ''golang'', ''java'', ''ruby'', ''php'',
      ''flask'', ''django'', ''express'', ''fastapi'', ''spring'',
      ''api'', ''backend'', ''app'', ''server'', ''web'']"

definition STAGE_ORDER :: "(string \<times> nat) list" where
  "STAGE_ORDER =
     [(''database'', 1), (''cache'', 1), (''queue'', 1), (''backend'', 2), (''proxy'', 3), (''unknown'', 2)]"

subsection \<open>Role classification\<close>

text \<open>\<^verbatim>\<open>image.lower().split(":")[0].split("/")[-1]\<close>\<close>

definition image_base :: "string \<Rightarrow> string" where
  "image_base img = last_part (split (first_part (split (lower img) '':'')) ''/'')"

definition detect_service_type :: "string \<Rightarrow> string option" where
  "detect_service_type img =
     (case filter (\<lambda>svc_type. sublist svc_type (image_base img)) (map fst SERVICE_DEFAULTS) of
        [] \<Rightarrow> None
      | svc_type # _ \<Rightarrow> Some svc_type)"

definition detect_service_role :: "string \<Rightarrow> string option \<Rightarrow> string" where
  "detect_service_role img svc_type =
     (case (case svc_type of None \<Rightarrow> None | Some t \<Rightarrow> if t \<noteq> [] then map_of SERVICE_ROLES t else None) of
        Some role \<Rightarrow> role
      | None \<Rightarrow>
          (if list_ex (\<lambda>pattern. sublist pattern (image_base img)) BACKEND_PATTERNS
           then ''backend'' else ''unknown''))"

text \<open>\<^verbatim>\<open>STAGE_ORDER.get(role, 2)\<close>\<close>

definition stage_of_role :: "string \<Rightarrow> nat" where
  "stage_of_role role = (case map_of STAGE_ORDER role of Some n \<Rightarrow> n | None \<Rightarrow> 2)"

subsection \<open>Dependency inference\<close>

record service_info =
  info_name :: string
  info_image :: string
  info_svc_type :: "string option"
  info_role :: string

text \<open>The names appended to \<^verbatim>\<open>by_stage[n]\<close>, in the order of the list.\<close>

definition by_stage :: "service_info list \<Rightarrow> nat \<Rightarrow> string list" where
  "by_stage services_info n =
     map info_name (filter (\<lambda>svc. stage_of_role (info_role svc) = n) services_info)"

definition auto_detect_dependencies :: "service_info list \<Rightarrow> (string \<Rightarrow> string list option)" where
  "auto_detect_dependencies services_info =
     (let stage1 = by_stage services_info 1;
          stage2 = by_stage services_info 2;
          stage3 = by_stage services_info 3;
          deps2 = fold (\<lambda>name deps. if stage1 \<noteq> [] then deps(name \<mapsto> stage1) else deps)
                    stage2 Map.empty
      in fold (\<lambda>name deps. if stage2 \<noteq> [] then deps(name \<mapsto> stage2)
                            else if stage1 \<noteq> [] then deps(name \<mapsto> stage1)
                            else deps)
           stage3 deps2)"

subsection \<open>The compiler on well-typed entries\<close>

text \<open>
  The body of \<^verbatim>\<open>compose_generate\<close> after the parse, on a list of entries whose values
  have the types of the docstring: strings, lists of strings and a dictionary of strings.
  A key that may be absent from the entry is an option; for ports, environment and
  volumes the code cannot tell an absent key from an empty value, and they are the value
  itself. What the body does on the other values that the parser can return follows in
  the next subsection.
\<close>

record service_spec =
  spec_name :: "string option"
  spec_image :: "string option"
  spec_ports :: "string list"
  spec_environment :: "(string \<times> string) list"
  spec_volumes :: "string list"
  spec_command :: "string option"
  spec_depends_on :: "string list option"
  spec_memory_limit :: "string option"
  spec_cpu_limit :: "string option"

text \<open>
  A compiled service definition. A key that the code sets only under a condition is an
  option. \<^verbatim>\<open>depends_on\<close> is a dictionary whose values are all the same condition
  \<^verbatim>\<open>service_healthy\<close>: it is the list of its keys.
\<close>

record service_def =
  sd_image :: string
  sd_restart :: string
  sd_healthcheck :: healthcheck
  sd_memory :: string
  sd_cpus :: string
  sd_networks :: "string list"
  sd_logging_driver :: string
  sd_logging_options :: "(string \<times> string) list"
  sd_labels :: "(string \<times> string) list"
  sd_ports :: "string list option"
  sd_environment :: "(string \<times> string) list option"
  sd_command :: "string option"
  sd_depends_on :: "string list option"
  sd_volumes :: "string list option"

record compose =
  services :: "string \<Rightarrow> service_def option"
  networks :: "(string \<times> string) list"
  volumes :: "string list option"

text \<open>The keys of a dictionary built from a list of keys: first occurrences, in order.\<close>

fun dict_keys :: "string list \<Rightarrow> string list" where
  "dict_keys [] = []"
| "dict_keys (k # ks) = k # removeAll k (dict_keys ks)"

definition add_key :: "string \<Rightarrow> string list \<Rightarrow> string list" where
  "add_key k ks = (if k \<in> set ks then ks else ks @ [k])"

definition name_of :: "service_spec \<Rightarrow> string" where
  "name_of svc = (case spec_name svc of Some n \<Rightarrow> n | None \<Rightarrow> ''service'')"

definition image_of :: "service_spec \<Rightarrow> string" where
  "image_of svc = (case spec_image svc of Some i \<Rightarrow> i | None \<Rightarrow> ''alpine:latest'')"

text \<open>Pass 1: one entry of \<^verbatim>\<open>services_info\<close> for each service.\<close>

definition info_of :: "service_spec \<Rightarrow> service_info" where
  "info_of svc =
     (let name = name_of svc;
          img = image_of svc;
          svc_type = detect_service_type img;
          role = detect_service_role img svc_type
      in \<lparr>info_name = name, info_image = img, info_svc_type = svc_type, info_role = role\<rparr>)"

text \<open>
  The loop over the volumes of the user: the mount paths seen, the named volumes of the
  whole file and the volume list of the service.
\<close>

fun user_volumes :: "string list \<Rightarrow> string list \<times> string list \<times> string list \<Rightarrow> string list \<times> string list \<times> string list" where
  "user_volumes [] acc = acc"
| "user_volumes (v # vs) (user_mount_paths, compose_volumes, service_volumes) =
     (if sublist '':'' v then
        (let vol_name = split v '':'' ! 0;
             mount_path = split v '':'' ! 1
         in user_volumes vs
              (add_key mount_path user_mount_paths,
               (if \<not> prefix ''/'' vol_name \<and> \<not> prefix ''.'' vol_name
                then add_key vol_name compose_volumes else compose_volumes),
               service_volumes @ [v]))
      else user_volumes vs (user_mount_paths, compose_volumes, service_volumes @ [v]))"

fun default_volumes_loop :: "string \<Rightarrow> string list \<Rightarrow> volume_default list \<Rightarrow> string list \<times> string list \<Rightarrow> string list \<times> string list" where
  "default_volumes_loop name user_mount_paths [] acc = acc"
| "default_volumes_loop name user_mount_paths (vol_def # ds) (compose_volumes, service_volumes) =
     (if vd_mount vol_def \<notin> set user_mount_paths then
        (let vol_name = (if \<not> prefix name (vd_name vol_def)
                         then name @ ''_'' @ vd_name vol_def else vd_name vol_def);
             vol_mapping = vol_name @ '':'' @ vd_mount vol_def
         in default_volumes_loop name user_mount_paths ds
              (add_key vol_name compose_volumes, service_volumes @ [vol_mapping]))
      else default_volumes_loop name user_mount_paths ds (compose_volumes, service_volumes))"

text \<open>
  The body of pass 2 for one service and its entry of pass 1: the name, the definition
  stored under it, and the named volumes of the file after it.
\<close>

definition build_service :: "string \<Rightarrow> (string \<Rightarrow> string list option) \<Rightarrow> service_spec \<Rightarrow> service_info \<Rightarrow> string list \<Rightarrow> string \<times> service_def \<times> string list" where
  "build_service now auto_deps svc info compose_volumes =
     (let name = name_of svc;
          img = image_of svc;
          ports = spec_ports svc;
          environment = spec_environment svc;
          command = spec_command svc;
          depends_on = (case spec_depends_on svc of Some ds \<Rightarrow> ds | None \<Rightarrow> []);
          svc_type = info_svc_type info;
          role = info_role info;
          stage = stage_of_role role;
          defaults = (case svc_type of None \<Rightarrow> None
                      | Some t \<Rightarrow> if t \<noteq> [] then map_of SERVICE_DEFAULTS t else None);
          hc = (case defaults of Some d \<Rightarrow> default_healthcheck d | None \<Rightarrow> DEFAULT_HEALTHCHECK);
          deps = (if depends_on \<noteq> [] then Some (dict_keys depends_on)
                  else (case auto_deps name of Some ds \<Rightarrow> Some (dict_keys ds) | None \<Rightarrow> None))
      in case user_volumes (spec_volumes svc) ([], compose_volumes, []) of
           (user_mount_paths, compose_volumes1, service_volumes1) \<Rightarrow>
             (case default_volumes_loop name user_mount_paths
                     (case defaults of Some d \<Rightarrow> default_volumes d | None \<Rightarrow> [])
                     (compose_volumes1, service_volumes1) of
                (compose_volumes2, service_volumes2) \<Rightarrow>
                  (name,
                   \<lparr>sd_image = img,
                    sd_restart = ''unless-stopped'',
                    sd_healthcheck = hc,
                    sd_memory = (case spec_memory_limit svc of Some m \<Rightarrow> m | None \<Rightarrow> ''512M''),
                    sd_cpus = (case spec_cpu_limit svc of Some c \<Rightarrow> c | None \<Rightarrow> ''0.5''),
                    sd_networks = [''app_network''],
                    sd_logging_driver = ''json-file'',
                    sd_logging_options = [(''max-size'', ''10m''), (''max-file'', ''3'')],
                    sd_labels = [(''managed-by'', ''docker-devops-agent''), (''created-at'', now),
                                 (''environment'', ''development''),
                                 (''stage'', str_nat stage @ ''-'' @ role)],
                    sd_ports = (if ports \<noteq> [] then Some ports else None),
                    sd_environment = (if environment \<noteq> [] then Some environment else None),
                    sd_command = (case command of Some c \<Rightarrow> if c \<noteq> [] then Some c else None
                                  | None \<Rightarrow> None),
                    sd_depends_on = deps,
                    sd_volumes = (if service_volumes2 \<noteq> [] then Some service_volumes2 else None)\<rparr>,
                   compose_volumes2)))"

text \<open>Pass 2 over the services paired with their entries of pass 1.\<close>

fun build_services :: "string \<Rightarrow> (string \<Rightarrow> string list option) \<Rightarrow> (service_spec \<times> service_info) list \<Rightarrow> (string \<Rightarrow> service_def option) \<times> string list \<Rightarrow> (string \<Rightarrow> service_def option) \<times> string list" where
  "build_services now auto_deps [] acc = acc"
| "build_services now auto_deps ((svc, info) # rest) (compose_services, compose_volumes) =
     (case build_service now auto_deps svc info compose_volumes of
        (name, service_def, compose_volumes') \<Rightarrow>
          build_services now auto_deps rest (compose_services(name \<mapsto> service_def), compose_volumes'))"

text \<open>
  The function after the parse, up to the write: both passes and the removal of an empty
  \<^verbatim>\<open>volumes\<close> key.
\<close>

definition build_compose :: "string \<Rightarrow> service_spec list \<Rightarrow> compose" where
  "build_compose now svc_list =
     (let services_info = map info_of svc_list;
          auto_deps = auto_detect_dependencies services_info
      in case build_services now auto_deps (zip svc_list services_info) (Map.empty, []) of
           (compose_services, compose_volumes) \<Rightarrow>
             \<lparr>services = compose_services,
              networks = [(''app_network'', ''bridge'')],
              volumes = (if compose_volumes \<noteq> [] then Some compose_volumes else None)\<rparr>)"


subsection \<open>The values of the parsed text\<close>

text \<open>
  \<^verbatim>\<open>json.loads\<close> returns \<^verbatim>\<open>None\<close>, a truth value, a number, a string, a list or a
  dictionary with string keys. A number is its value: an \<^verbatim>\<open>int\<close> and a \<^verbatim>\<open>float\<close> of the
  same value are equal in Python and hash alike; the parser also accepts the literals
  \<^verbatim>\<open>NaN\<close>, \<^verbatim>\<open>Infinity\<close> and \<^verbatim>\<open>-Infinity\<close>. A dictionary is the list of its items in the
  order of insertion, a later item overriding an earlier one with the same key.
\<close>

datatype number = Finite rat | NaN | Infinity | NegInfinity

datatype json =
    JsNull
  | JsBool bool
  | JsNum number
  | JsStr string
  | JsList "json list"
  | JsDict "(string \<times> json) list"

text \<open>
  What a value is as the key of a dictionary: \<^verbatim>\<open>True\<close> and \<^verbatim>\<open>False\<close> are the numbers 1 and
  0, and a list or a dictionary cannot be hashed.
\<close>

datatype key = KNone | KNum number | KStr string

fun key_of :: "json \<Rightarrow> py_error + key" where
  "key_of JsNull = Inr KNone"
| "key_of (JsBool b) = Inr (KNum (Finite (if b then 1 else 0)))"
| "key_of (JsNum n) = Inr (KNum n)"
| "key_of (JsStr s) = Inr (KStr s)"
| "key_of (JsList xs) = Inl TypeError"
| "key_of (JsDict items) = Inl TypeError"

text \<open>The truth value of \<^verbatim>\<open>if v:\<close>.\<close>

fun truthy :: "json \<Rightarrow> bool" where
  "truthy JsNull = False"
| "truthy (JsBool b) = b"
| "truthy (JsNum n) = (n \<noteq> Finite 0)"
| "truthy (JsStr s) = (s \<noteq> [])"
| "truthy (JsList xs) = (xs \<noteq> [])"
| "truthy (JsDict items) = (items \<noteq> [])"

text \<open>
  \<^verbatim>\<open>for x in v\<close>: the items of a list, the characters of a string, the keys of a
  dictionary; every other value raises TypeError.
\<close>

fun iterate :: "json \<Rightarrow> py_error + json list" where
  "iterate (JsList xs) = Inr xs"
| "iterate (JsStr s) = Inr (map (\<lambda>c. JsStr [c]) s)"
| "iterate (JsDict items) = Inr (map JsStr (dict_keys (map fst items)))"
| "iterate JsNull = Inl TypeError"
| "iterate (JsBool b) = Inl TypeError"
| "iterate (JsNum n) = Inl TypeError"

text \<open>\<^verbatim>\<open>svc.get(k, default)\<close>: only a dictionary has the method.\<close>

fun json_get :: "json \<Rightarrow> string \<Rightarrow> json \<Rightarrow> py_error + json" where
  "json_get (JsDict items) k dflt = Inr (case map_of (rev items) k of Some v \<Rightarrow> v | None \<Rightarrow> dflt)"
| "json_get JsNull k dflt = Inl AttributeError"
| "json_get (JsBool b) k dflt = Inl AttributeError"
| "json_get (JsNum n) k dflt = Inl AttributeError"
| "json_get (JsStr s) k dflt = Inl AttributeError"
| "json_get (JsList xs) k dflt = Inl AttributeError"

text \<open>
  \<^verbatim>\<open>":" in v\<close>: a substring test on a string, a membership test on a list and on the
  keys of a dictionary; every other value raises TypeError.
\<close>

fun colon_in :: "json \<Rightarrow> py_error + bool" where
  "colon_in (JsStr s) = Inr (sublist '':'' s)"
| "colon_in (JsList xs) = Inr (JsStr '':'' \<in> set xs)"
| "colon_in (JsDict items) = Inr ('':'' \<in> set (map fst items))"
| "colon_in JsNull = Inl TypeError"
| "colon_in (JsBool b) = Inl TypeError"
| "colon_in (JsNum n) = Inl TypeError"

text \<open>An exception ends the run of the statements that follow.\<close>

definition and_then :: "py_error + 'a \<Rightarrow> ('a \<Rightarrow> py_error + 'b) \<Rightarrow> py_error + 'b" where
  "and_then r f = (case r of Inl e \<Rightarrow> Inl e | Inr x \<Rightarrow> f x)"

text \<open>
  The keys of \<^verbatim>\<open>{dep: ... for dep in deps}\<close>, in order: the first of the values that are
  equal as keys stays.
\<close>

fun dict_keys_json :: "json list \<Rightarrow> py_error + json list" where
  "dict_keys_json [] = Inr []"
| "dict_keys_json (dep # deps) =
     and_then (key_of dep) (\<lambda>k.
     and_then (dict_keys_json deps) (\<lambda>ks.
       Inr (dep # filter (\<lambda>d. key_of d \<noteq> Inr k) ks)))"

subsection \<open>The compiler on every parsed value\<close>

text \<open>
  The same body on whatever the parser returns. The code checks no type: a value of
  another type than the docstring's is used as it is, and the first operation that it
  does not support raises an exception that nothing catches.
\<close>

record service_info_json =
  ij_name :: json
  ij_image :: string
  ij_svc_type :: "string option"
  ij_role :: string

text \<open>
  Pass 1 for one entry. \<^verbatim>\<open>image.lower()\<close> in \<^verbatim>\<open>_detect_service_type\<close> needs a string.
\<close>

definition info_of_json :: "json \<Rightarrow> py_error + service_info_json" where
  "info_of_json svc =
     and_then (json_get svc ''name'' (JsStr ''service'')) (\<lambda>name.
     and_then (json_get svc ''image'' (JsStr ''alpine:latest'')) (\<lambda>image.
       (case image of
          JsStr img \<Rightarrow>
            (let svc_type = detect_service_type img;
                 role = detect_service_role img svc_type
             in Inr \<lparr>ij_name = name, ij_image = img, ij_svc_type = svc_type, ij_role = role\<rparr>)
        | _ \<Rightarrow> Inl AttributeError)))"

fun services_info_json :: "json list \<Rightarrow> py_error + service_info_json list" where
  "services_info_json [] = Inr []"
| "services_info_json (svc # rest) =
     and_then (info_of_json svc) (\<lambda>info.
     and_then (services_info_json rest) (\<lambda>infos. Inr (info # infos)))"

definition by_stage_json :: "service_info_json list \<Rightarrow> nat \<Rightarrow> json list" where
  "by_stage_json services_info n =
     map ij_name (filter (\<lambda>svc. stage_of_role (ij_role svc) = n) services_info)"

text \<open>\<^verbatim>\<open>deps[name] = ...\<close> hashes the name.\<close>

definition auto_detect_dependencies_json :: "service_info_json list \<Rightarrow> py_error + (key \<Rightarrow> json list option)" where
  "auto_detect_dependencies_json services_info =
     (let stage1 = by_stage_json services_info 1;
          stage2 = by_stage_json services_info 2;
          stage3 = by_stage_json services_info 3;
          deps2 = fold (\<lambda>name r. and_then r (\<lambda>deps.
                          if stage1 \<noteq> [] then and_then (key_of name) (\<lambda>k. Inr (deps(k \<mapsto> stage1)))
                          else Inr deps))
                    stage2 (Inr Map.empty)
      in fold (\<lambda>name r. and_then r (\<lambda>deps.
                 if stage2 \<noteq> [] then and_then (key_of name) (\<lambda>k. Inr (deps(k \<mapsto> stage2)))
                 else if stage1 \<noteq> [] then and_then (key_of name) (\<lambda>k. Inr (deps(k \<mapsto> stage1)))
                 else Inr deps))
           stage3 deps2)"

record service_def_json =
  sj_image :: json
  sj_restart :: string
  sj_healthcheck :: healthcheck
  sj_memory :: json
  sj_cpus :: json
  sj_networks :: "string list"
  sj_logging_driver :: string
  sj_logging_options :: "(string \<times> string) list"
  sj_labels :: "(string \<times> string) list"
  sj_ports :: "json option"
  sj_environment :: "json option"
  sj_command :: "json option"
  sj_depends_on :: "json list option"
  sj_volumes :: "json list option"

record compose_json =
  cj_services :: "key \<Rightarrow> service_def_json option"
  cj_networks :: "(string \<times> string) list"
  cj_volumes :: "string list option"

text \<open>
  The loop over the volumes of the user: \<^verbatim>\<open>v.split(":")\<close> needs a string, so a list or a
  dictionary that holds \<^verbatim>\<open>":"\<close> raises AttributeError.
\<close>

fun user_volumes_json :: "json list \<Rightarrow> string list \<times> string list \<times> json list \<Rightarrow> py_error + string list \<times> string list \<times> json list" where
  "user_volumes_json [] acc = Inr acc"
| "user_volumes_json (v # vs) (user_mount_paths, compose_volumes, service_volumes) =
     and_then (colon_in v) (\<lambda>has_colon.
       if has_colon then
         (case v of
            JsStr s \<Rightarrow>
              (let vol_name = split s '':'' ! 0;
                   mount_path = split s '':'' ! 1
               in user_volumes_json vs
                    (add_key mount_path user_mount_paths,
                     (if \<not> prefix ''/'' vol_name \<and> \<not> prefix ''.'' vol_name
                      then add_key vol_name compose_volumes else compose_volumes),
                     service_volumes @ [v]))
          | _ \<Rightarrow> Inl AttributeError)
       else user_volumes_json vs (user_mount_paths, compose_volumes, service_volumes @ [v]))"

text \<open>
  The default volumes: \<^verbatim>\<open>vol_def["name"].startswith(name)\<close> raises TypeError when the
  name of the service is not a string.
\<close>

fun default_volumes_loop_json :: "json \<Rightarrow> string list \<Rightarrow> volume_default list \<Rightarrow> string list \<times> json list \<Rightarrow> py_error + string list \<times> json list" where
  "default_volumes_loop_json name user_mount_paths [] acc = Inr acc"
| "default_volumes_loop_json name user_mount_paths (vol_def # ds) (compose_volumes, service_volumes) =
     (if vd_mount vol_def \<notin> set user_mount_paths then
        (case name of
           JsStr n \<Rightarrow>
             (let vol_name = (if \<not> prefix n (vd_name vol_def)
                              then n @ ''_'' @ vd_name vol_def else vd_name vol_def);
                  vol_mapping = vol_name @ '':'' @ vd_mount vol_def
              in default_volumes_loop_json name user_mount_paths ds
                   (add_key vol_name compose_volumes, service_volumes @ [JsStr vol_mapping]))
         | _ \<Rightarrow> Inl TypeError)
      else default_volumes_loop_json name user_mount_paths ds (compose_volumes, service_volumes))"

text \<open>
  The body of pass 2 for one entry and its entry of pass 1: the key under which the
  definition is stored, the definition, and the named volumes of the file after it.
\<close>

definition build_service_json :: "string \<Rightarrow> (key \<Rightarrow> json list option) \<Rightarrow> json \<Rightarrow> service_info_json \<Rightarrow> string list \<Rightarrow> py_error + key \<times> service_def_json \<times> string list" where
  "build_service_json now auto_deps svc info compose_volumes =
     and_then (json_get svc ''name'' (JsStr ''service'')) (\<lambda>name.
     and_then (json_get svc ''image'' (JsStr ''alpine:latest'')) (\<lambda>image.
     and_then (json_get svc ''ports'' (JsList [])) (\<lambda>ports.
     and_then (json_get svc ''environment'' (JsDict [])) (\<lambda>environment.
     and_then (json_get svc ''volumes'' (JsList [])) (\<lambda>user_volumes.
     and_then (json_get svc ''command'' JsNull) (\<lambda>command.
     and_then (json_get svc ''depends_on'' (JsList [])) (\<lambda>depends_on.
     and_then (json_get svc ''memory_limit'' (JsStr ''512M'')) (\<lambda>memory.
     and_then (json_get svc ''cpu_limit'' (JsStr ''0.5'')) (\<lambda>cpus.
       (let svc_type = ij_svc_type info;
            role = ij_role info;
            stage = stage_of_role role;
            defaults = (case svc_type of None \<Rightarrow> None
                        | Some t \<Rightarrow> if t \<noteq> [] then map_of SERVICE_DEFAULTS t else None);
            hc = (case defaults of Some d \<Rightarrow> default_healthcheck d | None \<Rightarrow> DEFAULT_HEALTHCHECK)
        in and_then
             (if truthy depends_on
              then and_then (iterate depends_on) (\<lambda>deps.
                   and_then (dict_keys_json deps) (\<lambda>ks. Inr (Some ks)))
              else and_then (key_of name) (\<lambda>k.
                     (case auto_deps k of
                        None \<Rightarrow> Inr None
                      | Some deps \<Rightarrow> and_then (dict_keys_json deps) (\<lambda>ks. Inr (Some ks)))))
             (\<lambda>deps.
           and_then (iterate user_volumes) (\<lambda>vs.
           and_then (user_volumes_json vs ([], compose_volumes, []))
             (\<lambda>(user_mount_paths, compose_volumes1, service_volumes1).
           and_then (default_volumes_loop_json name user_mount_paths
                       (case defaults of Some d \<Rightarrow> default_volumes d | None \<Rightarrow> [])
                       (compose_volumes1, service_volumes1))
             (\<lambda>(compose_volumes2, service_volumes2).
           and_then (key_of name) (\<lambda>k.
             Inr (k,
                  \<lparr>sj_image = image,
                   sj_restart = ''unless-stopped'',
                   sj_healthcheck = hc,
                   sj_memory = memory,
                   sj_cpus = cpus,
                   sj_networks = [''app_network''],
                   sj_logging_driver = ''json-file'',
                   sj_logging_options = [(''max-size'', ''10m''), (''max-file'', ''3'')],
                   sj_labels = [(''managed-by'', ''docker-devops-agent''), (''created-at'', now),
                                (''environment'', ''development''),
                                (''stage'', str_nat stage @ ''-'' @ role)],
                   sj_ports = (if truthy ports then Some ports else None),
                   sj_environment = (if truthy environment then Some environment else None),
                   sj_command = (if truthy command then Some command else None),
                   sj_depends_on = deps,
                   sj_volumes = (if service_volumes2 \<noteq> [] then Some service_volumes2 else None)\<rparr>,
                  compose_volumes2))))))))))))))))"

fun build_services_json :: "string \<Rightarrow> (key \<Rightarrow> json list option) \<Rightarrow> (json \<times> service_info_json) list \<Rightarrow> (key \<Rightarrow> service_def_json option) \<times> string list \<Rightarrow> py_error + (key \<Rightarrow> service_def_json option) \<times> string list" where
  "build_services_json now auto_deps [] acc = Inr acc"
| "build_services_json now auto_deps ((svc, info) # rest) (compose_services, compose_volumes) =
     and_then (build_service_json now auto_deps svc info compose_volumes)
       (\<lambda>(k, service_def, compose_volumes').
          build_services_json now auto_deps rest (compose_services(k \<mapsto> service_def), compose_volumes'))"

text \<open>The function after the parse, up to the write.\<close>

definition build_compose_json :: "string \<Rightarrow> json \<Rightarrow> py_error + compose_json" where
  "build_compose_json now svc_list =
     and_then (iterate svc_list) (\<lambda>entries.
     and_then (services_info_json entries) (\<lambda>services_info.
     and_then (auto_detect_dependencies_json services_info) (\<lambda>auto_deps.
     and_then (build_services_json now auto_deps (zip entries services_info) (Map.empty, []))
       (\<lambda>(compose_services, compose_volumes).
          Inr \<lparr>cj_services = compose_services,
               cj_networks = [(''app_network'', ''bridge'')],
               cj_volumes = (if compose_volumes \<noteq> [] then Some compose_volumes else None)\<rparr>))))"

text \<open>
  The whole function on the text \<^verbatim>\<open>services\<close>. The parser is a parameter: it gives the
  message of the JSONDecodeError, the only exception that is caught, or the parsed
  value. The directory of compose files maps a file name to the plan written there, and
  \<open>openable\<close> tells whether \<^verbatim>\<open>open(COMPOSE_DIR / output_filename, "w")\<close> succeeds; for the
  empty name the path is the directory itself, which config.py creates, and \<^verbatim>\<open>open\<close>
  raises. The write to an opened file is taken to succeed. The outcome is the error
  message returned, the exception raised, or the name of the file written and the plan;
  the second component is the directory after the call.
\<close>

datatype outcome = Error_message string | Raises py_error | Generated string compose_json

definition compose_generate :: "(string \<Rightarrow> string + json) \<Rightarrow> string \<Rightarrow> (string \<Rightarrow> bool) \<Rightarrow> (string \<Rightarrow> compose_json option) \<Rightarrow> string \<Rightarrow> string \<Rightarrow> outcome \<times> (string \<Rightarrow> compose_json option)" where
  "compose_generate loads now openable compose_dir services_text output_filename =
     (case loads services_text of
        Inl e \<Rightarrow>
          (Error_message (''ERROR: Invalid JSON in services specification: '' @ e), compose_dir)
      | Inr svc_list \<Rightarrow>
          (case build_compose_json now svc_list of
             Inl err \<Rightarrow> (Raises err, compose_dir)
           | Inr plan \<Rightarrow>
               if output_filename \<noteq> [] \<and> openable output_filename
               then (Generated output_filename plan, compose_dir(output_filename \<mapsto> plan))
               else (Raises OSError, compose_dir)))"

subsection \<open>Well-typed entries among the parsed values\<close>

text \<open>
  An entry is well typed when it is a dictionary in which every key the compiler reads
  is absent or holds a value of the docstring's type. Such an entry is read as a
  \<^typ>\<open>service_spec\<close>; a plan of the typed compiler is a plan over parsed values.
\<close>

fun is_string :: "json \<Rightarrow> bool" where
  "is_string (JsStr s) = True"
| "is_string v = False"

fun str_val :: "json \<Rightarrow> string" where
  "str_val (JsStr s) = s"
| "str_val v = []"

fun is_string_list :: "json \<Rightarrow> bool" where
  "is_string_list (JsList xs) = list_all is_string xs"
| "is_string_list v = False"

fun is_string_dict :: "json \<Rightarrow> bool" where
  "is_string_dict (JsDict items) = list_all (\<lambda>item. is_string (snd item)) items"
| "is_string_dict v = False"

fun items_of :: "json \<Rightarrow> json list" where
  "items_of (JsList xs) = xs"
| "items_of v = []"

fun pairs_of :: "json \<Rightarrow> (string \<times> json) list" where
  "pairs_of (JsDict items) = items"
| "pairs_of v = []"

definition absent_or :: "(json \<Rightarrow> bool) \<Rightarrow> json option \<Rightarrow> bool" where
  "absent_or ok field = (case field of None \<Rightarrow> True | Some v \<Rightarrow> ok v)"

definition decode_spec :: "json \<Rightarrow> service_spec option" where
  "decode_spec svc =
     (case svc of
        JsDict items \<Rightarrow>
          (let field = map_of (rev items)
           in if absent_or is_string (field ''name'') \<and> absent_or is_string (field ''image'') \<and>
                 absent_or is_string_list (field ''ports'') \<and>
                 absent_or is_string_dict (field ''environment'') \<and>
                 absent_or is_string_list (field ''volumes'') \<and>
                 absent_or is_string (field ''command'') \<and>
                 absent_or is_string_list (field ''depends_on'') \<and>
                 absent_or is_string (field ''memory_limit'') \<and>
                 absent_or is_string (field ''cpu_limit'')
              then Some
                \<lparr>spec_name = map_option str_val (field ''name''),
                 spec_image = map_option str_val (field ''image''),
                 spec_ports = (case field ''ports'' of None \<Rightarrow> []
                               | Some v \<Rightarrow> map str_val (items_of v)),
                 spec_environment = (case field ''environment'' of None \<Rightarrow> []
                                     | Some v \<Rightarrow> map (\<lambda>item. (fst item, str_val (snd item))) (pairs_of v)),
                 spec_volumes = (case field ''volumes'' of None \<Rightarrow> []
                                 | Some v \<Rightarrow> map str_val (items_of v)),
                 spec_command = map_option str_val (field ''command''),
                 spec_depends_on = map_option (\<lambda>v. map str_val (items_of v)) (field ''depends_on''),
                 spec_memory_limit = map_option str_val (field ''memory_limit''),
                 spec_cpu_limit = map_option str_val (field ''cpu_limit'')\<rparr>
              else None)
      | _ \<Rightarrow> None)"

fun decode_specs :: "json list \<Rightarrow> service_spec list option" where
  "decode_specs [] = Some []"
| "decode_specs (svc # rest) =
     (case decode_spec svc of
        None \<Rightarrow> None
      | Some s \<Rightarrow> map_option ((#) s) (decode_specs rest))"

fun decode_services :: "json \<Rightarrow> service_spec list option" where
  "decode_services (JsList entries) = decode_specs entries"
| "decode_services v = None"

definition def_json :: "service_def \<Rightarrow> service_def_json" where
  "def_json d =
     \<lparr>sj_image = JsStr (sd_image d),
      sj_restart = sd_restart d,
      sj_healthcheck = sd_healthcheck d,
      sj_memory = JsStr (sd_memory d),
      sj_cpus = JsStr (sd_cpus d),
      sj_networks = sd_networks d,
      sj_logging_driver = sd_logging_driver d,
      sj_logging_options = sd_logging_options d,
      sj_labels = sd_labels d,
      sj_ports = map_option (\<lambda>ps. JsList (map JsStr ps)) (sd_ports d),
      sj_environment = map_option (\<lambda>env. JsDict (map (\<lambda>item. (fst item, JsStr (snd item))) env))
                         (sd_environment d),
      sj_command = map_option JsStr (sd_command d),
      sj_depends_on = map_option (map JsStr) (sd_depends_on d),
      sj_volumes = map_option (map JsStr) (sd_volumes d)\<rparr>"

definition services_json :: "(string \<Rightarrow> service_def option) \<Rightarrow> key \<Rightarrow> service_def_json option" where
  "services_json compose_services k =
     (case k of KStr name \<Rightarrow> map_option def_json (compose_services name) | _ \<Rightarrow> None)"

definition plan_json :: "compose \<Rightarrow> compose_json" where
  "plan_json plan =
     \<lparr>cj_services = services_json (services plan),
      cj_networks = networks plan,
      cj_volumes = volumes plan\<rparr>"

text \<open>
  An entry of pass 1 and the dependency table of the typed compiler, over parsed values.
\<close>

definition info_json :: "service_info \<Rightarrow> service_info_json" where
  "info_json info =
     \<lparr>ij_name = JsStr (info_name info), ij_image = info_image info,
      ij_svc_type = info_svc_type info, ij_role = info_role info\<rparr>"

definition deps_json :: "(string \<Rightarrow> string list option) \<Rightarrow> key \<Rightarrow> json list option" where
  "deps_json auto_deps k =
     (case k of KStr name \<Rightarrow> map_option (map JsStr) (auto_deps name) | _ \<Rightarrow> None)"

section \<open>Reading a test report\<close>

text \<open>
  The notions used to state the properties of a report: the status of a check, the tag
  that prints it, the names of the eight checks in the order of the suite, and the status
  read back from a report line.
\<close>

datatype status = PASS | WARN | FAIL

fun tag :: "status \<Rightarrow> string" where
  "tag PASS = ''[PASS]''"
| "tag WARN = ''[WARN]''"
| "tag FAIL = ''[FAIL]''"

definition check_names :: "string list" where
  "check_names =
     [''Container Running Test'', ''Health Check Test'', ''Port Binding Test'',
      ''Connectivity Test'', ''Volume Mount Test'', ''Environment Variable Test'',
      ''Log Output Test'', ''Resource Baseline Test'']"

definition verdict_prefix :: "string \<Rightarrow> status \<Rightarrow> string \<Rightarrow> string" where
  "verdict_prefix ts v name = ''['' @ ts @ ''] '' @ tag v @ '' '' @ name"

definition line_status :: "string \<Rightarrow> string \<Rightarrow> string \<Rightarrow> status option" where
  "line_status ts name l =
     (if prefix (verdict_prefix ts PASS name) l then Some PASS
      else if prefix (verdict_prefix ts WARN name) l then Some WARN
      else if prefix (verdict_prefix ts FAIL name) l then Some FAIL
      else None)"

text \<open>
  One test has run between two states: it appended one line, the line of the named check
  with the tag of status \<open>v\<close>, and it added one to the counter of \<open>v\<close> and to no other.
\<close>

definition pushed :: "string \<Rightarrow> string \<Rightarrow> status \<Rightarrow> test_state \<Rightarrow> test_state \<Rightarrow> bool" where
  "pushed ts name v st st' \<longleftrightarrow>
     report_lines st' \<noteq> [] \<and> butlast (report_lines st') = report_lines st \<and>
     prefix (verdict_prefix ts v name) (last (report_lines st')) \<and>
     pass_count st' = pass_count st + (if v = PASS then 1 else 0) \<and>
     warn_count st' = warn_count st + (if v = WARN then 1 else 0) \<and>
     fail_count st' = fail_count st + (if v = FAIL then 1 else 0)"

text \<open>
  The aggregate verdict in the words of the specification, over the statuses of the
  checks, and the text the report prints for it.
\<close>

datatype aggregate = SUCCESSFUL | ACCEPTED_WITH_WARNINGS | FAILED

definition spec_aggregate :: "status list \<Rightarrow> aggregate" where
  "spec_aggregate vs =
     (if FAIL \<in> set vs then FAILED
      else if WARN \<in> set vs then ACCEPTED_WITH_WARNINGS
      else SUCCESSFUL)"

fun verdict_text :: "aggregate \<Rightarrow> string" where
  "verdict_text FAILED = ''FAILED '' @ em_dash @ '' rollback recommended''"
| "verdict_text ACCEPTED_WITH_WARNINGS = ''ACCEPTED WITH WARNINGS''"
| "verdict_text SUCCESSFUL = ''SUCCESSFUL''"

text \<open>The eight check lines of a finished report follow its four header lines.\<close>

definition check_lines :: "test_state \<Rightarrow> string list" where
  "check_lines st = take 8 (drop 4 (report_lines st))"

definition check_statuses :: "string \<Rightarrow> test_state \<Rightarrow> status option list" where
  "check_statuses ts st = map (\<lambda>(name, l). line_status ts name l) (zip check_names (check_lines st))"

subsection \<open>Two concrete worlds\<close>

text \<open>A runtime in which every command succeeds and prints nothing: no container runs.\<close>

definition quiet_world :: "nat world" where
  "quiet_world =
     \<lparr>subprocess_run = (\<lambda>t cmd. Exited 0 [] []),
      json_loads = (\<lambda>s. JSONDecodeError),
      connect_ex = (\<lambda>t p. None),
      time_time = (\<lambda>t. 0),
      float_of = (\<lambda>s. None),
      float_gt = (\<lambda>f n. False),
      float_str = (\<lambda>f. []),
      timestamp = ''2026-01-01 00:00:00''\<rparr>"

text \<open>One container \<open>web\<close> that is running, publishes port 8080 and reports unhealthy.\<close>

definition unhealthy_world :: "nat world" where
  "unhealthy_world =
     \<lparr>subprocess_run = (\<lambda>t cmd.
        if cmd ! 1 = ''compose'' then
          (if cmd ! 6 = ''json'' then Exited 0 [] [] else Exited 0 ''web'' [])
        else if cmd ! 1 = ''inspect'' then
          (if prefix ''{{if'' (cmd ! 3) then Exited 0 ''unhealthy'' [] else Exited 0 [] [])
        else if cmd ! 1 = ''port'' then Exited 0 ''80/tcp -> 0.0.0.0:8080'' []
        else if cmd ! 1 = ''stats'' then Exited 0 (''1.00%'' @ [CHR 0x09] @ ''2.00%'') []
        else Exited 0 [] []),
      json_loads = (\<lambda>s. JSONDecodeError),
      connect_ex = (\<lambda>t p. Some 0),
      time_time = (\<lambda>t. 0),
      float_of = (\<lambda>s. Some 1),
      float_gt = (\<lambda>f n. int f > n),
      float_str = (\<lambda>f. str_nat f),
      timestamp = ''2026-01-01 00:00:00''\<rparr>"

definition quiet_report :: test_state where
  "quiet_report =
     final_verdict quiet_world
       (eight_tests quiet_world ''docker-compose.yml''
          \<lparr>report_lines = report_header quiet_world ''docker-compose.yml'' ''none detected'',
           pass_count = 0, warn_count = 0, fail_count = 0, clock = 1\<rparr>)"

definition unhealthy_report :: "string \<Rightarrow> test_state" where
  "unhealthy_report file_path =
     final_verdict unhealthy_world
       (eight_tests unhealthy_world file_path
          \<lparr>report_lines = report_header unhealthy_world file_path ''none detected'',
           pass_count = 0, warn_count = 0, fail_count = 0, clock = 1\<rparr>)"

section \<open>Reading the log of a run\<close>

fun call_name :: "call \<Rightarrow> string" where
  "call_name (Activity name a opts) = name"
| "call_name (ChildWorkflow name a wid child_log) = name"
| "call_name (Sleep seconds) = ''sleep''"

text \<open>The retry policies of the invocations of the named activity in a log, in order.\<close>

fun retry_policies :: "string \<Rightarrow> call list \<Rightarrow> retry_policy option list" where
  "retry_policies name [] = []"
| "retry_policies name (Activity n a opts # cs) =
     (if n = name then retry_policy opts # retry_policies name cs else retry_policies name cs)"
| "retry_policies name (c # cs) = retry_policies name cs"

text \<open>
  An environment in which every step completes: the compose file is valid, no port is
  occupied, the deployment succeeds, the test step returns the report of the verification
  engine on the world with the unhealthy container, every health check reports an
  unhealthy container, and the backup directory holds two backups.
\<close>

definition deploy_env :: "nat activities" where
  "deploy_env =
     \<lparr>validate_compose = (\<lambda>f. Some ''Compose file is valid.''),
      backup_compose = (\<lambda>f. Some ''Backup created''),
      detect_conflicts = (\<lambda>f. Some ''No port conflicts''),
      deploy_compose = (\<lambda>f. Some ''Services deployed successfully''),
      teardown_compose = (\<lambda>f. Some ''Services torn down successfully''),
      run_tests = (\<lambda>f. case run_post_deploy_tests unhealthy_world f [] of
                           Inr r \<Rightarrow> Some r | Inl e \<Rightarrow> None),
      send_notification = (\<lambda>m. Some (''Notification sent: '' @ m)),
      agent_analyze = (\<lambda>p. Some ''restart the container''),
      health_check_all = (\<lambda>k. Some ''  web: status=Up, health=unhealthy''),
      backup_listing = (\<lambda>f. Some [(''backups/a.yml'', 1), (''backups/b.yml'', 2)])\<rparr>"

text \<open>The same environment with an empty backup directory.\<close>

definition no_backup_env :: "nat activities" where
  "no_backup_env = deploy_env\<lparr>backup_listing := (\<lambda>f. Some [])\<rparr>"

section \<open>The health monitor in the words of the specification\<close>

text \<open>
  Whether check \<open>k\<close> fails, the counter of consecutive failures after check \<open>k\<close> (a
  success resets it, the third consecutive failure resets it after the diagnosis), and
  the steps the specification expects of check \<open>k\<close>: the health check, one alert when the
  failure is the first of a streak, and the diagnostic analysis with the notification of
  its result when the failure is the third of a streak.
\<close>

definition failing :: "'m activities \<Rightarrow> nat \<Rightarrow> bool" where
  "failing env k =
     (case health_check_all env k of
        Some rep \<Rightarrow> has_failures (health_check_activity rep)
      | None \<Rightarrow> False)"

fun streak :: "'m activities \<Rightarrow> nat \<Rightarrow> nat" where
  "streak env 0 = 0"
| "streak env (Suc k) =
     (if failing env (Suc k)
      then (if streak env k + 1 = 3 then 0 else streak env k + 1)
      else 0)"

definition alert_text :: "string \<Rightarrow> string" where
  "alert_text rep = ''HEALTH ALERT: Unhealthy containers detected!\<newline>'' @ take 300 rep"

definition prompt_text :: "string \<Rightarrow> string" where
  "prompt_text rep = ''Analyze these health check results and diagnose the issue:\<newline>'' @ rep"

definition diagnosis_text :: "string \<Rightarrow> string" where
  "diagnosis_text analysis = ''AI DIAGNOSIS after 3 failures:\<newline>'' @ take 400 analysis"

definition expected_calls :: "'m activities \<Rightarrow> nat \<Rightarrow> call list" where
  "expected_calls env k =
     (case health_check_all env k of
        None \<Rightarrow>
          [Activity ''health_check'' NoArg
             \<lparr>start_to_close_timeout = 60, heartbeat_timeout = None,
              retry_policy = Some (RetryPolicy 3)\<rparr>]
      | Some rep \<Rightarrow>
          Activity ''health_check'' NoArg
            \<lparr>start_to_close_timeout = 60, heartbeat_timeout = None,
             retry_policy = Some (RetryPolicy 3)\<rparr> #
          (if failing env k \<and> streak env (k - 1) = 0
           then [Activity ''send_notification'' (Str (alert_text rep))
                   \<lparr>start_to_close_timeout = 10, heartbeat_timeout = None, retry_policy = None\<rparr>]
           else []) @
          (if failing env k \<and> streak env (k - 1) + 1 = 3
           then (case agent_analyze env (prompt_text rep) of
                   None \<Rightarrow>
                     [Activity ''agent_analyze'' (Str (prompt_text rep))
                        \<lparr>start_to_close_timeout = 120, heartbeat_timeout = None,
                         retry_policy = None\<rparr>]
                 | Some analysis \<Rightarrow>
                     [Activity ''agent_analyze'' (Str (prompt_text rep))
                        \<lparr>start_to_close_timeout = 120, heartbeat_timeout = None,
                         retry_policy = None\<rparr>,
                      Activity ''send_notification'' (Str (diagnosis_text analysis))
                        \<lparr>start_to_close_timeout = 10, heartbeat_timeout = None,
                         retry_policy = None\<rparr>])
           else []))"

section \<open>Reading a deployment plan\<close>

text \<open>
  The stage of a service of the input list, the dependencies of a compiled definition,
  and the names of the services of a stage, in the order of the list.
\<close>

definition stage_of :: "service_spec \<Rightarrow> nat" where
  "stage_of svc = stage_of_role (info_role (info_of svc))"

definition deps_of :: "service_def \<Rightarrow> string list" where
  "deps_of d = (case sd_depends_on d of Some ds \<Rightarrow> ds | None \<Rightarrow> [])"

definition names_at :: "service_spec list \<Rightarrow> nat \<Rightarrow> string list" where
  "names_at svc_list n = map name_of (filter (\<lambda>svc. stage_of svc = n) svc_list)"

text \<open>
  The stage of the service that a plan holds under a name: the last service of the list
  with that name is the one stored.
\<close>

definition plan_stage :: "service_spec list \<Rightarrow> string \<Rightarrow> nat option" where
  "plan_stage svc_list name = map_of (rev (map (\<lambda>svc. (name_of svc, stage_of svc)) svc_list)) name"

text \<open>
  The stage invariant as the specification states it: no service of the plan depends on
  a service of the plan of the same or a higher stage. The second predicate asks this of
  the services that come without a non-empty dependency list of the caller only.
\<close>

definition lower_stage_deps :: "service_spec list \<Rightarrow> compose \<Rightarrow> string \<Rightarrow> bool" where
  "lower_stage_deps svc_list plan name =
     (case services plan name of
        None \<Rightarrow> True
      | Some d \<Rightarrow>
          list_all (\<lambda>dep. case plan_stage svc_list dep of
                            None \<Rightarrow> True
                          | Some m \<Rightarrow> (case plan_stage svc_list name of
                                         None \<Rightarrow> True
                                       | Some n \<Rightarrow> m < n))
            (deps_of d))"

definition stage_monotonic :: "service_spec list \<Rightarrow> compose \<Rightarrow> bool" where
  "stage_monotonic svc_list plan =
     list_all (\<lambda>svc. lower_stage_deps svc_list plan (name_of svc)) svc_list"

definition explicit_deps :: "service_spec \<Rightarrow> string list" where
  "explicit_deps svc = (case spec_depends_on svc of Some ds \<Rightarrow> ds | None \<Rightarrow> [])"

definition inferred_stage_monotonic :: "service_spec list \<Rightarrow> compose \<Rightarrow> bool" where
  "inferred_stage_monotonic svc_list plan =
     list_all (\<lambda>svc. lower_stage_deps svc_list plan (name_of svc))
       (filter (\<lambda>svc. explicit_deps svc = []) svc_list)"

text \<open>
  The dependencies of a service in the words of the specification: the list of the
  caller when there is one; otherwise every stage-1 service for a stage-2 service, every
  stage-2 service (or every stage-1 service when there is no stage-2 service) for a
  stage-3 service, and none for a stage-1 service.
\<close>

definition inferred_dependencies :: "service_spec list \<Rightarrow> service_spec \<Rightarrow> string list" where
  "inferred_dependencies svc_list svc =
     (if stage_of svc = 2 then names_at svc_list 1
      else if stage_of svc = 3
           then (if names_at svc_list 2 \<noteq> [] then names_at svc_list 2 else names_at svc_list 1)
           else [])"

definition spec_dependencies :: "service_spec list \<Rightarrow> service_spec \<Rightarrow> string list" where
  "spec_dependencies svc_list svc =
     (case spec_depends_on svc of
        Some ds \<Rightarrow> ds
      | None \<Rightarrow> inferred_dependencies svc_list svc)"

text \<open>
  What the code does: only a list of the caller that is not empty counts, and it is kept
  as the keys of a dictionary (first occurrences, in order).
\<close>

definition code_dependencies :: "service_spec list \<Rightarrow> service_spec \<Rightarrow> string list" where
  "code_dependencies svc_list svc =
     (if explicit_deps svc \<noteq> [] then dict_keys (explicit_deps svc)
      else inferred_dependencies svc_list svc)"

subsection \<open>Concrete service lists\<close>

definition service :: "string \<Rightarrow> string \<Rightarrow> string list option \<Rightarrow> service_spec" where
  "service name img deps =
     \<lparr>spec_name = Some name, spec_image = Some img, spec_ports = [], spec_environment = [],
      spec_volumes = [], spec_command = None, spec_depends_on = deps,
      spec_memory_limit = None, spec_cpu_limit = None\<rparr>"

text \<open>A database whose caller-supplied list names the proxy.\<close>

definition upward_list :: "service_spec list" where
  "upward_list = [service ''db'' ''postgres:15'' (Some [''web'']), service ''web'' ''nginx:latest'' None]"

text \<open>A backend that comes with an explicit, empty dependency list, beside a database.\<close>

definition empty_deps_list :: "service_spec list" where
  "empty_deps_list = [service ''db'' ''postgres:15'' None, service ''api'' ''python:3.11'' (Some [])]"

text \<open>The clean deployment of the specification with a proxy in front.\<close>

definition clean_list :: "service_spec list" where
  "clean_list =
     [service ''cache'' ''redis:7'' None, service ''api'' ''python:3.11'' None,
      service ''edge'' ''nginx:latest'' None]"

text \<open>One service whose name is the empty string.\<close>

definition empty_name_list :: "service_spec list" where
  "empty_name_list = [service [] ''redis:7'' None]"

subsection \<open>Concrete texts and their parsed values\<close>

text \<open>
  The name of an entry as a key of the plan: the value under \<^verbatim>\<open>name\<close> (the last one
  when the key is repeated), \<^verbatim>\<open>service\<close> when there is none. A name that is a list or a
  dictionary is no key, and a value that is no dictionary is no entry.
\<close>

fun entry_key :: "json \<Rightarrow> key option" where
  "entry_key (JsDict items) =
     (case map_of (rev items) ''name'' of
        None \<Rightarrow> Some (KStr ''service'')
      | Some JsNull \<Rightarrow> Some KNone
      | Some (JsBool b) \<Rightarrow> Some (KNum (Finite (if b then 1 else 0)))
      | Some (JsNum n) \<Rightarrow> Some (KNum n)
      | Some (JsStr s) \<Rightarrow> Some (KStr s)
      | Some (JsList xs) \<Rightarrow> None
      | Some (JsDict d) \<Rightarrow> None)"
| "entry_key v = None"

text \<open>
  The parsed values of \<^verbatim>\<open>{"name": name, "image": img}\<close> and of the same entry with a
  \<^verbatim>\<open>depends_on\<close> list, and their texts.
\<close>

definition entry :: "string \<Rightarrow> string \<Rightarrow> json" where
  "entry name img = JsDict [(''name'', JsStr name), (''image'', JsStr img)]"

definition entry_with_deps :: "string \<Rightarrow> string \<Rightarrow> string list \<Rightarrow> json" where
  "entry_with_deps name img deps =
     JsDict [(''name'', JsStr name), (''image'', JsStr img), (''depends_on'', JsList (map JsStr deps))]"

definition quoted :: "string \<Rightarrow> string" where
  "quoted s = CHR 0x22 # s @ [CHR 0x22]"

definition entry_text :: "string \<Rightarrow> string \<Rightarrow> string" where
  "entry_text name img =
     ''{'' @ quoted ''name'' @ '': '' @ quoted name @ '', '' @ quoted ''image'' @ '': '' @ quoted img @ ''}''"

definition entry_with_deps_text :: "string \<Rightarrow> string \<Rightarrow> string list \<Rightarrow> string" where
  "entry_with_deps_text name img deps =
     ''{'' @ quoted ''name'' @ '': '' @ quoted name @ '', '' @ quoted ''image'' @ '': '' @ quoted img @
     '', '' @ quoted ''depends_on'' @ '': ['' @ join '', '' (map quoted deps) @ '']}''"

definition upward_json :: json where
  "upward_json = JsList [entry_with_deps ''db'' ''postgres:15'' [''web''], entry ''web'' ''nginx:latest'']"

definition upward_text :: string where
  "upward_text =
     ''['' @ entry_with_deps_text ''db'' ''postgres:15'' [''web''] @ '', '' @
     entry_text ''web'' ''nginx:latest'' @ '']''"

definition empty_deps_json :: json where
  "empty_deps_json = JsList [entry ''db'' ''postgres:15'', entry_with_deps ''api'' ''python:3.11'' []]"

definition empty_deps_text :: string where
  "empty_deps_text =
     ''['' @ entry_text ''db'' ''postgres:15'' @ '', '' @
     entry_with_deps_text ''api'' ''python:3.11'' [] @ '']''"

definition clean_json :: json where
  "clean_json =
     JsList [entry ''cache'' ''redis:7'', entry ''api'' ''python:3.11'', entry ''edge'' ''nginx:latest'']"

definition clean_text :: string where
  "clean_text =
     ''['' @ entry_text ''cache'' ''redis:7'' @ '', '' @ entry_text ''api'' ''python:3.11'' @ '', '' @
     entry_text ''edge'' ''nginx:latest'' @ '']''"

definition empty_name_json :: json where
  "empty_name_json = JsList [entry [] ''redis:7'']"


text \<open>
  Parsers: one that reads every text as a fixed value, one that rejects every text. A
  file system in which every file can be opened.
\<close>

definition loads_as :: "json \<Rightarrow> string \<Rightarrow> string + json" where
  "loads_as v text = Inr v"


definition every_file_opens :: "string \<Rightarrow> bool" where
  "every_file_opens file = True"

section \<open>Properties of the verification engine\<close>

lemma container_running_test_pushed:
  "container_running_test w fp st = (rc, st') \<Longrightarrow>
   pushed (timestamp w) ''Container Running Test'' PASS st st' \<or>
   pushed (timestamp w) ''Container Running Test'' FAIL st st'"
  by (auto simp: container_running_test_def pushed_def verdict_prefix_def Let_def split: if_splits)

lemma health_check_test_pushed:
  "pushed (timestamp w) ''Health Check Test'' PASS st (health_check_test w rc st) \<or>
   pushed (timestamp w) ''Health Check Test'' WARN st (health_check_test w rc st) \<or>
   pushed (timestamp w) ''Health Check Test'' FAIL st (health_check_test w rc st)"
  by (simp add: health_check_test_def pushed_def verdict_prefix_def Let_def split: prod.splits)

lemma port_binding_test_pushed:
  "pushed (timestamp w) ''Port Binding Test'' PASS st (port_binding_test w rc st) \<or>
   pushed (timestamp w) ''Port Binding Test'' WARN st (port_binding_test w rc st) \<or>
   pushed (timestamp w) ''Port Binding Test'' FAIL st (port_binding_test w rc st)"
  by (simp add: port_binding_test_def pushed_def verdict_prefix_def Let_def split: prod.splits)

lemma connectivity_test_pushed:
  "pushed (timestamp w) ''Connectivity Test'' PASS st (connectivity_test w rc st) \<or>
   pushed (timestamp w) ''Connectivity Test'' WARN st (connectivity_test w rc st)"
  by (simp add: connectivity_test_def pushed_def verdict_prefix_def Let_def split: prod.splits)

lemma volume_mount_test_pushed:
  "pushed (timestamp w) ''Volume Mount Test'' PASS st (volume_mount_test w rc st) \<or>
   pushed (timestamp w) ''Volume Mount Test'' WARN st (volume_mount_test w rc st)"
  by (simp add: volume_mount_test_def pushed_def verdict_prefix_def Let_def split: prod.splits)

lemma environment_variable_test_pushed:
  "pushed (timestamp w) ''Environment Variable Test'' PASS st (environment_variable_test w rc st) \<or>
   pushed (timestamp w) ''Environment Variable Test'' WARN st (environment_variable_test w rc st)"
  by (simp add: environment_variable_test_def pushed_def verdict_prefix_def Let_def split: prod.splits)

lemma log_output_test_pushed:
  "pushed (timestamp w) ''Log Output Test'' PASS st (log_output_test w rc st) \<or>
   pushed (timestamp w) ''Log Output Test'' WARN st (log_output_test w rc st)"
  by (simp add: log_output_test_def pushed_def verdict_prefix_def Let_def split: prod.splits)

lemma resource_baseline_test_pushed:
  "pushed (timestamp w) ''Resource Baseline Test'' PASS st (resource_baseline_test w rc st) \<or>
   pushed (timestamp w) ''Resource Baseline Test'' WARN st (resource_baseline_test w rc st)"
  by (simp add: resource_baseline_test_def pushed_def verdict_prefix_def Let_def split: prod.splits)

lemma pushedD:
  assumes "pushed ts name v st st'"
  obtains l where "report_lines st' = report_lines st @ [l]"
    and "prefix (verdict_prefix ts v name) l"
    and "pass_count st' = pass_count st + (if v = PASS then 1 else 0)"
    and "warn_count st' = warn_count st + (if v = WARN then 1 else 0)"
    and "fail_count st' = fail_count st + (if v = FAIL then 1 else 0)"
proof -
  from assms have ne: "report_lines st' \<noteq> []" and bl: "butlast (report_lines st') = report_lines st"
    by (simp_all add: pushed_def)
  from ne have "report_lines st' = butlast (report_lines st') @ [last (report_lines st')]"
    by simp
  with bl have "report_lines st' = report_lines st @ [last (report_lines st')]"
    by simp
  with assms that show thesis
    by (simp add: pushed_def)
qed

lemma verdict_prefix_unique:
  "prefix (verdict_prefix ts v name) l \<Longrightarrow> prefix (verdict_prefix ts v' name) l \<Longrightarrow> v = v'"
  by (cases v; cases v'; auto simp: verdict_prefix_def prefix_def)

lemma line_status_prefix:
  assumes "prefix (verdict_prefix ts v name) l"
  shows "line_status ts name l = Some v"
  using assms verdict_prefix_unique [OF assms]
  by (cases v) (auto simp: line_status_def)

lemma eight_tests_verdicts:
  fixes w :: "'f world"
  obtains vs ls where "length vs = 8" and "length ls = 8"
    and "report_lines (eight_tests w fp st0) = report_lines st0 @ ls"
    and "list_all (\<lambda>(name, v, l). prefix (verdict_prefix (timestamp w) v name) l)
           (zip check_names (zip vs ls))"
    and "pass_count (eight_tests w fp st0) = pass_count st0 + length (filter (\<lambda>v. v = PASS) vs)"
    and "warn_count (eight_tests w fp st0) = warn_count st0 + length (filter (\<lambda>v. v = WARN) vs)"
    and "fail_count (eight_tests w fp st0) = fail_count st0 + length (filter (\<lambda>v. v = FAIL) vs)"
proof -
  obtain rc st1 where t1: "container_running_test w fp st0 = (rc, st1)"
    by (cases "container_running_test w fp st0")
  define st2 where "st2 = health_check_test w rc st1"
  define st3 where "st3 = port_binding_test w rc st2"
  define st4 where "st4 = connectivity_test w rc st3"
  define st5 where "st5 = volume_mount_test w rc st4"
  define st6 where "st6 = environment_variable_test w rc st5"
  define st7 where "st7 = log_output_test w rc st6"
  define st8 where "st8 = resource_baseline_test w rc st7"
  have e: "eight_tests w fp st0 = st8"
    by (simp add: eight_tests_def t1 st2_def st3_def st4_def st5_def st6_def st7_def st8_def)
  let ?ts = "timestamp w"
  obtain v1 where "pushed ?ts ''Container Running Test'' v1 st0 st1"
    using container_running_test_pushed [OF t1] by blast
  then obtain l1 where p1: "report_lines st1 = report_lines st0 @ [l1]"
      "prefix (verdict_prefix ?ts v1 ''Container Running Test'') l1"
      "pass_count st1 = pass_count st0 + (if v1 = PASS then 1 else 0)"
      "warn_count st1 = warn_count st0 + (if v1 = WARN then 1 else 0)"
      "fail_count st1 = fail_count st0 + (if v1 = FAIL then 1 else 0)"
    by (rule pushedD)
  obtain v2 where "pushed ?ts ''Health Check Test'' v2 st1 st2"
    using health_check_test_pushed [of w st1 rc] unfolding st2_def by blast
  then obtain l2 where p2: "report_lines st2 = report_lines st1 @ [l2]"
      "prefix (verdict_prefix ?ts v2 ''Health Check Test'') l2"
      "pass_count st2 = pass_count st1 + (if v2 = PASS then 1 else 0)"
      "warn_count st2 = warn_count st1 + (if v2 = WARN then 1 else 0)"
      "fail_count st2 = fail_count st1 + (if v2 = FAIL then 1 else 0)"
    by (rule pushedD)
  obtain v3 where "pushed ?ts ''Port Binding Test'' v3 st2 st3"
    using port_binding_test_pushed [of w st2 rc] unfolding st3_def by blast
  then obtain l3 where p3: "report_lines st3 = report_lines st2 @ [l3]"
      "prefix (verdict_prefix ?ts v3 ''Port Binding Test'') l3"
      "pass_count st3 = pass_count st2 + (if v3 = PASS then 1 else 0)"
      "warn_count st3 = warn_count st2 + (if v3 = WARN then 1 else 0)"
      "fail_count st3 = fail_count st2 + (if v3 = FAIL then 1 else 0)"
    by (rule pushedD)
  obtain v4 where "pushed ?ts ''Connectivity Test'' v4 st3 st4"
    using connectivity_test_pushed [of w st3 rc] unfolding st4_def by blast
  then obtain l4 where p4: "report_lines st4 = report_lines st3 @ [l4]"
      "prefix (verdict_prefix ?ts v4 ''Connectivity Test'') l4"
      "pass_count st4 = pass_count st3 + (if v4 = PASS then 1 else 0)"
      "warn_count st4 = warn_count st3 + (if v4 = WARN then 1 else 0)"
      "fail_count st4 = fail_count st3 + (if v4 = FAIL then 1 else 0)"
    by (rule pushedD)
  obtain v5 where "pushed ?ts ''Volume Mount Test'' v5 st4 st5"
    using volume_mount_test_pushed [of w st4 rc] unfolding st5_def by blast
  then obtain l5 where p5: "report_lines st5 = report_lines st4 @ [l5]"
      "prefix (verdict_prefix ?ts v5 ''Volume Mount Test'') l5"
      "pass_count st5 = pass_count st4 + (if v5 = PASS then 1 else 0)"
      "warn_count st5 = warn_count st4 + (if v5 = WARN then 1 else 0)"
      "fail_count st5 = fail_count st4 + (if v5 = FAIL then 1 else 0)"
    by (rule pushedD)
  obtain v6 where "pushed ?ts ''Environment Variable Test'' v6 st5 st6"
    using environment_variable_test_pushed [of w st5 rc] unfolding st6_def by blast
  then obtain l6 where p6: "report_lines st6 = report_lines st5 @ [l6]"
      "prefix (verdict_prefix ?ts v6 ''Environment Variable Test'') l6"
      "pass_count st6 = pass_count st5 + (if v6 = PASS then 1 else 0)"
      "warn_count st6 = warn_count st5 + (if v6 = WARN then 1 else 0)"
      "fail_count st6 = fail_count st5 + (if v6 = FAIL then 1 else 0)"
    by (rule pushedD)
  obtain v7 where "pushed ?ts ''Log Output Test'' v7 st6 st7"
    using log_output_test_pushed [of w st6 rc] unfolding st7_def by blast
  then obtain l7 where p7: "report_lines st7 = report_lines st6 @ [l7]"
      "prefix (verdict_prefix ?ts v7 ''Log Output Test'') l7"
      "pass_count st7 = pass_count st6 + (if v7 = PASS then 1 else 0)"
      "warn_count st7 = warn_count st6 + (if v7 = WARN then 1 else 0)"
      "fail_count st7 = fail_count st6 + (if v7 = FAIL then 1 else 0)"
    by (rule pushedD)
  obtain v8 where "pushed ?ts ''Resource Baseline Test'' v8 st7 st8"
    using resource_baseline_test_pushed [of w st7 rc] unfolding st8_def by blast
  then obtain l8 where p8: "report_lines st8 = report_lines st7 @ [l8]"
      "prefix (verdict_prefix ?ts v8 ''Resource Baseline Test'') l8"
      "pass_count st8 = pass_count st7 + (if v8 = PASS then 1 else 0)"
      "warn_count st8 = warn_count st7 + (if v8 = WARN then 1 else 0)"
      "fail_count st8 = fail_count st7 + (if v8 = FAIL then 1 else 0)"
    by (rule pushedD)
  let ?vs = "[v1, v2, v3, v4, v5, v6, v7, v8]"
  let ?ls = "[l1, l2, l3, l4, l5, l6, l7, l8]"
  have a: "length ?vs = 8" "length ?ls = 8" by simp_all
  have b: "report_lines (eight_tests w fp st0) = report_lines st0 @ ?ls"
    by (simp add: e p1(1) p2(1) p3(1) p4(1) p5(1) p6(1) p7(1) p8(1))
  have c: "list_all (\<lambda>(name, v, l). prefix (verdict_prefix ?ts v name) l)
             (zip check_names (zip ?vs ?ls))"
    using p1(2) p2(2) p3(2) p4(2) p5(2) p6(2) p7(2) p8(2) by (simp add: check_names_def)
  have d1: "pass_count (eight_tests w fp st0) = pass_count st0 + length (filter (\<lambda>v. v = PASS) ?vs)"
    by (simp add: e p1(3) p2(3) p3(3) p4(3) p5(3) p6(3) p7(3) p8(3))
  have d2: "warn_count (eight_tests w fp st0) = warn_count st0 + length (filter (\<lambda>v. v = WARN) ?vs)"
    by (simp add: e p1(4) p2(4) p3(4) p4(4) p5(4) p6(4) p7(4) p8(4))
  have d3: "fail_count (eight_tests w fp st0) = fail_count st0 + length (filter (\<lambda>v. v = FAIL) ?vs)"
    by (simp add: e p1(5) p2(5) p3(5) p4(5) p5(5) p6(5) p7(5) p8(5))
  from a b c d1 d2 d3 show thesis by (rule that)
qed

lemma status_partition:
  "length (filter (\<lambda>v. v = PASS) vs) + length (filter (\<lambda>v. v = WARN) vs) +
   length (filter (\<lambda>v. v = FAIL) vs) = length vs"
proof (induction vs)
  case Nil
  show ?case by simp
next
  case (Cons v vs)
  then show ?case by (cases v) simp_all
qed

lemma state_unfold:
  assumes "run_post_deploy_tests_state w fp es = Inr st"
  obtains shown where
    "st = final_verdict w (eight_tests w fp
            \<lparr>report_lines = report_header w fp shown,
             pass_count = 0, warn_count = 0, fail_count = 0, clock = 1\<rparr>)"
  using assms
  by (auto simp: run_post_deploy_tests_state_def Let_def split: sum.splits if_splits)

lemma report_shape:
  fixes w :: "'f world"
  assumes "run_post_deploy_tests_state w fp es = Inr st"
  obtains vs ls h where "length vs = 8" and "length ls = 8" and "length h = 4"
    and "report_lines st = h @ ls @
           [''['' @ timestamp w @ ''] [TEST] '' @ light_rule 37,
            ''['' @ timestamp w @ ''] [TEST] Result: '' @ str_nat (pass_count st) @ '' PASS / '' @
              str_nat (warn_count st) @ '' WARN / '' @ str_nat (fail_count st) @ '' FAIL'',
            ''['' @ timestamp w @ ''] [TEST] Deployment: '' @ verdict (fail_count st) (warn_count st),
            ''['' @ timestamp w @ ''] [TEST] '' @ heavy_rule 36]"
    and "list_all (\<lambda>(name, v, l). prefix (verdict_prefix (timestamp w) v name) l)
           (zip check_names (zip vs ls))"
    and "pass_count st = length (filter (\<lambda>v. v = PASS) vs)"
    and "warn_count st = length (filter (\<lambda>v. v = WARN) vs)"
    and "fail_count st = length (filter (\<lambda>v. v = FAIL) vs)"
proof -
  from assms obtain shown where st:
    "st = final_verdict w (eight_tests w fp
            \<lparr>report_lines = report_header w fp shown,
             pass_count = 0, warn_count = 0, fail_count = 0, clock = 1\<rparr>)"
    by (rule state_unfold)
  let ?st0 = "\<lparr>report_lines = report_header w fp shown,
               pass_count = 0, warn_count = 0, fail_count = 0, clock = 1\<rparr>"
  obtain vs ls where v: "length vs = 8" "length ls = 8"
      "report_lines (eight_tests w fp ?st0) = report_lines ?st0 @ ls"
      "list_all (\<lambda>(name, v, l). prefix (verdict_prefix (timestamp w) v name) l)
         (zip check_names (zip vs ls))"
      "pass_count (eight_tests w fp ?st0) = pass_count ?st0 + length (filter (\<lambda>v. v = PASS) vs)"
      "warn_count (eight_tests w fp ?st0) = warn_count ?st0 + length (filter (\<lambda>v. v = WARN) vs)"
      "fail_count (eight_tests w fp ?st0) = fail_count ?st0 + length (filter (\<lambda>v. v = FAIL) vs)"
    by (rule eight_tests_verdicts)
  have h: "length (report_header w fp shown) = 4"
    by (simp add: report_header_def Let_def)
  show thesis
  proof (rule that [of vs ls "report_header w fp shown"])
    show "length vs = 8" "length ls = 8" by (fact v)+
    show "length (report_header w fp shown) = 4" by (fact h)
    show "pass_count st = length (filter (\<lambda>v. v = PASS) vs)"
      using v(5) by (simp add: st final_verdict_def Let_def)
    show "warn_count st = length (filter (\<lambda>v. v = WARN) vs)"
      using v(6) by (simp add: st final_verdict_def Let_def)
    show "fail_count st = length (filter (\<lambda>v. v = FAIL) vs)"
      using v(7) by (simp add: st final_verdict_def Let_def)
    show "list_all (\<lambda>(name, v, l). prefix (verdict_prefix (timestamp w) v name) l)
           (zip check_names (zip vs ls))" by (fact v(4))
    show "report_lines st = report_header w fp shown @ ls @
           [''['' @ timestamp w @ ''] [TEST] '' @ light_rule 37,
            ''['' @ timestamp w @ ''] [TEST] Result: '' @ str_nat (pass_count st) @ '' PASS / '' @
              str_nat (warn_count st) @ '' WARN / '' @ str_nat (fail_count st) @ '' FAIL'',
            ''['' @ timestamp w @ ''] [TEST] Deployment: '' @ verdict (fail_count st) (warn_count st),
            ''['' @ timestamp w @ ''] [TEST] '' @ heavy_rule 36]"
      using v(3) by (simp add: st final_verdict_def Let_def)
  qed
qed

lemma check_line_prefix:
  assumes "length vs = 8" and "length ls = 8"
    and "list_all (\<lambda>(name, v, l). prefix (verdict_prefix ts v name) l) (zip check_names (zip vs ls))"
    and "i < 8"
  shows "prefix (verdict_prefix ts (vs ! i) (check_names ! i)) (ls ! i)"
proof -
  have len: "length (zip check_names (zip vs ls)) = 8"
    using assms(1,2) by (simp add: check_names_def)
  from assms(3) have "\<forall>n<length (zip check_names (zip vs ls)).
      (\<lambda>(name, v, l). prefix (verdict_prefix ts v name) l) (zip check_names (zip vs ls) ! n)"
    by (simp only: list_all_length)
  with len assms(4) have
    "(\<lambda>(name, v, l). prefix (verdict_prefix ts v name) l) (zip check_names (zip vs ls) ! i)"
    by simp
  moreover have "zip check_names (zip vs ls) ! i = (check_names ! i, vs ! i, ls ! i)"
    using assms(1,2,4) by (simp add: check_names_def)
  ultimately show ?thesis by simp
qed

text \<open>
  Claim C10. Every report of the verification engine holds exactly one verdict, PASS, WARN
  or FAIL, for each of the eight checks, in the order of the suite, and the three counters
  add up to eight. This holds for every behaviour of the container runtime, of the sockets
  and of the parsers, also when no container is running: whenever the function returns a
  report, the report has sixteen lines, line \<open>4 + i\<close> is the line of check \<open>i\<close> and carries
  exactly one of the three tags, and \<open>pass_count + warn_count + fail_count = 8\<close>.
\<close>

theorem report_has_one_verdict_per_check:
  fixes w :: "'f world"
  assumes "run_post_deploy_tests_state w file_path expected_services = Inr st"
  shows "run_post_deploy_tests w file_path expected_services = Inr (join ''\<newline>'' (report_lines st)) \<and>
         length (report_lines st) = 16 \<and>
         (\<forall>i<8. \<exists>!v. prefix (verdict_prefix (timestamp w) v (check_names ! i))
                         (report_lines st ! (4 + i))) \<and>
         pass_count st + warn_count st + fail_count st = 8"
proof -
  obtain vs ls h where s: "length vs = 8" "length ls = 8" "length h = 4"
      "report_lines st = h @ ls @
           [''['' @ timestamp w @ ''] [TEST] '' @ light_rule 37,
            ''['' @ timestamp w @ ''] [TEST] Result: '' @ str_nat (pass_count st) @ '' PASS / '' @
              str_nat (warn_count st) @ '' WARN / '' @ str_nat (fail_count st) @ '' FAIL'',
            ''['' @ timestamp w @ ''] [TEST] Deployment: '' @ verdict (fail_count st) (warn_count st),
            ''['' @ timestamp w @ ''] [TEST] '' @ heavy_rule 36]"
      "list_all (\<lambda>(name, v, l). prefix (verdict_prefix (timestamp w) v name) l)
           (zip check_names (zip vs ls))"
      "pass_count st = length (filter (\<lambda>v. v = PASS) vs)"
      "warn_count st = length (filter (\<lambda>v. v = WARN) vs)"
      "fail_count st = length (filter (\<lambda>v. v = FAIL) vs)"
    using assms by (rule report_shape)
  have a: "run_post_deploy_tests w file_path expected_services = Inr (join ''\<newline>'' (report_lines st))"
    using assms by (simp add: run_post_deploy_tests_def)
  have b: "length (report_lines st) = 16"
    using s(1-3) by (simp add: s(4))
  have c: "\<exists>!v. prefix (verdict_prefix (timestamp w) v (check_names ! i)) (report_lines st ! (4 + i))"
    if i: "i < 8" for i
  proof -
    have nth: "report_lines st ! (4 + i) = ls ! i"
      using i s(2,3) by (simp add: s(4) nth_append)
    have "prefix (verdict_prefix (timestamp w) (vs ! i) (check_names ! i)) (ls ! i)"
      using s(1,2,5) i by (rule check_line_prefix)
    then show ?thesis
      unfolding nth by (blast intro: verdict_prefix_unique)
  qed
  have d: "pass_count st + warn_count st + fail_count st = 8"
    using status_partition [of vs] s(1) by (simp add: s(6-8))
  from a b c d show ?thesis by blast
qed

theorem report_has_one_verdict_per_check_witness:
  "run_post_deploy_tests_state quiet_world ''docker-compose.yml'' [] = Inr quiet_report \<and>
   run_post_deploy_tests quiet_world ''docker-compose.yml'' [] =
     Inr (join ''\<newline>'' (report_lines quiet_report)) \<and>
   length (report_lines quiet_report) = 16 \<and>
   list_all (\<lambda>i. \<exists>!v. prefix (verdict_prefix (timestamp quiet_world) v (check_names ! i))
                         (report_lines quiet_report ! (4 + i))) [0..<8] \<and>
   pass_count quiet_report + warn_count quiet_report + fail_count quiet_report = 8"
proof -
  have h: "run_post_deploy_tests_state quiet_world ''docker-compose.yml'' [] = Inr quiet_report"
    by (simp add: run_post_deploy_tests_state_def get_compose_services_def run_cmd_def
        quiet_world_def quiet_report_def strip_def split_def)
  from h report_has_one_verdict_per_check [OF h] show ?thesis
    by (simp add: list_all_iff)
qed

lemma verdict_spec:
  "verdict (length (filter (\<lambda>v. v = FAIL) vs)) (length (filter (\<lambda>v. v = WARN) vs)) =
   verdict_text (spec_aggregate vs)"
  by (auto simp: verdict_def spec_aggregate_def filter_empty_conv)

lemma check_statuses_eq:
  assumes "length vs = 8" and "length ls = 8" and "length h = 4"
    and "report_lines st = h @ ls @ rest"
    and "list_all (\<lambda>(name, v, l). prefix (verdict_prefix ts v name) l) (zip check_names (zip vs ls))"
  shows "check_statuses ts st = map Some vs"
proof (rule nth_equalityI)
  have cl: "check_lines st = ls"
    using assms(2,3) by (simp add: check_lines_def assms(4))
  show len: "length (check_statuses ts st) = length (map Some vs)"
    using assms(1,2) by (simp add: check_statuses_def cl check_names_def)
  fix i assume "i < length (check_statuses ts st)"
  with len assms(1) have i: "i < 8" by simp
  have "prefix (verdict_prefix ts (vs ! i) (check_names ! i)) (ls ! i)"
    using assms(1,2,5) i by (rule check_line_prefix)
  then have "line_status ts (check_names ! i) (ls ! i) = Some (vs ! i)"
    by (rule line_status_prefix)
  then show "check_statuses ts st ! i = map Some vs ! i"
    using i assms(1,2) by (simp add: check_statuses_def cl check_names_def)
qed

text \<open>
  Claim C2. For every report of the verification engine, the eight check lines each carry
  a status, and the aggregate verdict printed on the \<open>Deployment:\<close> line is the one the
  specification gives for these eight statuses: FAILED iff at least one check is FAIL,
  else ACCEPTED WITH WARNINGS iff at least one check is WARN, else SUCCESSFUL.
\<close>

theorem aggregate_verdict_follows_checks:
  fixes w :: "'f world"
  assumes "run_post_deploy_tests_state w file_path expected_services = Inr st"
  shows "length (check_statuses (timestamp w) st) = 8 \<and>
         list_all (\<lambda>s. s \<noteq> None) (check_statuses (timestamp w) st) \<and>
         report_lines st ! 14 =
           ''['' @ timestamp w @ ''] [TEST] Deployment: '' @
           verdict_text (spec_aggregate (map the (check_statuses (timestamp w) st)))"
proof -
  obtain vs ls h where s: "length vs = 8" "length ls = 8" "length h = 4"
      "report_lines st = h @ ls @
           [''['' @ timestamp w @ ''] [TEST] '' @ light_rule 37,
            ''['' @ timestamp w @ ''] [TEST] Result: '' @ str_nat (pass_count st) @ '' PASS / '' @
              str_nat (warn_count st) @ '' WARN / '' @ str_nat (fail_count st) @ '' FAIL'',
            ''['' @ timestamp w @ ''] [TEST] Deployment: '' @ verdict (fail_count st) (warn_count st),
            ''['' @ timestamp w @ ''] [TEST] '' @ heavy_rule 36]"
      "list_all (\<lambda>(name, v, l). prefix (verdict_prefix (timestamp w) v name) l)
           (zip check_names (zip vs ls))"
      "pass_count st = length (filter (\<lambda>v. v = PASS) vs)"
      "warn_count st = length (filter (\<lambda>v. v = WARN) vs)"
      "fail_count st = length (filter (\<lambda>v. v = FAIL) vs)"
    using assms by (rule report_shape)
  have cs: "check_statuses (timestamp w) st = map Some vs"
    using s(1-5) by (rule check_statuses_eq)
  have the_vs: "map the (map Some vs) = vs"
    by (simp add: comp_def)
  have a: "length (check_statuses (timestamp w) st) = 8"
    using s(1) by (simp add: cs)
  have b: "list_all (\<lambda>s. s \<noteq> None) (check_statuses (timestamp w) st)"
    by (simp add: cs list_all_iff)
  have "report_lines st ! 14 =
          ''['' @ timestamp w @ ''] [TEST] Deployment: '' @ verdict (fail_count st) (warn_count st)"
    using s(2,3) by (simp add: s(4) nth_append)
  then have c: "report_lines st ! 14 =
           ''['' @ timestamp w @ ''] [TEST] Deployment: '' @
           verdict_text (spec_aggregate (map the (check_statuses (timestamp w) st)))"
    by (simp only: cs the_vs s(7,8) verdict_spec)
  from a b c show ?thesis by blast
qed

theorem aggregate_verdict_follows_checks_witness:
  "run_post_deploy_tests_state unhealthy_world ''docker-compose.yml'' [] =
     Inr (unhealthy_report ''docker-compose.yml'') \<and>
   length (check_statuses (timestamp unhealthy_world) (unhealthy_report ''docker-compose.yml'')) = 8 \<and>
   list_all (\<lambda>s. s \<noteq> None)
     (check_statuses (timestamp unhealthy_world) (unhealthy_report ''docker-compose.yml'')) \<and>
   report_lines (unhealthy_report ''docker-compose.yml'') ! 14 =
     ''['' @ timestamp unhealthy_world @ ''] [TEST] Deployment: '' @
     verdict_text (spec_aggregate (map the
       (check_statuses (timestamp unhealthy_world) (unhealthy_report ''docker-compose.yml''))))"
proof -
  have h: "run_post_deploy_tests_state unhealthy_world ''docker-compose.yml'' [] =
      Inr (unhealthy_report ''docker-compose.yml'')"
    by (simp add: run_post_deploy_tests_state_def get_compose_services_def run_cmd_def
        unhealthy_world_def unhealthy_report_def strip_def split_def)
  from h aggregate_verdict_follows_checks [OF h] show ?thesis by blast
qed

section \<open>Properties of the workflows\<close>

lemma join_mem_sublist: "l \<in> set ls \<Longrightarrow> sublist l (join sep ls)"
proof (induction sep ls rule: join.induct)
  case (1 sep)
  then show ?case by simp
next
  case (2 sep x)
  then show ?case by simp
next
  case (3 sep x y ys)
  show ?case
  proof (cases "l = x")
    case True
    then show ?thesis by simp
  next
    case False
    with 3 have "sublist l (join sep (y # ys))" by simp
    then have "sublist l ((x @ sep) @ join sep (y # ys))"
      by (rule sublist_order.order.trans) (rule suffix_imp_sublist, simp add: suffix_def)
    then show ?thesis by simp
  qed
qed

lemma upper_PASS: "upper ''PASS'' = ''PASS''"
  by (simp add: upper_def upper_char_def)

lemma sublist_upper: "sublist ''PASS'' s \<Longrightarrow> sublist ''PASS'' (upper s)"
  using map_mono_sublist [of "''PASS''" s upper_char] upper_PASS
  by (simp add: upper_def)

lemma report_not_tests_failed:
  fixes w :: "'f world"
  assumes "run_post_deploy_tests w fp es = Inr r"
  shows "\<not> tests_failed r"
proof -
  from assms obtain st where st: "run_post_deploy_tests_state w fp es = Inr st"
    and r: "r = join ''\<newline>'' (report_lines st)"
    by (auto simp: run_post_deploy_tests_def split: sum.splits)
  let ?l = "''['' @ timestamp w @ ''] [TEST] Result: '' @ str_nat (pass_count st) @ '' PASS / '' @
              str_nat (warn_count st) @ '' WARN / '' @ str_nat (fail_count st) @ '' FAIL''"
  from st obtain vs ls h where "report_lines st = h @ ls @
           [''['' @ timestamp w @ ''] [TEST] '' @ light_rule 37, ?l,
            ''['' @ timestamp w @ ''] [TEST] Deployment: '' @ verdict (fail_count st) (warn_count st),
            ''['' @ timestamp w @ ''] [TEST] '' @ heavy_rule 36]"
    by (rule report_shape)
  then have "?l \<in> set (report_lines st)" by simp
  then have a: "sublist ?l r" unfolding r by (rule join_mem_sublist)
  have "sublist ''PASS'' ((''['' @ timestamp w @ ''] [TEST] Result: '' @ str_nat (pass_count st) @ '' '') @
           ''PASS'' @ ('' / '' @ str_nat (warn_count st) @ '' WARN / '' @ str_nat (fail_count st) @ '' FAIL''))"
    by (rule sublist_appendI)
  then have b: "sublist ''PASS'' ?l" by simp
  from b a have "sublist ''PASS'' r" by (rule sublist_order.order.trans)
  then have "sublist ''PASS'' (upper r)" by (rule sublist_upper)
  then show ?thesis by (simp add: tests_failed_def)
qed

lemma strip_web: "strip ''web'' = ''web''"
  by (simp add: strip_def is_space_def)

lemma strip_Nil: "strip [] = []"
  by (simp add: strip_def)

lemma names_web: "container_names ''web'' = [''web'']"
  by (simp add: container_names_def split_def strip_def is_space_def)

lemma str_nat_1: "str_nat (Suc 0) = ''1''"
  by (simp add: str_nat.simps digit_char_def)

lemma uw_test1:
  "container_running_test unhealthy_world fp st =
     ([''web''],
      st\<lparr>clock := clock st + 2,
         report_lines := report_lines st @
           [''[2026-01-01 00:00:00] [PASS] Container Running Test   : ALL 1 running''],
         pass_count := pass_count st + 1\<rparr>)"
  by (simp add: container_running_test_def Let_def run_cmd_def unhealthy_world_def strip_web
      names_web str_nat_1)

lemma strip_unhealthy: "strip ''unhealthy'' = ''unhealthy''"
  by (simp add: strip_def is_space_def)

lemma uw_poll: "poll_health unhealthy_world ''web'' (Suc k) t = (Some ''unhealthy'', t + 1)"
  by (simp add: run_cmd_def unhealthy_world_def strip_unhealthy Let_def)

lemma uw_health_loop: "health_loop unhealthy_world [''web''] [] t = ([''web=unhealthy''], t + 1)"
  by (simp add: uw_poll numeral_eq_Suc del: poll_health.simps)

lemma uw_ts: "timestamp unhealthy_world = ''2026-01-01 00:00:00''"
  by (simp add: unhealthy_world_def)

lemma uw_test2:
  "health_check_test unhealthy_world [''web''] st =
     st\<lparr>clock := clock st + 1,
        report_lines := report_lines st @
          [''[2026-01-01 00:00:00] [FAIL] Health Check Test        : web=unhealthy''],
        fail_count := fail_count st + 1\<rparr>"
  by (simp add: health_check_test_def uw_health_loop uw_ts Let_def sublist_code del: health_loop.simps)


lemma uw_port_lines:
  "port_lines_loop unhealthy_world [''80/tcp -> 0.0.0.0:8080''] [] t = ([''8080=open''], t + 1)"
  by (simp add: Let_def sublist_code split_def last_part_def strip_def is_space_def unhealthy_world_def)

lemma strip_port: "strip ''80/tcp -> 0.0.0.0:8080'' = ''80/tcp -> 0.0.0.0:8080''"
  by (simp add: strip_def is_space_def)

lemma split_port: "split ''80/tcp -> 0.0.0.0:8080'' ''\<newline>'' = [''80/tcp -> 0.0.0.0:8080'']"
  by (simp add: split_def)

lemma uw_port_loop: "port_loop unhealthy_world [''web''] [] t = ([''8080=open''], t + 2)"
proof -
  have r: "run_cmd unhealthy_world t [''docker'', ''port'', ''web''] =
        \<lparr>success = True, stdout = ''80/tcp -> 0.0.0.0:8080'', stderr = []\<rparr>"
    by (simp add: run_cmd_def unhealthy_world_def strip_port strip_Nil)
  show ?thesis
    by (simp add: r split_port uw_port_lines Let_def del: port_lines_loop.simps)
qed

lemma uw_test3:
  "port_binding_test unhealthy_world [''web''] st =
     st\<lparr>clock := clock st + 2,
        report_lines := report_lines st @
          [''[2026-01-01 00:00:00] [PASS] Port Binding Test        : 8080=open''],
        pass_count := pass_count st + 1\<rparr>"
  by (simp add: port_binding_test_def uw_port_loop uw_ts Let_def sublist_code del: port_loop.simps)

lemma uw_test4:
  "connectivity_test unhealthy_world [''web''] st =
     st\<lparr>report_lines := report_lines st @
          [''[2026-01-01 00:00:00] [PASS] Connectivity Test        : Single service '' @ em_dash @ '' skipped''],
        pass_count := pass_count st + 1\<rparr>"
  by (simp add: connectivity_test_def uw_ts Let_def)

lemma uw_volume_loop: "volume_loop unhealthy_world [''web''] [] t = ([], t + 1)"
  by (simp add: run_cmd_def unhealthy_world_def strip_Nil Let_def)

lemma uw_test5:
  "volume_mount_test unhealthy_world [''web''] st =
     st\<lparr>clock := clock st + 1,
        report_lines := report_lines st @
          [''[2026-01-01 00:00:00] [PASS] Volume Mount Test        : No volumes to test''],
        pass_count := pass_count st + 1\<rparr>"
  by (simp add: volume_mount_test_def uw_volume_loop uw_ts Let_def del: volume_loop.simps)

lemma uw_env_loop: "env_loop unhealthy_world [''web''] [] t = ([''web=1 vars''], t + 1)"
  by (simp add: run_cmd_def unhealthy_world_def strip_Nil Let_def split_def str_nat_1)

lemma uw_test6:
  "environment_variable_test unhealthy_world [''web''] st =
     st\<lparr>clock := clock st + 1,
        report_lines := report_lines st @
          [''[2026-01-01 00:00:00] [PASS] Environment Variable Test : web=1 vars''],
        pass_count := pass_count st + 1\<rparr>"
  by (simp add: environment_variable_test_def uw_env_loop uw_ts Let_def sublist_code del: env_loop.simps)

lemma lower_space: "lower '' '' = '' ''"
  by (simp add: lower_def lower_char_def)

lemma uw_log_loop: "log_loop unhealthy_world [''web''] [] t = ([], t + 1)"
  by (simp add: run_cmd_def unhealthy_world_def strip_Nil Let_def lower_space error_keywords_def
      sublist_code)

lemma uw_test7:
  "log_output_test unhealthy_world [''web''] st =
     st\<lparr>clock := clock st + 1,
        report_lines := report_lines st @
          [''[2026-01-01 00:00:00] [PASS] Log Output Test          : No error keywords in startup logs''],
        pass_count := pass_count st + 1\<rparr>"
  by (simp add: log_output_test_def uw_log_loop uw_ts Let_def del: log_loop.simps)

lemma strip_stats: "strip (''1.00%'' @ [CHR 0x09] @ ''2.00%'') = ''1.00%'' @ [CHR 0x09] @ ''2.00%''"
  by (simp add: strip_def is_space_def)

lemma split_stats: "split (''1.00%'' @ [CHR 0x09] @ ''2.00%'') [CHR 0x09] = [''1.00%'', ''2.00%'']"
  by (simp add: split_def)

lemma uw_resource_loop: "resource_loop unhealthy_world [''web''] [] t = ([], t + 1)"
proof -
  have f: "float_of unhealthy_world s = Some 1" "float_gt unhealthy_world x n = (int x > n)" for s x n
    by (simp_all add: unhealthy_world_def)
  have r: "subprocess_run unhealthy_world t
        [''docker'', ''stats'', ''--no-stream'', ''--format'',
         ''{{.CPUPerc}}'' @ [CHR 0x09] @ ''{{.MemPerc}}'', ''web''] =
        Exited 0 (''1.00%'' @ [CHR 0x09] @ ''2.00%'') []"
    by (simp add: unhealthy_world_def)
  show ?thesis
    using strip_stats split_stats r
    by (simp add: run_cmd_def f Let_def strip_Nil)
qed

lemma uw_test8:
  "resource_baseline_test unhealthy_world [''web''] st =
     st\<lparr>clock := clock st + 1,
        report_lines := report_lines st @
          [''[2026-01-01 00:00:00] [PASS] Resource Baseline Test   : All containers within normal limits''],
        pass_count := pass_count st + 1\<rparr>"
  by (simp add: resource_baseline_test_def uw_resource_loop uw_ts Let_def del: resource_loop.simps)

lemma str_nat_small: "str_nat 7 = ''7''" "str_nat 0 = ''0''" "str_nat (Suc 0) = ''1''"
  by (simp_all add: str_nat.simps digit_char_def)

lemma str_nat_seven: "str_nat (Suc (Suc (Suc (Suc (Suc (Suc (Suc 0))))))) = ''7''"
proof -
  have "Suc (Suc (Suc (Suc (Suc (Suc (Suc 0)))))) = 7" by simp
  then show ?thesis by (simp only: str_nat_small)
qed

lemma unhealthy_report_lines:
  "report_lines (unhealthy_report fp) =
     report_header unhealthy_world fp ''none detected'' @
     [''[2026-01-01 00:00:00] [PASS] Container Running Test   : ALL 1 running'',
      ''[2026-01-01 00:00:00] [FAIL] Health Check Test        : web=unhealthy'',
      ''[2026-01-01 00:00:00] [PASS] Port Binding Test        : 8080=open'',
      ''[2026-01-01 00:00:00] [PASS] Connectivity Test        : Single service '' @ em_dash @ '' skipped'',
      ''[2026-01-01 00:00:00] [PASS] Volume Mount Test        : No volumes to test'',
      ''[2026-01-01 00:00:00] [PASS] Environment Variable Test : web=1 vars'',
      ''[2026-01-01 00:00:00] [PASS] Log Output Test          : No error keywords in startup logs'',
      ''[2026-01-01 00:00:00] [PASS] Resource Baseline Test   : All containers within normal limits'',
      ''[2026-01-01 00:00:00] [TEST] '' @ light_rule 37,
      ''[2026-01-01 00:00:00] [TEST] Result: 7 PASS / 0 WARN / 1 FAIL'',
      ''[2026-01-01 00:00:00] [TEST] Deployment: FAILED '' @ em_dash @ '' rollback recommended'',
      ''[2026-01-01 00:00:00] [TEST] '' @ heavy_rule 36]"
  by (simp add: unhealthy_report_def eight_tests_def final_verdict_def uw_test1 uw_test2 uw_test3
      uw_test4 uw_test5 uw_test6 uw_test7 uw_test8 uw_ts verdict_def str_nat_small str_nat_seven Let_def)

lemma unhealthy_report_statuses:
  "check_statuses (timestamp unhealthy_world) (unhealthy_report fp) =
     [Some PASS, Some FAIL, Some PASS, Some PASS, Some PASS, Some PASS, Some PASS, Some PASS]"
  by (simp add: check_statuses_def check_lines_def unhealthy_report_lines report_header_def
      check_names_def line_status_def verdict_prefix_def uw_ts Let_def)

lemma unhealthy_state:
  "run_post_deploy_tests_state unhealthy_world fp [] = Inr (unhealthy_report fp)"
  by (simp add: run_post_deploy_tests_state_def get_compose_services_def run_cmd_def
      unhealthy_world_def unhealthy_report_def strip_def split_def)

lemma unhealthy_text:
  "run_post_deploy_tests unhealthy_world fp [] = Inr (join ''\<newline>'' (report_lines (unhealthy_report fp)))"
  by (simp add: run_post_deploy_tests_def unhealthy_state)

lemma deploy_env_steps:
  "validate_compose deploy_env f = Some ''Compose file is valid.''"
  "backup_compose deploy_env f = Some ''Backup created''"
  "detect_conflicts deploy_env f = Some ''No port conflicts''"
  "deploy_compose deploy_env f = Some ''Services deployed successfully''"
  "teardown_compose deploy_env f = Some ''Services torn down successfully''"
  "send_notification deploy_env m = Some (''Notification sent: '' @ m)"
  "run_tests deploy_env f = Some (join ''\<newline>'' (report_lines (unhealthy_report f)))"
  by (simp_all add: deploy_env_def unhealthy_text)

lemma unhealthy_not_failed: "\<not> tests_failed (join ''\<newline>'' (report_lines (unhealthy_report f)))"
  using unhealthy_text by (rule report_not_tests_failed)

lemma markers:
  "\<not> sublist ''ERROR'' ''Compose file is valid.''"
  "\<not> sublist ''FAILED'' ''Compose file is valid.''"
  "\<not> sublist ''OCCUPIED'' (upper ''No port conflicts'')"
  "\<not> sublist warning_sign ''No port conflicts''"
  "\<not> sublist ''FAILED'' ''Services deployed successfully''"
  "\<not> sublist ''ERROR'' ''Services deployed successfully''"
  by (simp_all add: sublist_code upper_def upper_char_def warning_sign_def)

lemma deploy_env_run:
  "DeployWorkflow_run deploy_env wid fp =
     ([Activity ''validate_compose'' (Str fp)
         \<lparr>start_to_close_timeout = 30, heartbeat_timeout = None, retry_policy = Some (RetryPolicy 2)\<rparr>,
       Activity ''backup_compose'' (BackupInput fp)
         \<lparr>start_to_close_timeout = 30, heartbeat_timeout = None, retry_policy = None\<rparr>,
       Activity ''detect_conflicts'' (Str fp)
         \<lparr>start_to_close_timeout = 30, heartbeat_timeout = None, retry_policy = None\<rparr>,
       Activity ''deploy_compose'' (ComposeInput fp False True)
         \<lparr>start_to_close_timeout = 300, heartbeat_timeout = Some 60, retry_policy = Some (RetryPolicy 2)\<rparr>,
       Activity ''run_tests'' (TestInput fp [])
         \<lparr>start_to_close_timeout = 180, heartbeat_timeout = Some 120, retry_policy = None\<rparr>,
       notify_call (take 500
         (''DEPLOYMENT SUCCESSFUL\<newline>\<newline>'' @
          join ''\<newline>''
            [''[1/6] Validate: '' @ take 100 ''Compose file is valid.'',
             ''[2/6] Backup: '' @ take 100 ''Backup created'',
             ''[3/6] Ports: '' @ take 100 ''No port conflicts'',
             ''[4/6] Deploy: '' @ take 100 ''Services deployed successfully'',
             ''[5/6] Tests: '' @ take 200 (join ''\<newline>'' (report_lines (unhealthy_report fp)))] @
          ''\<newline>\<newline>Test Results:\<newline>'' @ join ''\<newline>'' (report_lines (unhealthy_report fp))))],
      Returned
        (''DEPLOYMENT SUCCESSFUL\<newline>\<newline>'' @
          join ''\<newline>''
            [''[1/6] Validate: '' @ take 100 ''Compose file is valid.'',
             ''[2/6] Backup: '' @ take 100 ''Backup created'',
             ''[3/6] Ports: '' @ take 100 ''No port conflicts'',
             ''[4/6] Deploy: '' @ take 100 ''Services deployed successfully'',
             ''[5/6] Tests: '' @ take 200 (join ''\<newline>'' (report_lines (unhealthy_report fp)))] @
          ''\<newline>\<newline>Test Results:\<newline>'' @ join ''\<newline>'' (report_lines (unhealthy_report fp))))"
  unfolding DeployWorkflow_run_def await_def notify_def Let_def deploy_env_steps
  using markers unhealthy_not_failed [of fp]
  by (simp del: join.simps take_Cons_numeral)

text \<open>
  Claim C1 (the code departs from it). After a successful deploy step the run decides on
  the rollback by \<open>tests_failed\<close>: the report, in upper case, contains FAIL and does not
  contain PASS. Every report of the verification engine prints \<open>n PASS / m WARN / k FAIL\<close>
  on its result line, so the test is never true of a report (lemma
  \<open>report_not_tests_failed\<close>). The theorem runs the code on the scenario of the
  specification: one running container whose check 2 is unhealthy while the seven other
  checks PASS. The report's verdict is FAILED, and the run invokes no rollback: its log
  is the five steps and one notification, and it returns the message of a successful
  deployment.
\<close>

theorem deploy_run_keeps_failed_deployment:
  "check_statuses (timestamp unhealthy_world) (unhealthy_report ''docker-compose.yml'') =
     [Some PASS, Some FAIL, Some PASS, Some PASS, Some PASS, Some PASS, Some PASS, Some PASS] \<and>
   report_lines (unhealthy_report ''docker-compose.yml'') ! 14 =
     ''[2026-01-01 00:00:00] [TEST] Deployment: FAILED '' @ em_dash @ '' rollback recommended'' \<and>
   run_tests deploy_env ''docker-compose.yml'' =
     Some (join ''\<newline>'' (report_lines (unhealthy_report ''docker-compose.yml''))) \<and>
   map call_name (fst (DeployWorkflow_run deploy_env ''deploy-1'' ''docker-compose.yml'')) =
     [''validate_compose'', ''backup_compose'', ''detect_conflicts'', ''deploy_compose'',
      ''run_tests'', ''send_notification''] \<and>
   (case snd (DeployWorkflow_run deploy_env ''deploy-1'' ''docker-compose.yml'') of
      Returned msg \<Rightarrow> prefix ''DEPLOYMENT SUCCESSFUL'' msg
    | Failed \<Rightarrow> False)"
proof -
  have a: "report_lines (unhealthy_report ''docker-compose.yml'') ! 14 =
     ''[2026-01-01 00:00:00] [TEST] Deployment: FAILED '' @ em_dash @ '' rollback recommended''"
    by (simp add: unhealthy_report_lines report_header_def Let_def)
  have b: "map call_name (fst (DeployWorkflow_run deploy_env ''deploy-1'' ''docker-compose.yml'')) =
     [''validate_compose'', ''backup_compose'', ''detect_conflicts'', ''deploy_compose'',
      ''run_tests'', ''send_notification'']"
    by (simp add: deploy_env_run notify_call_def del: join.simps)
  have c: "(case snd (DeployWorkflow_run deploy_env ''deploy-1'' ''docker-compose.yml'') of
      Returned msg \<Rightarrow> prefix ''DEPLOYMENT SUCCESSFUL'' msg
    | Failed \<Rightarrow> False)"
    by (simp add: deploy_env_run del: join.simps)
  from a b c unhealthy_report_statuses [of "''docker-compose.yml''"]
    deploy_env_steps(7) [of "''docker-compose.yml''"]
  show ?thesis by blast
qed

text \<open>
  Claim C6 as stated fails: in the run of the environment above, the one invocation of
  the backup step carries no retry policy at all.
\<close>

theorem backup_invocation_without_retry_policy:
  "retry_policies ''backup_compose''
     (fst (DeployWorkflow_run deploy_env ''deploy-1'' ''docker-compose.yml'')) = [None]"
  by (simp add: deploy_env_run notify_call_def del: join.simps)

lemma fst_await:
  "fst (await c r k) = c # (case r of None \<Rightarrow> [] | Some v \<Rightarrow> fst (k v))"
  by (simp add: await_def split: option.splits prod.splits)

lemma retry_policies_notify:
  "name \<noteq> ''send_notification'' \<Longrightarrow> retry_policies name (fst (notify env m r)) = []"
  by (simp add: notify_def fst_await notify_call_def split: option.splits)

lemma retry_policies_rollback_child:
  "retry_policies name (fst (rollback_child env wid fp k)) =
     (case snd (RollbackWorkflow_run env fp []) of
        Returned rollback \<Rightarrow> retry_policies name (fst (k rollback))
      | Failed \<Rightarrow> [])"
  by (simp add: rollback_child_def fst_await split: prod.splits run_result.splits)

text \<open>
  Claim C6, amended. In every Deploy run, whatever the steps answer, the validate step is
  invoked exactly once, first, with a retry policy of at most 2 attempts; every
  invocation of the backup step is started without a retry policy of its own.
\<close>

theorem validate_capped_backup_uncapped:
  fixes env :: "'m::linorder activities"
  shows "retry_policies ''validate_compose'' (fst (DeployWorkflow_run env workflow_id file_path)) =
           [Some (RetryPolicy 2)] \<and>
         list_all (\<lambda>r. r = None)
           (retry_policies ''backup_compose'' (fst (DeployWorkflow_run env workflow_id file_path)))"
  by (simp add: DeployWorkflow_run_def fst_await retry_policies_notify retry_policies_rollback_child
        Let_def split: option.splits run_result.splits)

theorem validate_capped_backup_uncapped_witness:
  "retry_policies ''validate_compose''
     (fst (DeployWorkflow_run deploy_env ''deploy-1'' ''docker-compose.yml'')) =
     [Some (RetryPolicy 2)] \<and>
   list_all (\<lambda>r. r = None)
     (retry_policies ''backup_compose''
        (fst (DeployWorkflow_run deploy_env ''deploy-1'' ''docker-compose.yml'')))"
  using validate_capped_backup_uncapped [of deploy_env "''deploy-1''" "''docker-compose.yml''"]
  by simp

lemma sorted_last_max:
  "sorted xs \<Longrightarrow> x \<in> set xs \<Longrightarrow> x \<le> last xs"
  by (induction xs) (auto split: if_splits)

lemma newest_first_head:
  fixes files :: "(string \<times> 'm::linorder) list"
  assumes "files \<noteq> []"
  obtains b rest where "sorted_newest_first files = b # rest" and "b \<in> set files"
    and "\<forall>b'\<in>set files. snd b' \<le> snd b"
proof -
  let ?s = "sort_key snd (rev files)"
  have ne: "?s \<noteq> []" using assms by (metis set_sort set_rev set_empty)
  then have eq: "sorted_newest_first files = last ?s # rev (butlast ?s)"
    by (simp add: sorted_newest_first_def)
  have mem: "last ?s \<in> set files"
    using ne last_in_set [of ?s] by (simp add: set_sort del: last_in_set)
  have srt: "sorted (map snd ?s)" by (rule sorted_sort_key)
  have "snd b' \<le> snd (last ?s)" if "b' \<in> set files" for b'
  proof -
    from that have "snd b' \<in> set (map snd ?s)" by (simp add: set_sort)
    with srt have "snd b' \<le> last (map snd ?s)" by (rule sorted_last_max)
    with ne show ?thesis by (simp add: last_map)
  qed
  with eq mem show thesis by (intro that) auto
qed

lemma deploy_env_resolve: "resolve_backup deploy_env f [] = ''backups/b.yml''"
  by (simp add: resolve_backup_def deploy_env_def sorted_newest_first_def)

lemma deploy_env_rollback:
  "RollbackWorkflow_run deploy_env f [] =
     ([Activity ''teardown_compose'' (ComposeInput f False True)
         \<lparr>start_to_close_timeout = 120, heartbeat_timeout = None, retry_policy = None\<rparr>,
       Activity ''deploy_compose'' (ComposeInput ''backups/b.yml'' False True)
         \<lparr>start_to_close_timeout = 300, heartbeat_timeout = Some 60, retry_policy = None\<rparr>,
       Activity ''run_tests'' (TestInput ''backups/b.yml'' [])
         \<lparr>start_to_close_timeout = 180, heartbeat_timeout = None, retry_policy = None\<rparr>,
       notify_call (take 500
         (''ROLLBACK SUCCESSFUL\<newline>Backup: '' @ ''backups/b.yml'' @
          ''\<newline>Teardown: '' @ take 100 ''Services torn down successfully'' @
          ''\<newline>Deploy: '' @ take 100 ''Services deployed successfully'' @
          ''\<newline>Tests: '' @ take 100 (join ''\<newline>'' (report_lines (unhealthy_report ''backups/b.yml'')))))],
      Returned
        (''ROLLBACK SUCCESSFUL\<newline>Backup: '' @ ''backups/b.yml'' @
          ''\<newline>Teardown: '' @ take 100 ''Services torn down successfully'' @
          ''\<newline>Deploy: '' @ take 100 ''Services deployed successfully'' @
          ''\<newline>Tests: '' @ take 100 (join ''\<newline>'' (report_lines (unhealthy_report ''backups/b.yml'')))))"
  unfolding RollbackWorkflow_run_def await_def Let_def deploy_env_steps deploy_env_resolve
  using unhealthy_not_failed [of "''backups/b.yml''"]
  by (simp del: join.simps take_Cons_numeral)

text \<open>
  Claim C8 (the code departs from it). The rollback run chooses between the critical and
  the normal report by the same test \<open>tests_failed\<close>, which is never true of a report of
  the verification engine. The theorem runs the code where the newest backup is deployed
  and its verification FAILS (check 2 unhealthy): the run sends and returns the report
  \<open>ROLLBACK SUCCESSFUL\<close>, not the critical one.
\<close>

theorem rollback_run_reports_success_for_failed_backup:
  "resolve_backup deploy_env ''docker-compose.yml'' [] = ''backups/b.yml'' \<and>
   run_tests deploy_env ''backups/b.yml'' =
     Some (join ''\<newline>'' (report_lines (unhealthy_report ''backups/b.yml''))) \<and>
   check_statuses (timestamp unhealthy_world) (unhealthy_report ''backups/b.yml'') =
     [Some PASS, Some FAIL, Some PASS, Some PASS, Some PASS, Some PASS, Some PASS, Some PASS] \<and>
   report_lines (unhealthy_report ''backups/b.yml'') ! 14 =
     ''[2026-01-01 00:00:00] [TEST] Deployment: FAILED '' @ em_dash @ '' rollback recommended'' \<and>
   map call_name (fst (RollbackWorkflow_run deploy_env ''docker-compose.yml'' [])) =
     [''teardown_compose'', ''deploy_compose'', ''run_tests'', ''send_notification''] \<and>
   (case snd (RollbackWorkflow_run deploy_env ''docker-compose.yml'' []) of
      Returned msg \<Rightarrow> prefix ''ROLLBACK SUCCESSFUL'' msg
    | Failed \<Rightarrow> False)"
proof -
  have a: "report_lines (unhealthy_report ''backups/b.yml'') ! 14 =
     ''[2026-01-01 00:00:00] [TEST] Deployment: FAILED '' @ em_dash @ '' rollback recommended''"
    by (simp add: unhealthy_report_lines report_header_def Let_def)
  have b: "map call_name (fst (RollbackWorkflow_run deploy_env ''docker-compose.yml'' [])) =
     [''teardown_compose'', ''deploy_compose'', ''run_tests'', ''send_notification'']"
    by (simp add: deploy_env_rollback notify_call_def del: join.simps)
  have c: "(case snd (RollbackWorkflow_run deploy_env ''docker-compose.yml'' []) of
      Returned msg \<Rightarrow> prefix ''ROLLBACK SUCCESSFUL'' msg
    | Failed \<Rightarrow> False)"
    by (simp add: deploy_env_rollback del: join.simps)
  from a b c unhealthy_report_statuses [of "''backups/b.yml''"]
    deploy_env_steps(7) [of "''backups/b.yml''"] deploy_env_resolve [of "''docker-compose.yml''"]
  show ?thesis by blast
qed

text \<open>
  Claim C7. A rollback run that is given no backup target takes the listed backup file
  with the greatest modification time, and deploys it right after the teardown. When
  there is no backup directory or it holds no backup file, the run consists of the
  teardown and one notification \<open>ROLLBACK FAILED: No backup file found\<close>, and returns
  that message: no deploy step and no test step is invoked and nothing is retried.
\<close>

theorem rollback_selects_newest_backup:
  fixes env :: "'m::linorder activities"
  shows
   "(backup_listing env current_file = Some files \<and> files \<noteq> [] \<longrightarrow>
       (\<exists>b\<in>set files. resolve_backup env current_file [] = fst b \<and>
                       (\<forall>b'\<in>set files. snd b' \<le> snd b))) \<and>
    (teardown_compose env current_file = Some teardown \<and>
     resolve_backup env current_file [] \<noteq> [] \<longrightarrow>
       take 2 (fst (RollbackWorkflow_run env current_file [])) =
         [Activity ''teardown_compose'' (ComposeInput current_file False True)
            \<lparr>start_to_close_timeout = 120, heartbeat_timeout = None, retry_policy = None\<rparr>,
          Activity ''deploy_compose'' (ComposeInput (resolve_backup env current_file []) False True)
            \<lparr>start_to_close_timeout = 300, heartbeat_timeout = Some 60, retry_policy = None\<rparr>]) \<and>
    ((backup_listing env current_file = None \<or> backup_listing env current_file = Some []) \<and>
     teardown_compose env current_file = Some teardown \<and>
     send_notification env ''ROLLBACK FAILED: No backup file found'' = Some ack \<longrightarrow>
       RollbackWorkflow_run env current_file [] =
         ([Activity ''teardown_compose'' (ComposeInput current_file False True)
             \<lparr>start_to_close_timeout = 120, heartbeat_timeout = None, retry_policy = None\<rparr>,
           Activity ''send_notification'' (Str ''ROLLBACK FAILED: No backup file found'')
             \<lparr>start_to_close_timeout = 10, heartbeat_timeout = None, retry_policy = None\<rparr>],
          Returned ''ROLLBACK FAILED: No backup file found''))"
proof (intro conjI impI)
  assume h: "backup_listing env current_file = Some files \<and> files \<noteq> []"
  then obtain b rest where s: "sorted_newest_first files = b # rest" and m: "b \<in> set files"
    and mx: "\<forall>b'\<in>set files. snd b' \<le> snd b"
    using newest_first_head [of files] by blast
  from h s have "resolve_backup env current_file [] = fst b"
    by (simp add: resolve_backup_def)
  with m mx show "\<exists>b\<in>set files. resolve_backup env current_file [] = fst b \<and>
      (\<forall>b'\<in>set files. snd b' \<le> snd b)" by blast
next
  assume "teardown_compose env current_file = Some teardown \<and> resolve_backup env current_file [] \<noteq> []"
  then show "take 2 (fst (RollbackWorkflow_run env current_file [])) =
         [Activity ''teardown_compose'' (ComposeInput current_file False True)
            \<lparr>start_to_close_timeout = 120, heartbeat_timeout = None, retry_policy = None\<rparr>,
          Activity ''deploy_compose'' (ComposeInput (resolve_backup env current_file []) False True)
            \<lparr>start_to_close_timeout = 300, heartbeat_timeout = Some 60, retry_policy = None\<rparr>]"
    by (simp add: RollbackWorkflow_run_def fst_await Let_def numeral_2_eq_2)
next
  assume h: "(backup_listing env current_file = None \<or> backup_listing env current_file = Some []) \<and>
     teardown_compose env current_file = Some teardown \<and>
     send_notification env ''ROLLBACK FAILED: No backup file found'' = Some ack"
  then have "resolve_backup env current_file [] = []"
    by (auto simp: resolve_backup_def sorted_newest_first_def)
  with h show "RollbackWorkflow_run env current_file [] =
         ([Activity ''teardown_compose'' (ComposeInput current_file False True)
             \<lparr>start_to_close_timeout = 120, heartbeat_timeout = None, retry_policy = None\<rparr>,
           Activity ''send_notification'' (Str ''ROLLBACK FAILED: No backup file found'')
             \<lparr>start_to_close_timeout = 10, heartbeat_timeout = None, retry_policy = None\<rparr>],
          Returned ''ROLLBACK FAILED: No backup file found'')"
    by (simp add: RollbackWorkflow_run_def await_def notify_call_def Let_def)
qed

theorem rollback_selects_newest_backup_witness:
  "backup_listing deploy_env ''docker-compose.yml'' =
     Some [(''backups/a.yml'', 1), (''backups/b.yml'', 2)] \<and>
   teardown_compose deploy_env ''docker-compose.yml'' = Some ''Services torn down successfully'' \<and>
   resolve_backup deploy_env ''docker-compose.yml'' [] = ''backups/b.yml'' \<and>
   (\<exists>b\<in>set [(''backups/a.yml'', 1::nat), (''backups/b.yml'', 2)].
      resolve_backup deploy_env ''docker-compose.yml'' [] = fst b \<and>
      (\<forall>b'\<in>set [(''backups/a.yml'', 1), (''backups/b.yml'', 2)]. snd b' \<le> snd b)) \<and>
   take 2 (fst (RollbackWorkflow_run deploy_env ''docker-compose.yml'' [])) =
     [Activity ''teardown_compose'' (ComposeInput ''docker-compose.yml'' False True)
        \<lparr>start_to_close_timeout = 120, heartbeat_timeout = None, retry_policy = None\<rparr>,
      Activity ''deploy_compose'' (ComposeInput ''backups/b.yml'' False True)
        \<lparr>start_to_close_timeout = 300, heartbeat_timeout = Some 60, retry_policy = None\<rparr>] \<and>
   backup_listing no_backup_env ''docker-compose.yml'' = Some [] \<and>
   teardown_compose no_backup_env ''docker-compose.yml'' = Some ''Services torn down successfully'' \<and>
   send_notification no_backup_env ''ROLLBACK FAILED: No backup file found'' =
     Some ''Notification sent: ROLLBACK FAILED: No backup file found'' \<and>
   RollbackWorkflow_run no_backup_env ''docker-compose.yml'' [] =
     ([Activity ''teardown_compose'' (ComposeInput ''docker-compose.yml'' False True)
         \<lparr>start_to_close_timeout = 120, heartbeat_timeout = None, retry_policy = None\<rparr>,
       Activity ''send_notification'' (Str ''ROLLBACK FAILED: No backup file found'')
         \<lparr>start_to_close_timeout = 10, heartbeat_timeout = None, retry_policy = None\<rparr>],
      Returned ''ROLLBACK FAILED: No backup file found'')"
proof -
  have l: "backup_listing deploy_env ''docker-compose.yml'' =
      Some [(''backups/a.yml'', 1), (''backups/b.yml'', 2)]"
    by (simp add: deploy_env_def)
  have t: "teardown_compose deploy_env ''docker-compose.yml'' = Some ''Services torn down successfully''"
    by (simp add: deploy_env_def)
  have r: "resolve_backup deploy_env ''docker-compose.yml'' [] = ''backups/b.yml''"
    by (simp add: resolve_backup_def deploy_env_def sorted_newest_first_def)
  have n: "backup_listing no_backup_env ''docker-compose.yml'' = Some []"
      "teardown_compose no_backup_env ''docker-compose.yml'' = Some ''Services torn down successfully''"
      "send_notification no_backup_env ''ROLLBACK FAILED: No backup file found'' =
         Some ''Notification sent: ROLLBACK FAILED: No backup file found''"
    by (simp_all add: no_backup_env_def deploy_env_def)
  note d = rollback_selects_newest_backup
    [of deploy_env "''docker-compose.yml''" "[(''backups/a.yml'', 1), (''backups/b.yml'', 2)]"
        "''Services torn down successfully''"]
  note e = rollback_selects_newest_backup
    [of no_backup_env "''docker-compose.yml''" "[]" "''Services torn down successfully''"
        "''Notification sent: ROLLBACK FAILED: No backup file found''"]
  from l t r n d e show ?thesis by simp
qed

lemma streak_le_2: "streak env k \<le> 2"
  by (induction k) auto

lemma str_nat_3: "str_nat (Suc (Suc (Suc 0))) = ''3''"
proof -
  have "str_nat 3 = ''3''" by (simp add: str_nat.simps digit_char_def)
  then show ?thesis by (simp add: numeral_3_eq_3)
qed

lemma iteration_follows_spec:
  assumes hc: "\<forall>k. health_check_all env k \<noteq> None"
    and sn: "\<forall>m. send_notification env m \<noteq> None"
    and aa: "\<forall>p. agent_analyze env p \<noteq> None"
  shows "monitor_iteration env (Suc k) (streak env k) =
           (expected_calls env (Suc k), Some (streak env (Suc k)))"
proof -
  from hc obtain rep where rep: "health_check_all env (Suc k) = Some rep" by fastforce
  from aa obtain analysis where an: "agent_analyze env (prompt_text rep) = Some analysis" by fastforce
  have n: "send_notification env m \<noteq> None" for m using sn by simp
  have f: "failing env (Suc k) = has_failures (health_check_activity rep)"
    by (simp add: failing_def rep)
  have r: "report (health_check_activity rep) = rep"
    by (simp add: health_check_activity_def)
  have le: "streak env k \<le> 2" by (rule streak_le_2)
  consider "\<not> failing env (Suc k)" | "failing env (Suc k)" "streak env k = 0"
    | "failing env (Suc k)" "streak env k = 1" | "failing env (Suc k)" "streak env k = 2"
    using le by (cases "streak env k") (auto simp: numeral_2_eq_2 le_Suc_eq)
  then show ?thesis
  proof cases
    case 1
    then show ?thesis
      using f by (simp add: monitor_iteration_def expected_calls_def health_check_call_def notify_call_def analyze_call_def rep Let_def)
  next
    case 2
    then show ?thesis
      using f n [of "alert_text rep"]
      by (auto simp: monitor_iteration_def expected_calls_def health_check_call_def notify_call_def analyze_call_def rep r Let_def alert_text_def
          split: option.splits)
  next
    case 3
    then show ?thesis
      using f by (simp add: monitor_iteration_def expected_calls_def health_check_call_def notify_call_def analyze_call_def rep r Let_def)
  next
    case 4
    then show ?thesis
      using f an n [of "diagnosis_text analysis"]
      by (auto simp: monitor_iteration_def expected_calls_def health_check_call_def notify_call_def analyze_call_def rep r Let_def prompt_text_def
          diagnosis_text_def str_nat_3 numeral_3_eq_3 numeral_2_eq_2 split: option.splits)
  qed
qed

lemma loop_follows_spec:
  assumes hc: "\<forall>k. health_check_all env k \<noteq> None"
    and sn: "\<forall>m. send_notification env m \<noteq> None"
    and aa: "\<forall>p. agent_analyze env p \<noteq> None"
  shows "k \<le> max_checks \<Longrightarrow>
         monitor_loop env interval_seconds k (streak env k) =
           (concat (map (\<lambda>j. expected_calls env j @ [Sleep interval_seconds]) [Suc k..<Suc max_checks]),
            Returned (''HealthMonitorWorkflow completed: '' @ str_nat max_checks @ '' checks performed''))"
proof (induction "max_checks - k" arbitrary: k)
  case 0
  then have "k = max_checks" by simp
  then show ?case by (simp add: monitor_loop.simps del: upt_Suc)
next
  case (Suc n)
  then have lt: "k < max_checks" and n: "n = max_checks - Suc k" and le: "Suc k \<le> max_checks"
    by simp_all
  have ih: "monitor_loop env interval_seconds (Suc k) (streak env (Suc k)) =
           (concat (map (\<lambda>j. expected_calls env j @ [Sleep interval_seconds])
                      [Suc (Suc k)..<Suc max_checks]),
            Returned (''HealthMonitorWorkflow completed: '' @ str_nat max_checks @ '' checks performed''))"
    using Suc.hyps(1) [OF n le] .
  have it: "monitor_iteration env (Suc k) (streak env k) =
           (expected_calls env (Suc k), Some (streak env (Suc k)))"
    using hc sn aa by (rule iteration_follows_spec)
  have up: "[Suc k..<Suc max_checks] = Suc k # [Suc (Suc k)..<Suc max_checks]"
    using lt by (simp add: upt_conv_Cons)
  show ?case
    using lt by (subst monitor_loop.simps) (simp add: it ih up del: streak.simps upt_Suc)
qed


lemma str_nat_1440: "str_nat 1440 = ''1440''"
  by (simp add: str_nat.simps digit_char_def)

text \<open>
  Claim C9. In every run of the health monitor in which the steps complete, the log is,
  check after check for the 1440 checks, exactly what the counter rules of the
  specification prescribe (\<open>expected_calls\<close> over \<open>streak\<close>): the health check; one alert
  when the failure is the first of a streak; on the third consecutive failure one
  diagnostic analysis and the notification of its result, after which the counter is
  zero again; then the sleep. A successful check resets the counter to zero. The counter
  never exceeds 2 between checks, so the code's test \<open>failure_count >= 3\<close> fires exactly
  when the count reaches 3.
\<close>

theorem monitor_run_follows_counter_rules:
  assumes "\<forall>k. health_check_all env k \<noteq> None"
    and "\<forall>m. send_notification env m \<noteq> None"
    and "\<forall>p. agent_analyze env p \<noteq> None"
  shows "HealthMonitorWorkflow_run env interval_seconds =
           (concat (map (\<lambda>k. expected_calls env k @ [Sleep interval_seconds]) [1..<1441]),
            Returned ''HealthMonitorWorkflow completed: 1440 checks performed'') \<and>
         (\<forall>k. monitor_iteration env (Suc k) (streak env k) =
                (expected_calls env (Suc k), Some (streak env (Suc k)))) \<and>
         (\<forall>k. streak env k \<le> 2)"
proof -
  have "monitor_loop env interval_seconds 0 (streak env 0) =
           (concat (map (\<lambda>j. expected_calls env j @ [Sleep interval_seconds]) [Suc 0..<Suc max_checks]),
            Returned (''HealthMonitorWorkflow completed: '' @ str_nat max_checks @ '' checks performed''))"
    using assms by (rule loop_follows_spec) simp
  then have a: "HealthMonitorWorkflow_run env interval_seconds =
           (concat (map (\<lambda>k. expected_calls env k @ [Sleep interval_seconds]) [1..<1441]),
            Returned ''HealthMonitorWorkflow completed: 1440 checks performed'')"
    by (simp add: HealthMonitorWorkflow_run_def max_checks_def str_nat_1440 del: upt_Suc)
  have b: "monitor_iteration env (Suc k) (streak env k) =
                (expected_calls env (Suc k), Some (streak env (Suc k)))" for k
    using assms by (rule iteration_follows_spec)
  from a b streak_le_2 show ?thesis by blast
qed

lemma deploy_env_failing: "failing deploy_env k"
  by (simp add: failing_def deploy_env_def health_check_activity_def lower_def lower_char_def
      sublist_code)

theorem monitor_run_follows_counter_rules_witness:
  "(\<forall>k. health_check_all deploy_env k \<noteq> None) \<and>
   (\<forall>m. send_notification deploy_env m \<noteq> None) \<and>
   (\<forall>p. agent_analyze deploy_env p \<noteq> None) \<and>
   HealthMonitorWorkflow_run deploy_env 60 =
     (concat (map (\<lambda>k. expected_calls deploy_env k @ [Sleep 60]) [1..<1441]),
      Returned ''HealthMonitorWorkflow completed: 1440 checks performed'') \<and>
   monitor_iteration deploy_env 1 0 =
     ([Activity ''health_check'' NoArg
         \<lparr>start_to_close_timeout = 60, heartbeat_timeout = None,
          retry_policy = Some (RetryPolicy 3)\<rparr>,
       Activity ''send_notification''
         (Str ''HEALTH ALERT: Unhealthy containers detected!\<newline>  web: status=Up, health=unhealthy'')
         \<lparr>start_to_close_timeout = 10, heartbeat_timeout = None, retry_policy = None\<rparr>], Some 1) \<and>
   monitor_iteration deploy_env 2 1 =
     ([Activity ''health_check'' NoArg
         \<lparr>start_to_close_timeout = 60, heartbeat_timeout = None,
          retry_policy = Some (RetryPolicy 3)\<rparr>], Some 2) \<and>
   monitor_iteration deploy_env 3 2 =
     ([Activity ''health_check'' NoArg
         \<lparr>start_to_close_timeout = 60, heartbeat_timeout = None,
          retry_policy = Some (RetryPolicy 3)\<rparr>,
       Activity ''agent_analyze''
         (Str ''Analyze these health check results and diagnose the issue:\<newline>  web: status=Up, health=unhealthy'')
         \<lparr>start_to_close_timeout = 120, heartbeat_timeout = None, retry_policy = None\<rparr>,
       Activity ''send_notification''
         (Str ''AI DIAGNOSIS after 3 failures:\<newline>restart the container'')
         \<lparr>start_to_close_timeout = 10, heartbeat_timeout = None, retry_policy = None\<rparr>], Some 0) \<and>
   streak deploy_env 3 = 0"
proof -
  have h: "\<forall>k. health_check_all deploy_env k \<noteq> None"
      "\<forall>m. send_notification deploy_env m \<noteq> None"
      "\<forall>p. agent_analyze deploy_env p \<noteq> None"
    by (simp_all add: deploy_env_def)
  note t = monitor_run_follows_counter_rules [OF h, of 60]
  have g: "health_check_all deploy_env k = Some ''  web: status=Up, health=unhealthy''"
      "agent_analyze deploy_env p = Some ''restart the container''" for k p
    by (simp_all add: deploy_env_def)
  have s: "streak deploy_env 0 = 0" "streak deploy_env (Suc 0) = 1"
      "streak deploy_env (Suc (Suc 0)) = 2" "streak deploy_env (Suc (Suc (Suc 0))) = 0"
    by (simp_all add: deploy_env_failing)
  have e: "expected_calls deploy_env (Suc 0) =
        [Activity ''health_check'' NoArg
         \<lparr>start_to_close_timeout = 60, heartbeat_timeout = None,
          retry_policy = Some (RetryPolicy 3)\<rparr>,
         Activity ''send_notification''
         (Str ''HEALTH ALERT: Unhealthy containers detected!\<newline>  web: status=Up, health=unhealthy'')
         \<lparr>start_to_close_timeout = 10, heartbeat_timeout = None, retry_policy = None\<rparr>]"
      "expected_calls deploy_env (Suc (Suc 0)) =
        [Activity ''health_check'' NoArg
         \<lparr>start_to_close_timeout = 60, heartbeat_timeout = None,
          retry_policy = Some (RetryPolicy 3)\<rparr>]"
      "expected_calls deploy_env (Suc (Suc (Suc 0))) =
        [Activity ''health_check'' NoArg
         \<lparr>start_to_close_timeout = 60, heartbeat_timeout = None,
          retry_policy = Some (RetryPolicy 3)\<rparr>,
         Activity ''agent_analyze''
         (Str ''Analyze these health check results and diagnose the issue:\<newline>  web: status=Up, health=unhealthy'')
         \<lparr>start_to_close_timeout = 120, heartbeat_timeout = None, retry_policy = None\<rparr>,
         Activity ''send_notification''
         (Str ''AI DIAGNOSIS after 3 failures:\<newline>restart the container'')
         \<lparr>start_to_close_timeout = 10, heartbeat_timeout = None, retry_policy = None\<rparr>]"
    using s by (simp_all add: expected_calls_def deploy_env_failing g alert_text_def prompt_text_def
        diagnosis_text_def del: streak.simps)
  from t have i: "monitor_iteration deploy_env (Suc k) (streak deploy_env k) =
      (expected_calls deploy_env (Suc k), Some (streak deploy_env (Suc k)))" for k
    by blast
  have i1: "monitor_iteration deploy_env 1 0 =
     ([Activity ''health_check'' NoArg
         \<lparr>start_to_close_timeout = 60, heartbeat_timeout = None,
          retry_policy = Some (RetryPolicy 3)\<rparr>,
       Activity ''send_notification''
         (Str ''HEALTH ALERT: Unhealthy containers detected!\<newline>  web: status=Up, health=unhealthy'')
         \<lparr>start_to_close_timeout = 10, heartbeat_timeout = None, retry_policy = None\<rparr>], Some 1)"
    using i [of 0] s e by simp
  have i2: "monitor_iteration deploy_env 2 1 =
     ([Activity ''health_check'' NoArg
         \<lparr>start_to_close_timeout = 60, heartbeat_timeout = None,
          retry_policy = Some (RetryPolicy 3)\<rparr>], Some 2)"
    using i [of "Suc 0"] s e by (simp add: numeral_2_eq_2)
  have i3: "monitor_iteration deploy_env 3 2 =
     ([Activity ''health_check'' NoArg
         \<lparr>start_to_close_timeout = 60, heartbeat_timeout = None,
          retry_policy = Some (RetryPolicy 3)\<rparr>,
       Activity ''agent_analyze''
         (Str ''Analyze these health check results and diagnose the issue:\<newline>  web: status=Up, health=unhealthy'')
         \<lparr>start_to_close_timeout = 120, heartbeat_timeout = None, retry_policy = None\<rparr>,
       Activity ''send_notification''
         (Str ''AI DIAGNOSIS after 3 failures:\<newline>restart the container'')
         \<lparr>start_to_close_timeout = 10, heartbeat_timeout = None, retry_policy = None\<rparr>], Some 0)"
    using i [of "Suc (Suc 0)"] s e by (simp add: numeral_2_eq_2 numeral_3_eq_3)
  have s3: "streak deploy_env 3 = 0" using s by (simp add: numeral_3_eq_3)
  from h t i1 i2 i3 s3 show ?thesis by blast
qed

section \<open>Properties of the specification compiler\<close>

lemma build_service_name: "fst (build_service now ad svc info cv) = name_of svc"
  by (simp add: build_service_def Let_def split: prod.splits)

lemma build_service_deps:
  "sd_depends_on (fst (snd (build_service now ad svc info cv))) =
     (if explicit_deps svc \<noteq> [] then Some (dict_keys (explicit_deps svc))
      else map_option dict_keys (ad (name_of svc)))"
  by (simp add: build_service_def Let_def explicit_deps_def split: prod.splits option.splits)

lemma build_service_triple:
  obtains d cv' where "build_service now ad svc info cv = (name_of svc, d, cv')"
proof -
  obtain name d cv' where b: "build_service now ad svc info cv = (name, d, cv')"
    by (cases "build_service now ad svc info cv")
  moreover from b have "name = name_of svc"
    using build_service_name [of now ad svc info cv] by simp
  ultimately show thesis using that by simp
qed

lemma build_services_other:
  "n \<notin> name_of ` fst ` set xs \<Longrightarrow> fst (build_services now ad xs (m, cv)) n = m n"
proof (induction xs arbitrary: m cv)
  case Nil
  then show ?case by simp
next
  case (Cons x xs)
  obtain svc info where x: "x = (svc, info)" by (cases x)
  obtain d cv' where b: "build_service now ad svc info cv = (name_of svc, d, cv')"
    by (rule build_service_triple)
  have step: "build_services now ad (x # xs) (m, cv) =
      build_services now ad xs (m(name_of svc \<mapsto> d), cv')"
    by (simp add: x b)
  from Cons.prems x have ne: "n \<noteq> name_of svc" and nin: "n \<notin> name_of ` fst ` set xs" by auto
  from nin have "fst (build_services now ad xs (m(name_of svc \<mapsto> d), cv')) n =
      (m(name_of svc \<mapsto> d)) n"
    by (rule Cons.IH)
  also have "\<dots> = m n" using ne by simp
  finally show ?case unfolding step .
qed

lemma build_services_entry:
  "distinct (map (\<lambda>x. name_of (fst x)) xs) \<Longrightarrow> (svc, info) \<in> set xs \<Longrightarrow>
   \<exists>cv'. fst (build_services now ad xs (m, cv)) (name_of svc) =
          Some (fst (snd (build_service now ad svc info cv')))"
proof (induction xs arbitrary: m cv)
  case Nil
  then show ?case by simp
next
  case (Cons x xs)
  obtain svc0 info0 where x: "x = (svc0, info0)" by (cases x)
  obtain d cv1 where b: "build_service now ad svc0 info0 cv = (name_of svc0, d, cv1)"
    by (rule build_service_triple)
  have step: "build_services now ad (x # xs) (m, cv) =
      build_services now ad xs (m(name_of svc0 \<mapsto> d), cv1)"
    by (simp add: x b)
  show ?case
  proof (cases "(svc, info) = (svc0, info0)")
    case True
    from Cons.prems(1) x have "name_of svc0 \<notin> name_of ` fst ` set xs" by (auto simp: image_iff)
    then have "fst (build_services now ad xs (m(name_of svc0 \<mapsto> d), cv1)) (name_of svc0) =
        (m(name_of svc0 \<mapsto> d)) (name_of svc0)"
      by (rule build_services_other)
    also have "\<dots> = Some (fst (snd (build_service now ad svc0 info0 cv)))"
      by (simp add: b)
    finally show ?thesis using True unfolding step by blast
  next
    case False
    with Cons.prems x have "(svc, info) \<in> set xs" and "distinct (map (\<lambda>x. name_of (fst x)) xs)"
      by auto
    then show ?thesis unfolding step by (rule Cons.IH [rotated])
  qed
qed


lemma services_build_compose:
  "services (build_compose now svc_list) =
     fst (build_services now (auto_detect_dependencies (map info_of svc_list))
            (zip svc_list (map info_of svc_list)) (Map.empty, []))"
  by (simp add: build_compose_def Let_def split: prod.splits)

lemma zip_info_set: "set (zip svc_list (map info_of svc_list)) = (\<lambda>svc. (svc, info_of svc)) ` set svc_list"
  by (induction svc_list) auto

lemma zip_info_names:
  "map (\<lambda>x. name_of (fst x)) (zip svc_list (map info_of svc_list)) = map name_of svc_list"
  by (induction svc_list) auto


lemma plan_entry:
  assumes "distinct (map name_of svc_list)" and "svc \<in> set svc_list"
  obtains d where "services (build_compose now svc_list) (name_of svc) = Some d"
    and "sd_depends_on d =
           (if explicit_deps svc \<noteq> [] then Some (dict_keys (explicit_deps svc))
            else map_option dict_keys
                   (auto_detect_dependencies (map info_of svc_list) (name_of svc)))"
proof -
  from assms(2) have m: "(svc, info_of svc) \<in> set (zip svc_list (map info_of svc_list))"
    by (simp add: zip_info_set)
  from assms(1) have d: "distinct (map (\<lambda>x. name_of (fst x)) (zip svc_list (map info_of svc_list)))"
    by (simp add: zip_info_names)
  from build_services_entry [OF d m] obtain cv' where
    "services (build_compose now svc_list) (name_of svc) =
       Some (fst (snd (build_service now (auto_detect_dependencies (map info_of svc_list))
          svc (info_of svc) cv')))"
    unfolding services_build_compose by blast
  then show thesis
    by (rule that) (rule build_service_deps)
qed

lemma fold_upd_same:
  "fold (\<lambda>name deps. if c then deps(name \<mapsto> v) else deps) names m x =
     (if c \<and> x \<in> set names then Some v else m x)"
  by (induction names arbitrary: m) auto

lemma by_stage_names_at: "by_stage (map info_of svc_list) n = names_at svc_list n"
  by (simp add: by_stage_def names_at_def stage_of_def filter_map comp_def info_of_def Let_def)

lemma auto_deps_lookup:
  "auto_detect_dependencies (map info_of svc_list) x =
     (if x \<in> set (names_at svc_list 3) \<and> (names_at svc_list 2 \<noteq> [] \<or> names_at svc_list 1 \<noteq> [])
      then Some (if names_at svc_list 2 \<noteq> [] then names_at svc_list 2 else names_at svc_list 1)
      else if x \<in> set (names_at svc_list 2) \<and> names_at svc_list 1 \<noteq> []
           then Some (names_at svc_list 1)
           else None)"
proof -
  let ?s1 = "names_at svc_list 1" and ?s2 = "names_at svc_list 2"
  have e: "(\<lambda>name deps. if ?s2 \<noteq> [] then deps(name \<mapsto> ?s2)
                           else if ?s1 \<noteq> [] then deps(name \<mapsto> ?s1) else deps) =
           (\<lambda>name (deps :: string \<Rightarrow> string list option).
              if ?s2 \<noteq> [] \<or> ?s1 \<noteq> []
              then deps(name \<mapsto> (if ?s2 \<noteq> [] then ?s2 else ?s1)) else deps)"
    by (intro ext) simp
  show ?thesis
    unfolding auto_detect_dependencies_def Let_def by_stage_names_at e fold_upd_same
    by simp
qed

lemma names_at_mem:
  assumes "distinct (map name_of svc_list)" and "svc \<in> set svc_list"
  shows "name_of svc \<in> set (names_at svc_list n) \<longleftrightarrow> stage_of svc = n"
proof
  assume "name_of svc \<in> set (names_at svc_list n)"
  then obtain svc' where s: "svc' \<in> set svc_list" "stage_of svc' = n" "name_of svc' = name_of svc"
    by (auto simp: names_at_def)
  with assms have "svc' = svc"
    by (meson distinct_map inj_on_def)
  with s show "stage_of svc = n" by simp
next
  assume "stage_of svc = n"
  with assms(2) show "name_of svc \<in> set (names_at svc_list n)"
    by (auto simp: names_at_def)
qed

lemma names_at_distinct: "distinct (map name_of svc_list) \<Longrightarrow> distinct (names_at svc_list n)"
  by (simp add: names_at_def distinct_map_filter)

lemma dict_keys_set: "set (dict_keys ks) = set ks"
  by (induction ks) auto

lemma dict_keys_distinct: "distinct ks \<Longrightarrow> dict_keys ks = ks"
proof (induction ks)
  case Nil
  show ?case by simp
next
  case (Cons k ks)
  then have "k \<notin> set (dict_keys ks)" by (simp add: dict_keys_set)
  with Cons show ?case by (simp add: removeAll_id)
qed

lemma plan_dependencies:
  assumes d: "distinct (map name_of svc_list)" and m: "svc \<in> set svc_list"
  obtains def where "services (build_compose now svc_list) (name_of svc) = Some def"
    and "deps_of def = code_dependencies svc_list svc"
proof -
  from d m obtain def where s: "services (build_compose now svc_list) (name_of svc) = Some def"
    and dd: "sd_depends_on def =
           (if explicit_deps svc \<noteq> [] then Some (dict_keys (explicit_deps svc))
            else map_option dict_keys
                   (auto_detect_dependencies (map info_of svc_list) (name_of svc)))"
    by (rule plan_entry)
  have k: "dict_keys (names_at svc_list n) = names_at svc_list n" for n
    using d by (intro dict_keys_distinct names_at_distinct)
  have mem: "name_of svc \<in> set (names_at svc_list n) \<longleftrightarrow> stage_of svc = n" for n
    using d m by (rule names_at_mem)
  have "deps_of def = code_dependencies svc_list svc"
    by (auto simp: deps_of_def dd code_dependencies_def inferred_dependencies_def
          auto_deps_lookup mem k)
  with s show thesis by (rule that)
qed

lemma image_bases:
  "image_base ''postgres:15'' = ''postgres''"
  "image_base ''nginx:latest'' = ''nginx''"
  "image_base ''python:3.11'' = ''python''"
  "image_base ''redis:7'' = ''redis''"
  by (simp_all add: image_base_def lower_def lower_char_def split_def first_part_def last_part_def)

lemma service_types:
  "detect_service_type ''postgres:15'' = Some ''postgres''"
  "detect_service_type ''nginx:latest'' = Some ''nginx''"
  "detect_service_type ''python:3.11'' = None"
  "detect_service_type ''redis:7'' = Some ''redis''"
  by (simp_all add: detect_service_type_def image_bases SERVICE_DEFAULTS_def sublist_code)

lemma service_roles:
  "detect_service_role ''postgres:15'' (Some ''postgres'') = ''database''"
  "detect_service_role ''nginx:latest'' (Some ''nginx'') = ''proxy''"
  "detect_service_role ''python:3.11'' None = ''backend''"
  "detect_service_role ''redis:7'' (Some ''redis'') = ''cache''"
  by (simp_all add: detect_service_role_def image_bases SERVICE_ROLES_def BACKEND_PATTERNS_def
      sublist_code)

lemma stages:
  "stage_of (service n ''postgres:15'' d) = 1"
  "stage_of (service n ''nginx:latest'' d) = 3"
  "stage_of (service n ''python:3.11'' d) = 2"
  "stage_of (service n ''redis:7'' d) = 1"
  by (simp_all add: stage_of_def info_of_def image_of_def service_def Let_def service_types
      service_roles stage_of_role_def STAGE_ORDER_def)

lemma service_fields:
  "name_of (service n i d) = n"
  "explicit_deps (service n i d) = (case d of Some ds \<Rightarrow> ds | None \<Rightarrow> [])"
  "spec_depends_on (service n i d) = d"
  by (simp_all add: name_of_def explicit_deps_def service_def)

lemma plan_stage_unique:
  assumes "distinct (map name_of svc_list)" and "svc \<in> set svc_list"
  shows "plan_stage svc_list (name_of svc) = Some (stage_of svc)"
proof -
  let ?al = "rev (map (\<lambda>svc. (name_of svc, stage_of svc)) svc_list)"
  have "distinct (map fst ?al)"
    using assms(1) by (simp add: rev_map [symmetric] comp_def)
  moreover have "(name_of svc, stage_of svc) \<in> set ?al"
    using assms(2) by auto
  ultimately show ?thesis
    unfolding plan_stage_def by (simp only: map_of_eq_Some_iff)
qed

subsection \<open>The compiler on parsed values and the typed compiler\<close>

lemma and_then_Inr [simp]: "and_then (Inr x) f = f x"
  by (simp add: and_then_def)

lemma and_then_Inl [simp]: "and_then (Inl e) f = Inl e"
  by (simp add: and_then_def)

lemma is_string_val: "is_string v \<Longrightarrow> JsStr (str_val v) = v"
  by (cases v) simp_all

lemma is_string_list_val: "is_string_list v \<Longrightarrow> JsList (map JsStr (map str_val (items_of v))) = v"
  by (cases v) (simp_all add: list_all_iff is_string_val map_idI)

lemma is_string_dict_val:
  "is_string_dict v \<Longrightarrow>
   JsDict (map (\<lambda>item. (fst item, JsStr (snd item)))
            (map (\<lambda>item. (fst item, str_val (snd item))) (pairs_of v))) = v"
  by (cases v) (simp_all add: list_all_iff is_string_val map_idI)

lemma dict_keys_json_strings: "dict_keys_json (map JsStr ds) = Inr (map JsStr (dict_keys ds))"
proof (induction ds)
  case Nil
  show ?case by simp
next
  case (Cons d ds)
  have "filter (\<lambda>x. key_of x \<noteq> Inr (KStr d)) (map JsStr ks) = map JsStr (removeAll d ks)" for ks
    by (induction ks) auto
  with Cons show ?case by simp
qed

lemma user_volumes_json_strings:
  "user_volumes_json (map JsStr vs) (ump, cv, map JsStr sv) =
     Inr (case user_volumes vs (ump, cv, sv) of (a, b, c) \<Rightarrow> (a, b, map JsStr c))"
proof (induction vs arbitrary: ump cv sv)
  case Nil
  show ?case by simp
next
  case (Cons v vs)
  have app: "map JsStr sv @ [JsStr v] = map JsStr (sv @ [v])" by simp
  show ?case
    by (simp only: list.map user_volumes_json.simps user_volumes.simps colon_in.simps
        and_then_Inr json.case Let_def app Cons.IH split: if_splits) simp
qed

lemma default_volumes_loop_json_strings:
  "default_volumes_loop_json (JsStr n) ump ds (cv, map JsStr sv) =
     Inr (case default_volumes_loop n ump ds (cv, sv) of (b, c) \<Rightarrow> (b, map JsStr c))"
proof (induction ds arbitrary: cv sv)
  case Nil
  show ?case by simp
next
  case (Cons d ds)
  have app: "map JsStr sv @ [JsStr v] = map JsStr (sv @ [v])" for v by simp
  show ?case
    by (simp only: default_volumes_loop_json.simps default_volumes_loop.simps
        json.case Let_def app Cons.IH split: if_splits) simp
qed

lemma absent_or_string:
  "absent_or is_string field \<Longrightarrow>
   (case field of Some v \<Rightarrow> v | None \<Rightarrow> JsStr dflt) =
     JsStr (case map_option str_val field of Some s \<Rightarrow> s | None \<Rightarrow> dflt)"
  by (cases field) (simp_all add: absent_or_def is_string_val)

lemma absent_or_string_list:
  "absent_or is_string_list field \<Longrightarrow>
   (case field of Some v \<Rightarrow> v | None \<Rightarrow> JsList []) =
     JsList (map JsStr (case field of None \<Rightarrow> [] | Some v \<Rightarrow> map str_val (items_of v)))"
  by (cases field) (simp_all add: absent_or_def is_string_list_val [simplified])

lemma absent_or_string_dict:
  "absent_or is_string_dict field \<Longrightarrow>
   (case field of Some v \<Rightarrow> v | None \<Rightarrow> JsDict []) =
     JsDict (map (\<lambda>item. (fst item, JsStr (snd item)))
              (case field of None \<Rightarrow> []
               | Some v \<Rightarrow> map (\<lambda>item. (fst item, str_val (snd item))) (pairs_of v)))"
  by (cases field) (simp_all add: absent_or_def is_string_dict_val [simplified])

lemma absent_or_command:
  "absent_or is_string field \<Longrightarrow>
   (case field of Some v \<Rightarrow> v | None \<Rightarrow> JsNull) =
     (case map_option str_val field of None \<Rightarrow> JsNull | Some c \<Rightarrow> JsStr c)"
  by (cases field) (simp_all add: absent_or_def is_string_val)

lemma absent_or_depends_on:
  "absent_or is_string_list field \<Longrightarrow>
   (case field of Some v \<Rightarrow> v | None \<Rightarrow> JsList []) =
     JsList (map JsStr (case map_option (\<lambda>v. map str_val (items_of v)) field of
                          Some ds \<Rightarrow> ds | None \<Rightarrow> []))"
  by (cases field) (simp_all add: absent_or_def is_string_list_val [simplified])

lemma decode_spec_fields:
  assumes "decode_spec svc = Some s"
  shows "json_get svc ''name'' (JsStr ''service'') = Inr (JsStr (name_of s))"
    and "json_get svc ''image'' (JsStr ''alpine:latest'') = Inr (JsStr (image_of s))"
    and "json_get svc ''ports'' (JsList []) = Inr (JsList (map JsStr (spec_ports s)))"
    and "json_get svc ''environment'' (JsDict []) =
           Inr (JsDict (map (\<lambda>item. (fst item, JsStr (snd item))) (spec_environment s)))"
    and "json_get svc ''volumes'' (JsList []) = Inr (JsList (map JsStr (spec_volumes s)))"
    and "json_get svc ''command'' JsNull =
           Inr (case spec_command s of None \<Rightarrow> JsNull | Some c \<Rightarrow> JsStr c)"
    and "json_get svc ''depends_on'' (JsList []) =
           Inr (JsList (map JsStr (case spec_depends_on s of Some ds \<Rightarrow> ds | None \<Rightarrow> [])))"
    and "json_get svc ''memory_limit'' (JsStr ''512M'') =
           Inr (JsStr (case spec_memory_limit s of Some m \<Rightarrow> m | None \<Rightarrow> ''512M''))"
    and "json_get svc ''cpu_limit'' (JsStr ''0.5'') =
           Inr (JsStr (case spec_cpu_limit s of Some c \<Rightarrow> c | None \<Rightarrow> ''0.5''))"
proof -
  from assms obtain items where svc: "svc = JsDict items"
    by (cases svc) (simp_all add: decode_spec_def)
  let ?field = "map_of (rev items)"
  from assms have ok: "absent_or is_string (?field ''name'')" "absent_or is_string (?field ''image'')"
      "absent_or is_string_list (?field ''ports'')"
      "absent_or is_string_dict (?field ''environment'')"
      "absent_or is_string_list (?field ''volumes'')"
      "absent_or is_string (?field ''command'')"
      "absent_or is_string_list (?field ''depends_on'')"
      "absent_or is_string (?field ''memory_limit'')"
      "absent_or is_string (?field ''cpu_limit'')"
    by (simp_all add: svc decode_spec_def Let_def split: if_splits)
  from assms have s: "s =
      \<lparr>spec_name = map_option str_val (?field ''name''),
       spec_image = map_option str_val (?field ''image''),
       spec_ports = (case ?field ''ports'' of None \<Rightarrow> [] | Some v \<Rightarrow> map str_val (items_of v)),
       spec_environment = (case ?field ''environment'' of None \<Rightarrow> []
                           | Some v \<Rightarrow> map (\<lambda>item. (fst item, str_val (snd item))) (pairs_of v)),
       spec_volumes = (case ?field ''volumes'' of None \<Rightarrow> [] | Some v \<Rightarrow> map str_val (items_of v)),
       spec_command = map_option str_val (?field ''command''),
       spec_depends_on = map_option (\<lambda>v. map str_val (items_of v)) (?field ''depends_on''),
       spec_memory_limit = map_option str_val (?field ''memory_limit''),
       spec_cpu_limit = map_option str_val (?field ''cpu_limit'')\<rparr>"
    by (simp add: svc decode_spec_def Let_def split: if_splits)
  show "json_get svc ''name'' (JsStr ''service'') = Inr (JsStr (name_of s))"
    using absent_or_string [OF ok(1)] by (simp add: svc s name_of_def)
  show "json_get svc ''image'' (JsStr ''alpine:latest'') = Inr (JsStr (image_of s))"
    using absent_or_string [OF ok(2)] by (simp add: svc s image_of_def)
  show "json_get svc ''ports'' (JsList []) = Inr (JsList (map JsStr (spec_ports s)))"
    using absent_or_string_list [OF ok(3)] by (simp add: svc s)
  show "json_get svc ''environment'' (JsDict []) =
           Inr (JsDict (map (\<lambda>item. (fst item, JsStr (snd item))) (spec_environment s)))"
    using absent_or_string_dict [OF ok(4)] by (simp add: svc s)
  show "json_get svc ''volumes'' (JsList []) = Inr (JsList (map JsStr (spec_volumes s)))"
    using absent_or_string_list [OF ok(5)] by (simp add: svc s)
  show "json_get svc ''command'' JsNull =
           Inr (case spec_command s of None \<Rightarrow> JsNull | Some c \<Rightarrow> JsStr c)"
    using absent_or_command [OF ok(6)] by (simp add: svc s)
  show "json_get svc ''depends_on'' (JsList []) =
           Inr (JsList (map JsStr (case spec_depends_on s of Some ds \<Rightarrow> ds | None \<Rightarrow> [])))"
    using absent_or_depends_on [OF ok(7)] by (simp add: svc s)
  show "json_get svc ''memory_limit'' (JsStr ''512M'') =
           Inr (JsStr (case spec_memory_limit s of Some m \<Rightarrow> m | None \<Rightarrow> ''512M''))"
    using absent_or_string [OF ok(8)] by (simp add: svc s)
  show "json_get svc ''cpu_limit'' (JsStr ''0.5'') =
           Inr (JsStr (case spec_cpu_limit s of Some c \<Rightarrow> c | None \<Rightarrow> ''0.5''))"
    using absent_or_string [OF ok(9)] by (simp add: svc s)
qed

lemma info_of_json_decoded:
  assumes "decode_spec svc = Some s"
  shows "info_of_json svc = Inr (info_json (info_of s))"
  by (simp add: info_of_json_def decode_spec_fields(1,2) [OF assms] info_json_def info_of_def Let_def)

lemma services_info_json_decoded:
  "decode_specs entries = Some specs \<Longrightarrow>
   services_info_json entries = Inr (map info_json (map info_of specs))"
proof (induction entries arbitrary: specs)
  case Nil
  then show ?case by simp
next
  case (Cons svc rest)
  from Cons.prems obtain s specs' where s: "decode_spec svc = Some s"
    and r: "decode_specs rest = Some specs'" and e: "specs = s # specs'"
    by (auto split: option.splits)
  show ?case by (simp add: e info_of_json_decoded [OF s] Cons.IH [OF r])
qed

lemma by_stage_json_typed:
  "by_stage_json (map info_json infos) n = map JsStr (by_stage infos n)"
  by (induction infos) (simp_all add: by_stage_json_def by_stage_def info_json_def)

lemma deps_json_upd:
  "(deps_json deps)(KStr name \<mapsto> map JsStr ds) = deps_json (deps(name \<mapsto> ds))"
  by (rule ext) (simp add: deps_json_def split: key.splits)

lemma deps_json_empty: "Map.empty = deps_json Map.empty"
  by (rule ext) (simp add: deps_json_def split: key.splits)

lemma fold_deps_json:
  assumes "\<And>name deps. f (JsStr name) (Inr (deps_json deps)) = Inr (deps_json (g name deps))"
  shows "fold f (map JsStr names) (Inr (deps_json deps0)) = Inr (deps_json (fold g names deps0))"
proof (induction names arbitrary: deps0)
  case Nil
  show ?case by simp
next
  case (Cons name names)
  show ?case by (simp only: list.map fold_simps assms Cons.IH)
qed

lemma auto_detect_dependencies_json_typed:
  "auto_detect_dependencies_json (map info_json infos) =
     Inr (deps_json (auto_detect_dependencies infos))"
proof -
  let ?s1 = "by_stage infos 1" and ?s2 = "by_stage infos 2" and ?s3 = "by_stage infos 3"
  let ?g2 = "\<lambda>name deps. if ?s1 \<noteq> [] then deps(name \<mapsto> ?s1) else deps"
  let ?g3 = "\<lambda>name deps. if ?s2 \<noteq> [] then deps(name \<mapsto> ?s2)
                           else if ?s1 \<noteq> [] then deps(name \<mapsto> ?s1) else deps"
  let ?f2 = "\<lambda>name r. and_then r (\<lambda>deps.
               if map JsStr ?s1 \<noteq> [] then and_then (key_of name) (\<lambda>k. Inr (deps(k \<mapsto> map JsStr ?s1)))
               else Inr deps)"
  let ?f3 = "\<lambda>name r. and_then r (\<lambda>deps.
               if map JsStr ?s2 \<noteq> [] then and_then (key_of name) (\<lambda>k. Inr (deps(k \<mapsto> map JsStr ?s2)))
               else if map JsStr ?s1 \<noteq> [] then and_then (key_of name) (\<lambda>k. Inr (deps(k \<mapsto> map JsStr ?s1)))
               else Inr deps)"
  have a: "fold ?f2 (map JsStr ?s2) (Inr (deps_json Map.empty)) =
           Inr (deps_json (fold ?g2 ?s2 Map.empty))"
    by (rule fold_deps_json) (simp add: deps_json_upd)
  have b: "fold ?f3 (map JsStr ?s3) (Inr (deps_json deps0)) = Inr (deps_json (fold ?g3 ?s3 deps0))"
    for deps0
    by (rule fold_deps_json) (simp add: deps_json_upd)
  have e: "Inr Map.empty = Inr (deps_json Map.empty)"
    using deps_json_empty by simp
  show ?thesis
    unfolding auto_detect_dependencies_json_def auto_detect_dependencies_def Let_def
      by_stage_json_typed e a b ..
qed

lemma services_json_upd:
  "(services_json m)(KStr name \<mapsto> def_json d) = services_json (m(name \<mapsto> d))"
  by (rule ext) (simp add: services_json_def split: key.splits)

lemma services_json_empty: "Map.empty = services_json Map.empty"
  by (rule ext) (simp add: services_json_def split: key.splits)

lemma truthy_strings [simp]: "truthy (JsList (map JsStr xs)) = (xs \<noteq> [])"
  by simp

lemma build_service_json_decoded:
  assumes "decode_spec svc = Some s"
  shows "build_service_json now (deps_json auto_deps) svc (info_json info) compose_volumes =
           Inr (case build_service now auto_deps s info compose_volumes of
                  (name, d, compose_volumes') \<Rightarrow> (KStr name, def_json d, compose_volumes'))"
proof -
  note f = decode_spec_fields [OF assms]
  obtain ump cv1 sv1 where uv:
    "user_volumes (spec_volumes s) ([], compose_volumes, []) = (ump, cv1, sv1)"
    by (cases "user_volumes (spec_volumes s) ([], compose_volumes, [])")
  let ?defaults = "(case info_svc_type info of None \<Rightarrow> None
                    | Some t \<Rightarrow> if t \<noteq> [] then map_of SERVICE_DEFAULTS t else None)"
  obtain cv2 sv2 where dv:
    "default_volumes_loop (name_of s) ump
       (case ?defaults of Some d \<Rightarrow> default_volumes d | None \<Rightarrow> []) (cv1, sv1) = (cv2, sv2)"
    by (cases "default_volumes_loop (name_of s) ump
       (case ?defaults of Some d \<Rightarrow> default_volumes d | None \<Rightarrow> []) (cv1, sv1)")
  have uvj: "user_volumes_json (map JsStr (spec_volumes s)) ([], compose_volumes, []) =
      Inr (ump, cv1, map JsStr sv1)"
    using user_volumes_json_strings [of "spec_volumes s" "[]" compose_volumes "[]"] uv by simp
  have dvj: "default_volumes_loop_json (JsStr (name_of s)) ump
       (case ?defaults of Some d \<Rightarrow> default_volumes d | None \<Rightarrow> []) (cv1, map JsStr sv1) =
      Inr (cv2, map JsStr sv2)"
    using default_volumes_loop_json_strings [of "name_of s" ump _ cv1 sv1] dv by simp
  have ij: "ij_svc_type (info_json info) = info_svc_type info" "ij_role (info_json info) = info_role info"
    by (simp_all add: info_json_def)
  show ?thesis
    unfolding build_service_json_def build_service_def f and_then_Inr Let_def ij
    by (simp add: uv dv uvj dvj dict_keys_json_strings deps_json_def def_json_def
        split: option.splits)
qed

lemma build_services_json_decoded:
  "decode_specs entries = Some specs \<Longrightarrow> length infos = length specs \<Longrightarrow>
   build_services_json now (deps_json auto_deps) (zip entries (map info_json infos))
     (services_json compose_services, compose_volumes) =
   Inr (case build_services now auto_deps (zip specs infos) (compose_services, compose_volumes) of
          (compose_services', compose_volumes') \<Rightarrow>
            (services_json compose_services', compose_volumes'))"
proof (induction entries arbitrary: specs infos compose_services compose_volumes)
  case Nil
  then show ?case by simp
next
  case (Cons svc rest)
  from Cons.prems(1) obtain s specs' where s: "decode_spec svc = Some s"
    and r: "decode_specs rest = Some specs'" and e: "specs = s # specs'"
    by (auto split: option.splits)
  from Cons.prems(2) e obtain info infos' where i: "infos = info # infos'"
    and l: "length infos' = length specs'"
    by (cases infos) auto
  obtain d cv' where b: "build_service now auto_deps s info compose_volumes = (name_of s, d, cv')"
    by (rule build_service_triple)
  have bj: "build_service_json now (deps_json auto_deps) svc (info_json info) compose_volumes =
      Inr (KStr (name_of s), def_json d, cv')"
    using build_service_json_decoded [OF s, of now auto_deps info compose_volumes] b by simp
  have "build_services_json now (deps_json auto_deps)
          (zip (svc # rest) (map info_json infos)) (services_json compose_services, compose_volumes) =
        build_services_json now (deps_json auto_deps) (zip rest (map info_json infos'))
          (services_json (compose_services(name_of s \<mapsto> d)), cv')"
    by (simp only: i list.map zip_Cons_Cons build_services_json.simps bj and_then_Inr prod.case
        services_json_upd)
  also have "\<dots> = Inr (case build_services now auto_deps (zip specs' infos')
                            (compose_services(name_of s \<mapsto> d), cv') of
                       (compose_services', compose_volumes') \<Rightarrow>
                         (services_json compose_services', compose_volumes'))"
    by (rule Cons.IH [OF r l])
  also have "build_services now auto_deps (zip specs' infos')
               (compose_services(name_of s \<mapsto> d), cv') =
             build_services now auto_deps (zip specs infos) (compose_services, compose_volumes)"
    by (simp only: e i zip_Cons_Cons build_services.simps b prod.case)
  finally show ?case .
qed

lemma build_compose_json_decoded:
  assumes "decode_services svc_list = Some specs"
  shows "build_compose_json now svc_list = Inr (plan_json (build_compose now specs))"
proof -
  from assms obtain entries where v: "svc_list = JsList entries"
    and d: "decode_specs entries = Some specs"
    by (cases svc_list) simp_all
  obtain cs cv where b:
    "build_services now (auto_detect_dependencies (map info_of specs))
       (zip specs (map info_of specs)) (Map.empty, []) = (cs, cv)"
    by (cases "build_services now (auto_detect_dependencies (map info_of specs))
       (zip specs (map info_of specs)) (Map.empty, [])")
  have bj: "build_services_json now (deps_json (auto_detect_dependencies (map info_of specs)))
       (zip entries (map info_json (map info_of specs))) (Map.empty, []) =
      Inr (services_json cs, cv)"
    using build_services_json_decoded
      [OF d, of "map info_of specs" now "auto_detect_dependencies (map info_of specs)" Map.empty "[]"]
      b services_json_empty
    by (simp del: map_map)
  show ?thesis
    by (simp add: build_compose_json_def v services_info_json_decoded [OF d]
        auto_detect_dependencies_json_typed bj build_compose_def b plan_json_def Let_def
        del: map_map)
qed

lemma generate_decoded:
  assumes "loads services_text = Inr svc_list" and "decode_services svc_list = Some specs"
  shows "compose_generate loads now openable compose_dir services_text output_filename =
     (if output_filename \<noteq> [] \<and> openable output_filename
      then (Generated output_filename (plan_json (build_compose now specs)),
            compose_dir(output_filename \<mapsto> plan_json (build_compose now specs)))
      else (Raises OSError, compose_dir))"
  by (simp add: compose_generate_def assms(1) build_compose_json_decoded [OF assms(2)])







subsection \<open>Dependencies in the plan\<close>

lemma decode_entry:
  "decode_spec (entry name img) = Some (service name img None)"
  "decode_spec (entry_with_deps name img deps) = Some (service name img (Some deps))"
  by (simp_all add: decode_spec_def entry_def entry_with_deps_def service_def absent_or_def
      list_all_iff comp_def)

lemma decode_lists:
  "decode_services clean_json = Some clean_list"
  "decode_services upward_json = Some upward_list"
  "decode_services empty_deps_json = Some empty_deps_list"
  "decode_services empty_name_json = Some empty_name_list"
  by (simp_all add: clean_json_def clean_list_def upward_json_def upward_list_def
      empty_deps_json_def empty_deps_list_def empty_name_json_def empty_name_list_def decode_entry)

text \<open>
  Claim C3, amended. For every text that parses to a list of well-typed entries with
  unique names, the compiler returns the plan of the typed compiler (or raises OSError
  when the output file cannot be opened), and in that plan no service that comes without
  a non-empty dependency list of the caller depends on a service of the same or a higher
  stage: its dependencies are inferred, and they name services of strictly lower stages
  only.
\<close>

theorem inferred_dependencies_point_to_lower_stages:
  assumes "distinct (map name_of svc_list)"
    and "loads services_text = Inr parsed"
    and "decode_services parsed = Some svc_list"
  shows "fst (compose_generate loads now openable compose_dir services_text output_filename) =
           (if output_filename \<noteq> [] \<and> openable output_filename
            then Generated output_filename (plan_json (build_compose now svc_list))
            else Raises OSError) \<and>
         inferred_stage_monotonic svc_list (build_compose now svc_list)"
proof -
  have "lower_stage_deps svc_list (build_compose now svc_list) (name_of svc)"
    if m: "svc \<in> set svc_list" and e: "explicit_deps svc = []" for svc
  proof -
    from assms(1) m obtain def where
      s: "services (build_compose now svc_list) (name_of svc) = Some def"
      and dd: "deps_of def = code_dependencies svc_list svc"
      by (rule plan_dependencies)
    have own: "plan_stage svc_list (name_of svc) = Some (stage_of svc)"
      using assms(1) m by (rule plan_stage_unique)
    have "\<exists>k. plan_stage svc_list dep = Some k \<and> k < stage_of svc"
      if "dep \<in> set (inferred_dependencies svc_list svc)" for dep
    proof -
      from that obtain k where k: "dep \<in> set (names_at svc_list k)" "k < stage_of svc"
        by (auto simp: inferred_dependencies_def split: if_splits)
      then obtain svc' where "svc' \<in> set svc_list" "stage_of svc' = k" "name_of svc' = dep"
        by (auto simp: names_at_def)
      with plan_stage_unique [OF assms(1), of svc'] k show ?thesis by auto
    qed
    then have "(case plan_stage svc_list dep of
                  None \<Rightarrow> True
                | Some m \<Rightarrow> (case plan_stage svc_list (name_of svc) of
                               None \<Rightarrow> True
                             | Some n \<Rightarrow> m < n))"
      if "dep \<in> set (inferred_dependencies svc_list svc)" for dep
      using that own by fastforce
    then show ?thesis
      by (simp add: lower_stage_deps_def s dd code_dependencies_def e list_all_iff)
  qed
  then have "inferred_stage_monotonic svc_list (build_compose now svc_list)"
    by (simp add: inferred_stage_monotonic_def list_all_iff)
  then show ?thesis
    by (simp add: generate_decoded [where loads = loads and services_text = services_text, OF assms(2,3)])
qed

lemma clean_distinct: "distinct (map name_of clean_list)"
  by (simp add: clean_list_def service_fields)

theorem inferred_dependencies_point_to_lower_stages_witness:
  "distinct (map name_of clean_list) \<and>
   loads_as clean_json clean_text = Inr clean_json \<and>
   decode_services clean_json = Some clean_list \<and>
   fst (compose_generate (loads_as clean_json) ''2026-01-01T00:00:00'' every_file_opens Map.empty
          clean_text ''docker-compose.yml'') =
     Generated ''docker-compose.yml'' (plan_json (build_compose ''2026-01-01T00:00:00'' clean_list)) \<and>
   inferred_stage_monotonic clean_list (build_compose ''2026-01-01T00:00:00'' clean_list)"
proof -
  have d: "distinct (map name_of clean_list)"
    by (simp add: clean_list_def service_fields)
  have l: "loads_as clean_json clean_text = Inr clean_json"
    by (simp add: loads_as_def)
  note c = decode_lists(1)
  have o: "every_file_opens ''docker-compose.yml''"
    by (simp add: every_file_opens_def)
  from d l c o inferred_dependencies_point_to_lower_stages
      [where loads = "loads_as clean_json" and services_text = clean_text
         and openable = every_file_opens and output_filename = "''docker-compose.yml''",
       OF d l c]
  show ?thesis by simp
qed

lemma upward_distinct: "distinct (map name_of upward_list)"
  by (simp add: upward_list_def service_fields)

text \<open>
  Claim C3 as stated fails: a dependency list of the caller is copied into the plan
  unchecked. For the text
  \<^verbatim>\<open>[{"name": "db", "image": "postgres:15", "depends_on": ["web"]}, {"name": "web", "image": "nginx:latest"}]\<close>
  the database (stage 1) is compiled with its dependency on the proxy (stage 3).
\<close>

theorem explicit_dependency_on_higher_stage:
  "decode_services upward_json = Some upward_list \<and>
   fst (compose_generate (loads_as upward_json) ''2026-01-01T00:00:00'' every_file_opens Map.empty
          upward_text ''docker-compose.yml'') =
     Generated ''docker-compose.yml'' (plan_json (build_compose ''2026-01-01T00:00:00'' upward_list)) \<and>
   \<not> stage_monotonic upward_list (build_compose ''2026-01-01T00:00:00'' upward_list)"
proof -
  let ?db = "service ''db'' ''postgres:15'' (Some [''web''])"
  let ?web = "service ''web'' ''nginx:latest'' None"
  have mdb: "?db \<in> set upward_list" and mweb: "?web \<in> set upward_list"
    by (simp_all add: upward_list_def)
  from upward_distinct mdb obtain def where
    s: "services (build_compose ''2026-01-01T00:00:00'' upward_list) (name_of ?db) = Some def"
    and dd: "deps_of def = code_dependencies upward_list ?db"
    by (rule plan_dependencies)
  have deps: "deps_of def = [''web'']"
    by (simp add: dd code_dependencies_def service_fields)
  have sdb: "plan_stage upward_list ''db'' = Some 1"
    using plan_stage_unique [OF upward_distinct mdb] by (simp add: service_fields stages)
  have sweb: "plan_stage upward_list ''web'' = Some 3"
    using plan_stage_unique [OF upward_distinct mweb] by (simp add: service_fields stages)
  have "\<not> lower_stage_deps upward_list (build_compose ''2026-01-01T00:00:00'' upward_list) ''db''"
    using s by (simp add: lower_stage_deps_def service_fields deps sdb sweb)
  then have n: "\<not> stage_monotonic upward_list (build_compose ''2026-01-01T00:00:00'' upward_list)"
    by (simp add: stage_monotonic_def upward_list_def service_fields)
  have l: "loads_as upward_json upward_text = Inr upward_json"
    by (simp add: loads_as_def)
  from n decode_lists(2) show ?thesis
    by (simp add: generate_decoded [where loads = "loads_as upward_json" and services_text = upward_text, OF l decode_lists(2)] every_file_opens_def)
qed

text \<open>
  Claim C4, amended. For every text that parses to a list of well-typed entries with
  unique names, and every service of it, the dependencies of the compiled service are:
  the names of the caller's list, each once in the order of first occurrence, when that
  list is not empty; otherwise (no list, or an empty one) the inferred ones: all stage-1
  services for a stage-2 service, all stage-2 services (or all stage-1 services when
  there is no stage-2 service) for a stage-3 service, none for a stage-1 service.
\<close>

theorem dependencies_of_compiled_service:
  assumes "distinct (map name_of svc_list)"
    and "loads services_text = Inr parsed"
    and "decode_services parsed = Some svc_list"
    and "svc \<in> set svc_list"
  shows "fst (compose_generate loads now openable compose_dir services_text output_filename) =
           (if output_filename \<noteq> [] \<and> openable output_filename
            then Generated output_filename (plan_json (build_compose now svc_list))
            else Raises OSError) \<and>
         map_option deps_of (services (build_compose now svc_list) (name_of svc)) =
           Some (code_dependencies svc_list svc)"
proof -
  from assms(1,4) obtain def where
    "services (build_compose now svc_list) (name_of svc) = Some def"
    and "deps_of def = code_dependencies svc_list svc"
    by (rule plan_dependencies)
  then show ?thesis
    by (simp add: generate_decoded [where loads = loads and services_text = services_text, OF assms(2,3)])
qed

lemma clean_names:
  "names_at clean_list 1 = [''cache'']" "names_at clean_list 2 = [''api'']"
  by (simp_all add: names_at_def clean_list_def stages service_fields)

theorem dependencies_of_compiled_service_witness:
  "distinct (map name_of clean_list) \<and>
   loads_as clean_json clean_text = Inr clean_json \<and>
   decode_services clean_json = Some clean_list \<and>
   service ''edge'' ''nginx:latest'' None \<in> set clean_list \<and>
   fst (compose_generate (loads_as clean_json) ''2026-01-01T00:00:00'' every_file_opens Map.empty
          clean_text ''docker-compose.yml'') =
     Generated ''docker-compose.yml'' (plan_json (build_compose ''2026-01-01T00:00:00'' clean_list)) \<and>
   map_option deps_of (services (build_compose ''2026-01-01T00:00:00'' clean_list) ''edge'') =
     Some [''api''] \<and>
   map_option deps_of (services (build_compose ''2026-01-01T00:00:00'' clean_list) ''api'') =
     Some [''cache''] \<and>
   map_option deps_of (services (build_compose ''2026-01-01T00:00:00'' clean_list) ''cache'') =
     Some []"
proof -
  have d: "distinct (map name_of clean_list)"
    by (simp add: clean_list_def service_fields)
  have l: "loads_as clean_json clean_text = Inr clean_json"
    by (simp add: loads_as_def)
  note c = decode_lists(1)
  have o: "every_file_opens ''docker-compose.yml''"
    by (simp add: every_file_opens_def)
  have m: "service ''edge'' ''nginx:latest'' None \<in> set clean_list"
      "service ''api'' ''python:3.11'' None \<in> set clean_list"
      "service ''cache'' ''redis:7'' None \<in> set clean_list"
    by (simp_all add: clean_list_def)
  note t = dependencies_of_compiled_service
      [where loads = "loads_as clean_json" and services_text = clean_text
         and now = "''2026-01-01T00:00:00''" and compose_dir = Map.empty
         and openable = every_file_opens and output_filename = "''docker-compose.yml''",
       OF d l c]
  have cd: "code_dependencies clean_list (service ''edge'' ''nginx:latest'' None) = [''api'']"
      "code_dependencies clean_list (service ''api'' ''python:3.11'' None) = [''cache'']"
      "code_dependencies clean_list (service ''cache'' ''redis:7'' None) = []"
    using clean_names by (simp_all add: code_dependencies_def inferred_dependencies_def service_fields stages)
  from d l c o m(1) t [OF m(1)] t [OF m(2)] t [OF m(3)] show ?thesis
    by (simp add: cd service_fields)
qed

lemma empty_deps_distinct: "distinct (map name_of empty_deps_list)"
  by (simp add: empty_deps_list_def service_fields)

text \<open>
  Claim C4 as stated fails: a backend whose caller supplied the explicit list \<open>[]\<close>
  should get exactly that list, with inference skipped; the code cannot tell an empty
  list from an absent one and infers the dependency on the database. The text is
  \<^verbatim>\<open>[{"name": "db", "image": "postgres:15"}, {"name": "api", "image": "python:3.11", "depends_on": []}]\<close>.
\<close>

theorem explicit_empty_list_is_inferred:
  "decode_services empty_deps_json = Some empty_deps_list \<and>
   spec_dependencies empty_deps_list (service ''api'' ''python:3.11'' (Some [])) = [] \<and>
   map_option deps_of
     (services (build_compose ''2026-01-01T00:00:00'' empty_deps_list) ''api'') = Some [''db''] \<and>
   fst (compose_generate (loads_as empty_deps_json) ''2026-01-01T00:00:00'' every_file_opens Map.empty
          empty_deps_text ''docker-compose.yml'') =
     Generated ''docker-compose.yml''
       (plan_json (build_compose ''2026-01-01T00:00:00'' empty_deps_list))"
proof -
  let ?api = "service ''api'' ''python:3.11'' (Some [])"
  have m: "?api \<in> set empty_deps_list" by (simp add: empty_deps_list_def)
  from empty_deps_distinct m obtain def where
    s: "services (build_compose ''2026-01-01T00:00:00'' empty_deps_list) (name_of ?api) = Some def"
    and dd: "deps_of def = code_dependencies empty_deps_list ?api"
    by (rule plan_dependencies)
  have n: "names_at empty_deps_list 1 = [''db'']"
    by (simp add: names_at_def empty_deps_list_def stages service_fields)
  have "deps_of def = [''db'']"
    using n by (simp add: dd code_dependencies_def inferred_dependencies_def service_fields stages)
  with s have a: "map_option deps_of
     (services (build_compose ''2026-01-01T00:00:00'' empty_deps_list) ''api'') = Some [''db'']"
    by (simp add: service_fields)
  have b: "spec_dependencies empty_deps_list ?api = []"
    by (simp add: spec_dependencies_def service_fields)
  have l: "loads_as empty_deps_json empty_deps_text = Inr empty_deps_json"
    by (simp add: loads_as_def)
  from a b decode_lists(3) show ?thesis
    by (simp add: generate_decoded [where loads = "loads_as empty_deps_json" and services_text = empty_deps_text, OF l decode_lists(3)] every_file_opens_def)
qed

subsection \<open>The outcomes of the compiler\<close>


lemma entry_keys [simp]:
  "entry_key (entry name img) = Some (KStr name)"
  "entry_key (entry_with_deps name img deps) = Some (KStr name)"
  by (simp_all add: entry_def entry_with_deps_def)






end
